theory Spec2Isabelle
  imports Main "HOL-Library.Word"
begin

unbundle bit_operations_syntax

section \<open>Machine types and the Direct3D 10 device\<close>

text \<open>
  The development embeds \<^verbatim>\<open>source/d3d10/runtime_d3d10.cpp\<close>. Fixed-width
  integers are words, so arithmetic wraps as in the C++ code. A COM object is
  represented by its identity (a \<open>handle\<close>); a \<open>com_ptr\<close> is an optional handle,
  \<open>None\<close> being \<open>nullptr\<close>. Process memory reached through a raw pointer is a
  function from byte offsets (relative to the pointer) to bytes.
\<close>

type_synonym u8 = "8 word"
type_synonym u32 = "32 word"
type_synonym u64 = "64 word"
type_synonym size_t = "64 word"
type_synonym handle = nat
type_synonym memory = "nat \<Rightarrow> u8"

text \<open>
  A resource view (\<open>ID3D10ShaderResourceView\<close>, \<open>ID3D10RenderTargetView\<close>) is
  immutable once created: besides its identity it carries the resource it was
  created on (what \<open>GetResource\<close> returns) and the number of mip levels
  (what \<open>GetDesc\<close> reports in \<open>Texture2D.MipLevels\<close>).
\<close>

record view =
  view_id :: handle
  view_resource :: handle
  view_mip_levels :: u32

datatype DXGI_FORMAT =
    DXGI_FORMAT_UNKNOWN
  | DXGI_FORMAT_R32G32B32A32_FLOAT
  | DXGI_FORMAT_R16G16B16A16_FLOAT
  | DXGI_FORMAT_R16G16B16A16_UNORM
  | DXGI_FORMAT_R32G32_FLOAT
  | DXGI_FORMAT_R10G10B10A2_UNORM
  | DXGI_FORMAT_R8G8B8A8_TYPELESS
  | DXGI_FORMAT_R8G8B8A8_UNORM
  | DXGI_FORMAT_R8G8B8A8_UNORM_SRGB
  | DXGI_FORMAT_R16G16_FLOAT
  | DXGI_FORMAT_R16G16_UNORM
  | DXGI_FORMAT_R32_FLOAT
  | DXGI_FORMAT_D24_UNORM_S8_UINT
  | DXGI_FORMAT_R8G8_UNORM
  | DXGI_FORMAT_R16_FLOAT
  | DXGI_FORMAT_R8_UNORM
  | DXGI_FORMAT_B8G8R8A8_UNORM
  | DXGI_FORMAT_B8G8R8A8_UNORM_SRGB

datatype D3D10_FEATURE_LEVEL =
    D3D10_FEATURE_LEVEL_10_0
  | D3D10_FEATURE_LEVEL_10_1
  | D3D10_FEATURE_LEVEL_9_1
  | D3D10_FEATURE_LEVEL_9_2
  | D3D10_FEATURE_LEVEL_9_3
  | D3D10_FEATURE_LEVEL_OTHER

text \<open>The commands the runtime issues to the device, in the order issued.\<close>

datatype command =
    QueryBegin handle
  | QueryEnd handle
  | IASetPrimitiveTopology
  | IASetInputLayout
  | IASetVertexBuffers
  | RSSetState "handle option"
  | VSSetSamplers "handle option list"
  | PSSetSamplers "handle option list"
  | WriteConstantBuffer handle "u8 list"
  | VSSetConstantBuffers handle
  | PSSetConstantBuffers handle
  | GSSetShader
  | VSSetShader "handle option"
  | PSSetShader "handle option"
  | OMSetBlendState "handle option"
  | OMSetDepthStencilState "handle option" u32
  | CopyResource "handle option" "handle option"
  | VSSetShaderResources "view option list"
  | PSSetShaderResources "view option list"
  | OMSetRenderTargets "view option list" "handle option"
  | ClearDepthStencilView "handle option"
  | ClearRenderTargetView view
  | RSSetViewports u32 u32
  | Draw u32
  | GenerateMips "view option"
  | UpdateSubresource "handle option" "u8 list" u32 u32

text \<open>
  The device hands out a fresh identity for every object it creates. Whether
  the \<open>n\<close>-th fallible call (a creation, or a \<open>Map\<close>) succeeds is not decided
  by the runtime: \<open>succeeds\<close> is the device's answer, indexed by the number of
  fallible calls made so far. Creating a view on a null resource fails.
\<close>

record d3d10_device =
  next_handle :: handle
  num_calls :: nat
  succeeds :: "nat \<Rightarrow> bool"
  commands :: "command list"

definition create_object :: "d3d10_device \<Rightarrow> handle option \<times> d3d10_device" where
  "create_object dev =
     (if succeeds dev (num_calls dev)
      then (Some (next_handle dev),
            dev\<lparr>next_handle := Suc (next_handle dev), num_calls := Suc (num_calls dev)\<rparr>)
      else (None, dev\<lparr>num_calls := Suc (num_calls dev)\<rparr>))"

definition create_view :: "handle option \<Rightarrow> u32 \<Rightarrow> d3d10_device \<Rightarrow> view option \<times> d3d10_device" where
  "create_view resource levels dev =
     (case resource of
        None \<Rightarrow> (None, dev\<lparr>num_calls := Suc (num_calls dev)\<rparr>)
      | Some r \<Rightarrow>
          (case create_object dev of
             (None, dev') \<Rightarrow> (None, dev')
           | (Some h, dev') \<Rightarrow>
               (Some \<lparr>view_id = h, view_resource = r, view_mip_levels = levels\<rparr>, dev')))"

definition fallible_call :: "d3d10_device \<Rightarrow> bool \<times> d3d10_device" where
  "fallible_call dev = (succeeds dev (num_calls dev), dev\<lparr>num_calls := Suc (num_calls dev)\<rparr>)"

definition issue :: "command \<Rightarrow> d3d10_device \<Rightarrow> d3d10_device" where
  "issue c dev = dev\<lparr>commands := commands dev @ [c]\<rparr>"

section \<open>The runtime's data\<close>

text \<open>
  The effect module, textures and techniques are declared in headers that
  are not part of this file (\<^verbatim>\<open>effect_module.hpp\<close>, \<^verbatim>\<open>runtime_objects.hpp\<close>);
  the records below hold the fields \<^verbatim>\<open>runtime_d3d10.cpp\<close> reads and writes.
  Floating-point fields are kept as their 32-bit patterns, which is all the
  code looks at (it copies them and hashes their bytes).
\<close>

datatype texture_format =
    unknown | r8 | r16f | r32f | rg8 | rg16 | rg16f | rg32f
  | rgba8 | rgba16 | rgba16f | rgba32f | rgb10a2

datatype texture_reference = none | back_buffer | depth_buffer

text \<open>A two-element C array (\<open>rtv[2]\<close>, \<open>srv[2]\<close>), indexed by 0 or 1.\<close>

type_synonym 'a array2 = "'a \<times> 'a"

definition at2 :: "'a array2 \<Rightarrow> nat \<Rightarrow> 'a" where
  "at2 a i = (if i = 0 then fst a else snd a)"

definition set2 :: "'a array2 \<Rightarrow> nat \<Rightarrow> 'a \<Rightarrow> 'a array2" where
  "set2 a i v = (if i = 0 then (v, snd a) else (fst a, v))"

record d3d10_tex_data =
  texture :: "handle option"
  rtv :: "view option array2"
  srv :: "view option array2"

record d3d10_pass_data =
  blend_state :: "handle option"
  depth_stencil_state :: "handle option"
  pixel_shader :: "handle option"
  vertex_shader :: "handle option"
  render_targets :: "view option list"
  render_target_resources :: "view option list"
  shader_resources :: "view option list"

record d3d10_effect_data =
  cb :: "handle option"

record d3d10_technique_data =
  query_in_flight :: bool
  timestamp_disjoint :: "handle option"
  timestamp_query_beg :: "handle option"
  timestamp_query_end :: "handle option"
  sampler_states :: "handle option list"
  texture_bindings :: "view option list"
  passes :: "d3d10_pass_data list"

record entry_point =
  name :: string
  is_pixel_shader :: bool

record sampler_info =
  unique_name :: string
  texture_name :: string
  binding :: nat
  texture_binding :: nat
  srgb :: bool
  filter_mode :: u32
  address_u :: u32
  address_v :: u32
  address_w :: u32
  min_lod :: u32
  max_lod :: u32
  lod_bias :: u32

record pass_info =
  render_target_names :: "string list"
  vs_entry_point :: string
  ps_entry_point :: string
  clear_render_targets :: bool
  srgb_write_enable :: bool
  blend_enable :: bool
  stencil_enable :: bool
  stencil_reference_value :: u32
  num_vertices :: u32
  viewport_width :: u32
  viewport_height :: u32

record effect_module =
  hlsl :: string
  entry_points :: "entry_point list"
  samplers :: "sampler_info list"
  num_sampler_bindings :: nat
  num_texture_bindings :: nat

record effect =
  source_file :: string
  preamble :: string
  module :: effect_module
  errors :: string
  assembly :: "string \<rightharpoonup> string"
  uniform_data_storage :: "u8 list"

record texture_object =
  tex_unique_name :: string
  width :: u32
  height :: u32
  levels :: u32
  format :: texture_format
  impl_reference :: texture_reference
  tex_impl :: "d3d10_tex_data option"

record technique =
  tech_name :: string
  effect_index :: nat
  tech_passes :: "pass_info list"
  average_gpu_duration :: "u64 list"
  tech_impl :: "d3d10_technique_data option"

text \<open>
  The members of \<open>runtime_d3d10\<close> (and of its base class \<open>runtime\<close>) that the
  modelled functions use. \<open>log\<close> is the output of \<open>LOG(ERROR)\<close>, one entry
  per message.
\<close>

record runtime_d3d10 =
  device :: d3d10_device
  log :: "string list"
  is_initialized :: bool
  renderer_id :: D3D10_FEATURE_LEVEL
  d3d_compiler :: "handle option"
  rt_width :: u32
  rt_height :: u32
  color_bit_depth :: nat
  backbuffer_format :: DXGI_FORMAT
  backbuffer_resolved :: "handle option"
  backbuffer_texture :: "handle option"
  backbuffer_rtv :: "view option array2"
  backbuffer_texture_srv :: "view option array2"
  depth_texture_srv :: "view option"
  effect_depthstencil :: "handle option"
  effect_rasterizer :: "handle option"
  effects :: "effect list"
  textures :: "texture_object list"
  techniques :: "technique list"
  effect_data :: "d3d10_effect_data list"
  effect_sampler_states :: "size_t \<rightharpoonup> handle"
  vertices :: u32
  drawcalls :: u32
  has_high_network_activity :: bool
  preserve_depth_buffers :: bool
  depth_clear_index_override :: u32
  filter_aspect_ratio :: bool
  depth_texture_override :: "handle option"

section \<open>Screenshot capture\<close>

record D3D10_MAPPED_TEXTURE2D =
  pData :: memory
  RowPitch :: nat

text \<open>\<open>*reinterpret_cast<const uint32_t *>(p)\<close> on a little-endian machine.\<close>

definition read_uint32 :: "memory \<Rightarrow> nat \<Rightarrow> u32" where
  "read_uint32 m a =
     ucast (m a) OR push_bit 8 (ucast (m (a + 1))) OR
     push_bit 16 (ucast (m (a + 2))) OR push_bit 24 (ucast (m (a + 3)))"

definition memcpy :: "memory \<Rightarrow> nat \<Rightarrow> memory \<Rightarrow> nat \<Rightarrow> nat \<Rightarrow> memory" where
  "memcpy dst d src s n = (\<lambda>a. if d \<le> a \<and> a < d + n then src (s + (a - d)) else dst a)"

definition swap :: "memory \<Rightarrow> nat \<Rightarrow> nat \<Rightarrow> memory" where
  "swap m a b = m(a := m b, b := m a)"

text \<open>The three channel bytes and the alpha byte written for one 10-bit pixel.\<close>

definition convert_10bit :: "u32 \<Rightarrow> u8 list" where
  "convert_10bit rgba =
     [ucast (((rgba AND 0x3FF) div 4) AND 0xFF),
      ucast (((drop_bit 10 (rgba AND 0xFFC00)) div 4) AND 0xFF),
      ucast (((drop_bit 20 (rgba AND 0x3FF00000)) div 4) AND 0xFF),
      0xFF]"

text \<open>
  The inner loops of \<open>capture_screenshot\<close>; \<open>buffer\<close> and \<open>mapped_data\<close> are the
  two row pointers, as offsets \<open>b\<close> and \<open>m\<close> into the output and the mapped memory.
  \<open>x\<close> steps by 4 up to \<open>pitch\<close>, a multiple of 4 below \<open>2 ^ 32\<close>, so the 32-bit
  counter does not wrap.
\<close>

function row_10bit :: "memory \<Rightarrow> nat \<Rightarrow> nat \<Rightarrow> nat \<Rightarrow> nat \<Rightarrow> memory \<Rightarrow> memory" where
  "row_10bit mapped_data m b pitch x buffer =
     (if x < pitch then
        (let rgba = read_uint32 mapped_data (m + x) in
         row_10bit mapped_data m b pitch (x + 4)
           (buffer(b + x + 0 := convert_10bit rgba ! 0,
                   b + x + 1 := convert_10bit rgba ! 1,
                   b + x + 2 := convert_10bit rgba ! 2,
                   b + x + 3 := convert_10bit rgba ! 3)))
      else buffer)"
  by pat_completeness auto
termination
  by (relation "measure (\<lambda>(mapped_data, m, b, pitch, x, buffer). pitch - x)") auto

declare row_10bit.simps [simp del]

function row_8bit :: "DXGI_FORMAT \<Rightarrow> nat \<Rightarrow> nat \<Rightarrow> nat \<Rightarrow> memory \<Rightarrow> memory" where
  "row_8bit fmt b pitch x buffer =
     (if x < pitch then
        (let buffer = buffer(b + x + 3 := 0xFF);
             buffer = (if fmt = DXGI_FORMAT_B8G8R8A8_UNORM \<or> fmt = DXGI_FORMAT_B8G8R8A8_UNORM_SRGB
                       then swap buffer (b + x + 0) (b + x + 2) else buffer)
         in row_8bit fmt b pitch (x + 4) buffer)
      else buffer)"
  by pat_completeness auto
termination
  by (relation "measure (\<lambda>(fmt, b, pitch, x, buffer). pitch - x)") auto

declare row_8bit.simps [simp del]

text \<open>
  The outer loop: one row per iteration, the output pointer advancing by
  \<open>pitch = _width * 4\<close> (a 32-bit product) and the mapped pointer by \<open>RowPitch\<close>.
\<close>

function capture_rows ::
  "runtime_d3d10 \<Rightarrow> D3D10_MAPPED_TEXTURE2D \<Rightarrow> nat \<Rightarrow> nat \<Rightarrow> nat \<Rightarrow> memory \<Rightarrow> memory" where
  "capture_rows rt mapped y b m buffer =
     (if y < unat (rt_height rt) then
        (let pitch = unat (rt_width rt * 4);
             buffer =
               (if color_bit_depth rt = 10
                then row_10bit (pData mapped) m b pitch 0 buffer
                else row_8bit (backbuffer_format rt) b pitch 0
                       (memcpy buffer b (pData mapped) m pitch))
         in capture_rows rt mapped (y + 1) (b + pitch) (m + RowPitch mapped) buffer)
      else buffer)"
  by pat_completeness auto
termination
  by (relation "measure (\<lambda>(rt, mapped, y, b, m, buffer). unat (rt_height rt) - y)") auto

declare capture_rows.simps [simp del]

text \<open>
  \<open>capture_screenshot\<close>: the staging texture is created and mapped (both can
  fail), the rows are converted into \<open>buffer\<close>, and the result says whether the
  capture happened. \<open>mapped\<close> is what \<open>Map\<close> returns: the copied back buffer.
\<close>

definition capture_screenshot ::
  "runtime_d3d10 \<Rightarrow> D3D10_MAPPED_TEXTURE2D \<Rightarrow> memory \<Rightarrow> bool \<times> memory \<times> runtime_d3d10" where
  "capture_screenshot rt mapped buffer =
     (case create_object (device rt) of
        (None, dev) \<Rightarrow>
          (False, buffer,
           rt\<lparr>device := dev,
              log := log rt @ [''Failed to create system memory texture for screenshot capture!'']\<rparr>)
      | (Some intermediate, dev) \<Rightarrow>
          (let dev = issue (CopyResource (Some intermediate) (backbuffer_resolved rt)) dev in
           case fallible_call dev of
             (False, dev) \<Rightarrow> (False, buffer, rt\<lparr>device := dev\<rparr>)
           | (True, dev) \<Rightarrow> (True, capture_rows rt mapped 0 0 0 buffer, rt\<lparr>device := dev\<rparr>)))"

subsection \<open>What the loops write\<close>

lemma row_10bit_below: "a < b + x \<Longrightarrow> row_10bit mapped_data m b pitch x buffer a = buffer a"
proof (induction mapped_data m b pitch x buffer rule: row_10bit.induct)
  case (1 mapped_data m b pitch x buffer)
  show ?case
  proof (cases "x < pitch")
    case True
    define rgba where "rgba = read_uint32 mapped_data (m + x)"
    define buf where "buf = buffer(b + x + 0 := convert_10bit rgba ! 0,
                   b + x + 1 := convert_10bit rgba ! 1,
                   b + x + 2 := convert_10bit rgba ! 2,
                   b + x + 3 := convert_10bit rgba ! 3)"
    have step: "row_10bit mapped_data m b pitch x buffer = row_10bit mapped_data m b pitch (x + 4) buf"
      using True by (subst row_10bit.simps) (simp add: Let_def buf_def rgba_def)
    have "row_10bit mapped_data m b pitch (x + 4) buf a = buf a"
      unfolding buf_def by (rule "1.IH" [OF True rgba_def]) (use "1.prems" in simp)
    moreover have "buf a = buffer a" using "1.prems" by (simp add: buf_def)
    ultimately show ?thesis by (simp add: step)
  next
    case False
    then show ?thesis by (subst row_10bit.simps) simp
  qed
qed

lemma row_10bit_pixel:
  "4 dvd x \<Longrightarrow> x \<le> 4 * j \<Longrightarrow> 4 * j < pitch \<Longrightarrow> c < 4 \<Longrightarrow>
   row_10bit mapped_data m b pitch x buffer (b + 4 * j + c) =
     convert_10bit (read_uint32 mapped_data (m + 4 * j)) ! c"
proof (induction mapped_data m b pitch x buffer rule: row_10bit.induct)
  case (1 mapped_data m b pitch x buffer)
  from "1.prems" have lt: "x < pitch" by simp
  from "1.prems"(4) have c: "c = 0 \<or> c = 1 \<or> c = 2 \<or> c = 3" by auto
  define rgba where "rgba = read_uint32 mapped_data (m + x)"
  define buf where "buf = buffer(b + x + 0 := convert_10bit rgba ! 0,
                 b + x + 1 := convert_10bit rgba ! 1,
                 b + x + 2 := convert_10bit rgba ! 2,
                 b + x + 3 := convert_10bit rgba ! 3)"
  have step: "row_10bit mapped_data m b pitch x buffer = row_10bit mapped_data m b pitch (x + 4) buf"
    using lt by (subst row_10bit.simps) (simp add: Let_def buf_def rgba_def)
  show ?case
  proof (cases "x = 4 * j")
    case True
    have "b + 4 * j + c < b + (x + 4)" using True "1.prems" by simp
    then have "row_10bit mapped_data m b pitch (x + 4) buf (b + 4 * j + c) = buf (b + 4 * j + c)"
      by (rule row_10bit_below)
    moreover have "buf (b + 4 * j + c) = convert_10bit rgba ! c"
      using c True by (auto simp: buf_def)
    ultimately show ?thesis unfolding step by (simp add: rgba_def True)
  next
    case False
    with "1.prems" have "x + 4 \<le> 4 * j" by (auto elim: dvdE)
    moreover have "4 dvd x + 4" using "1.prems"(1) by simp
    ultimately have "row_10bit mapped_data m b pitch (x + 4) buf (b + 4 * j + c) =
        convert_10bit (read_uint32 mapped_data (m + 4 * j)) ! c"
      unfolding buf_def using "1.prems"(3,4) by (intro "1.IH" [OF lt rgba_def])
    then show ?thesis by (simp add: step)
  qed
qed

lemma row_8bit_below: "a < b + x \<Longrightarrow> row_8bit fmt b pitch x buffer a = buffer a"
proof (induction fmt b pitch x buffer rule: row_8bit.induct)
  case (1 fmt b pitch x buffer)
  show ?case
  proof (cases "x < pitch")
    case True
    define buf1 where "buf1 = buffer(b + x + 3 := 0xFF)"
    define buf where "buf = (if fmt = DXGI_FORMAT_B8G8R8A8_UNORM \<or> fmt = DXGI_FORMAT_B8G8R8A8_UNORM_SRGB
                       then swap buf1 (b + x + 0) (b + x + 2) else buf1)"
    have step: "row_8bit fmt b pitch x buffer = row_8bit fmt b pitch (x + 4) buf"
      using True by (subst row_8bit.simps) (simp add: Let_def buf_def buf1_def)
    have "row_8bit fmt b pitch (x + 4) buf a = buf a"
      by (rule "1.IH" [OF True buf1_def buf_def]) (use "1.prems" in simp)
    moreover have "buf a = buffer a" using "1.prems" by (simp add: buf_def buf1_def swap_def)
    ultimately show ?thesis by (simp add: step)
  next
    case False
    then show ?thesis by (subst row_8bit.simps) simp
  qed
qed

definition is_bgra :: "DXGI_FORMAT \<Rightarrow> bool" where
  "is_bgra fmt \<longleftrightarrow> fmt = DXGI_FORMAT_B8G8R8A8_UNORM \<or> fmt = DXGI_FORMAT_B8G8R8A8_UNORM_SRGB"

definition rgba_of :: "DXGI_FORMAT \<Rightarrow> memory \<Rightarrow> nat \<Rightarrow> u8 list" where
  "rgba_of fmt src a =
     (if is_bgra fmt then [src (a + 2), src (a + 1), src a, 0xFF]
      else [src a, src (a + 1), src (a + 2), 0xFF])"

lemma row_8bit_pixel:
  "4 dvd x \<Longrightarrow> x \<le> 4 * j \<Longrightarrow> 4 * j < pitch \<Longrightarrow> c < 4 \<Longrightarrow>
   row_8bit fmt b pitch x buffer (b + 4 * j + c) = rgba_of fmt buffer (b + 4 * j) ! c"
proof (induction fmt b pitch x buffer rule: row_8bit.induct)
  case (1 fmt b pitch x buffer)
  from "1.prems" have lt: "x < pitch" by simp
  from "1.prems"(4) have c: "c = 0 \<or> c = 1 \<or> c = 2 \<or> c = 3" by auto
  define buf1 where "buf1 = buffer(b + x + 3 := 0xFF)"
  define buf where "buf = (if fmt = DXGI_FORMAT_B8G8R8A8_UNORM \<or> fmt = DXGI_FORMAT_B8G8R8A8_UNORM_SRGB
                     then swap buf1 (b + x + 0) (b + x + 2) else buf1)"
  have step: "row_8bit fmt b pitch x buffer = row_8bit fmt b pitch (x + 4) buf"
    using lt by (subst row_8bit.simps) (simp add: Let_def buf_def buf1_def)
  show ?case
  proof (cases "x = 4 * j")
    case True
    have "b + 4 * j + c < b + (x + 4)" using True "1.prems" by simp
    then have "row_8bit fmt b pitch (x + 4) buf (b + 4 * j + c) = buf (b + 4 * j + c)"
      by (rule row_8bit_below)
    moreover have "buf (b + 4 * j + c) = rgba_of fmt buffer (b + 4 * j) ! c"
      using c True by (auto simp: buf_def buf1_def swap_def rgba_of_def is_bgra_def)
    ultimately show ?thesis by (simp add: step)
  next
    case False
    with "1.prems" have le: "x + 4 \<le> 4 * j" by (auto elim: dvdE)
    moreover have "4 dvd x + 4" using "1.prems"(1) by simp
    ultimately have "row_8bit fmt b pitch (x + 4) buf (b + 4 * j + c) = rgba_of fmt buf (b + 4 * j) ! c"
      using "1.prems"(3,4) by (intro "1.IH" [OF lt buf1_def buf_def])
    moreover have "rgba_of fmt buf (b + 4 * j) = rgba_of fmt buffer (b + 4 * j)"
      using le by (simp add: rgba_of_def buf_def buf1_def swap_def)
    ultimately show ?thesis by (simp add: step)
  qed
qed

lemma pitch_dvd: "4 dvd unat (w * 4 :: u32)"
proof -
  have "unat (w * 4) = (unat w * 4) mod 2 ^ 32"
    by (simp add: unat_word_ariths)
  moreover have "(4::nat) dvd 2 ^ 32" by simp
  ultimately show ?thesis by (simp add: dvd_mod)
qed

lemma capture_rows_below: "a < b \<Longrightarrow> capture_rows rt mapped y b m buffer a = buffer a"
proof (induction rt mapped y b m buffer rule: capture_rows.induct)
  case (1 rt mapped y b m buffer)
  show ?case
  proof (cases "y < unat (rt_height rt)")
    case True
    define pitch where "pitch = unat (rt_width rt * 4)"
    define buf where "buf = (if color_bit_depth rt = 10
                then row_10bit (pData mapped) m b pitch 0 buffer
                else row_8bit (backbuffer_format rt) b pitch 0
                       (memcpy buffer b (pData mapped) m pitch))"
    have step: "capture_rows rt mapped y b m buffer =
        capture_rows rt mapped (y + 1) (b + pitch) (m + RowPitch mapped) buf"
      using True by (subst capture_rows.simps) (simp add: Let_def buf_def pitch_def)
    have "capture_rows rt mapped (y + 1) (b + pitch) (m + RowPitch mapped) buf a = buf a"
      by (rule "1.IH" [OF True pitch_def buf_def]) (use "1.prems" in simp)
    moreover have "buf a = buffer a"
      using "1.prems" by (simp add: buf_def row_10bit_below row_8bit_below memcpy_def)
    ultimately show ?thesis by (simp add: step)
  next
    case False
    then show ?thesis by (subst capture_rows.simps) simp
  qed
qed

text \<open>The four output bytes of a pixel, from the address of its four source bytes.\<close>

definition converted :: "runtime_d3d10 \<Rightarrow> memory \<Rightarrow> nat \<Rightarrow> u8 list" where
  "converted rt src a =
     (if color_bit_depth rt = 10 then convert_10bit (read_uint32 src a)
      else rgba_of (backbuffer_format rt) src a)"

lemma capture_rows_pixel:
  "y \<le> r \<Longrightarrow> r < unat (rt_height rt) \<Longrightarrow> 4 * j < unat (rt_width rt * 4) \<Longrightarrow> c < 4 \<Longrightarrow>
   capture_rows rt mapped y b m buffer (b + (r - y) * unat (rt_width rt * 4) + 4 * j + c) =
     converted rt (pData mapped) (m + (r - y) * RowPitch mapped + 4 * j) ! c"
proof (induction rt mapped y b m buffer rule: capture_rows.induct)
  case (1 rt mapped y b m buffer)
  from "1.prems" have lt: "y < unat (rt_height rt)" by simp
  define pitch where "pitch = unat (rt_width rt * 4)"
  define buf where "buf = (if color_bit_depth rt = 10
              then row_10bit (pData mapped) m b pitch 0 buffer
              else row_8bit (backbuffer_format rt) b pitch 0
                     (memcpy buffer b (pData mapped) m pitch))"
  have step: "capture_rows rt mapped y b m buffer =
      capture_rows rt mapped (y + 1) (b + pitch) (m + RowPitch mapped) buf"
    using lt by (subst capture_rows.simps) (simp add: Let_def buf_def pitch_def)
  from "1.prems"(3) have j: "4 * j < pitch" by (simp add: pitch_def)
  then have j3: "4 * j + 3 < pitch"
    using pitch_dvd [of "rt_width rt"] by (auto simp: pitch_def elim!: dvdE)
  show ?case
  proof (cases "r = y")
    case True
    have "b + 4 * j + c < b + pitch"
      using j3 "1.prems"(4) by simp
    then have "capture_rows rt mapped (y + 1) (b + pitch) (m + RowPitch mapped) buf (b + 4 * j + c)
        = buf (b + 4 * j + c)"
      by (rule capture_rows_below)
    moreover have "buf (b + 4 * j + c) = converted rt (pData mapped) (m + 4 * j) ! c"
    proof (cases "color_bit_depth rt = 10")
      case True
      then show ?thesis
        using row_10bit_pixel [of 0 j pitch c "pData mapped" m b buffer] j "1.prems"(4)
        by (simp add: buf_def converted_def)
    next
      case False
      have "rgba_of (backbuffer_format rt) (memcpy buffer b (pData mapped) m pitch) (b + 4 * j)
          = rgba_of (backbuffer_format rt) (pData mapped) (m + 4 * j)"
        using j3 by (simp add: rgba_of_def memcpy_def)
      with False show ?thesis
        using row_8bit_pixel [of 0 j pitch c "backbuffer_format rt" b
            "memcpy buffer b (pData mapped) m pitch"] j "1.prems"(4)
        by (simp add: buf_def converted_def)
    qed
    ultimately show ?thesis by (simp add: step True)
  next
    case False
    with "1.prems" have le: "y + 1 \<le> r" by simp
    have ih: "capture_rows rt mapped (y + 1) (b + pitch) (m + RowPitch mapped) buf
            (b + pitch + (r - (y + 1)) * unat (rt_width rt * 4) + 4 * j + c) =
          converted rt (pData mapped) (m + RowPitch mapped + (r - (y + 1)) * RowPitch mapped + 4 * j) ! c"
      using le "1.prems"(2,3,4) by (intro "1.IH" [OF lt pitch_def buf_def])
    have a1: "b + pitch + (r - (y + 1)) * unat (rt_width rt * 4) + 4 * j + c =
        b + (r - y) * unat (rt_width rt * 4) + 4 * j + c"
      using le by (simp add: pitch_def mult_eq_if)
    have a2: "m + RowPitch mapped + (r - (y + 1)) * RowPitch mapped + 4 * j =
        m + (r - y) * RowPitch mapped + 4 * j"
      using le by (simp add: mult_eq_if)
    show ?thesis using ih unfolding step a1 a2 .
  qed
qed

subsection \<open>The bytes of a converted 10-bit pixel\<close>

lemma nat_field: "drop_bit k ((n::nat) AND push_bit k (mask l)) = n div 2 ^ k mod 2 ^ l"
proof -
  have "drop_bit k (n AND push_bit k (mask l)) = take_bit l (drop_bit k n)"
    by (rule bit_eqI) (auto simp: bit_simps)
  then show ?thesis by (simp add: take_bit_eq_mod drop_bit_eq_div)
qed

lemma nat_field_consts:
  "drop_bit 0 ((n::nat) AND 1023) = n mod 1024"
  "drop_bit 10 ((n::nat) AND 1047552) = n div 1024 mod 1024"
  "drop_bit 20 ((n::nat) AND 1072693248) = n div 1048576 mod 1024"
  "drop_bit 0 ((n::nat) AND 255) = n mod 256"
  using nat_field [of 0 n 10] nat_field [of 10 n 10] nat_field [of 20 n 10] nat_field [of 0 n 8]
  by (simp_all add: mask_eq_exp_minus_1 push_bit_eq_mult)

lemma low_byte: "n < 256 \<Longrightarrow> unat (ucast ((word_of_nat n :: u32) AND 0xFF) :: u8) = n"
  using nat_field_consts(4) [of n]
  by (simp add: unsigned_ucast_eq unsigned_and_eq unat_of_nat take_bit_eq_mod)

lemma to_byte: "unat (w::u32) = n \<Longrightarrow> n < 256 \<Longrightarrow> unat (ucast (w AND 0xFF) :: u8) = n"
proof -
  assume a: "unat w = n" and b: "n < 256"
  have "word_of_nat (unat w) = w" by simp
  with a have "w = word_of_nat n" by simp
  with low_byte [OF b] show ?thesis by simp
qed

lemma convert_10bit_channels:
  "unat (convert_10bit w ! 0) = unat w mod 1024 div 4"
  "unat (convert_10bit w ! 1) = unat w div 2 ^ 10 mod 1024 div 4"
  "unat (convert_10bit w ! 2) = unat w div 2 ^ 20 mod 1024 div 4"
  "convert_10bit w ! 3 = 0xFF"
proof -
  have "unat ((w AND 0x3FF) div 4) = unat w mod 1024 div 4"
    using nat_field_consts(1) [of "unat w"] by (simp add: unat_div unsigned_and_eq)
  then show "unat (convert_10bit w ! 0) = unat w mod 1024 div 4"
    by (simp add: convert_10bit_def to_byte)
  have "unat (drop_bit 10 (w AND 0xFFC00) div 4) = unat w div 1024 mod 1024 div 4"
    using nat_field_consts(2) [of "unat w"]
    by (simp add: unat_div unat_drop_bit_eq unsigned_and_eq)
  then show "unat (convert_10bit w ! 1) = unat w div 2 ^ 10 mod 1024 div 4"
    by (simp add: convert_10bit_def to_byte)
  have "unat (drop_bit 20 (w AND 0x3FF00000) div 4) = unat w div 1048576 mod 1024 div 4"
    using nat_field_consts(3) [of "unat w"]
    by (simp add: unat_div unat_drop_bit_eq unsigned_and_eq)
  then show "unat (convert_10bit w ! 2) = unat w div 2 ^ 20 mod 1024 div 4"
    by (simp add: convert_10bit_def to_byte)
  show "convert_10bit w ! 3 = 0xFF" by (simp add: convert_10bit_def)
qed

lemma byte_255: "unat (v::u8) = 255 \<Longrightarrow> v = 0xFF"
proof -
  assume "unat v = 255"
  then have "unat v = unat (0xFF :: u8)" by simp
  then show ?thesis by (simp only: word_unat_eq_iff)
qed

lemma capture_screenshot_True:
  "capture_screenshot rt mapped buffer = (True, out, rt') \<Longrightarrow>
   out = capture_rows rt mapped 0 0 0 buffer"
  by (auto simp: capture_screenshot_def Let_def split: prod.splits option.splits bool.splits)

text \<open>A runtime with nothing loaded, on a device whose calls all succeed.\<close>

definition new_device :: d3d10_device where
  "new_device = \<lparr>next_handle = 1, num_calls = 0, succeeds = (\<lambda>n. True), commands = []\<rparr>"

definition new_runtime :: runtime_d3d10 where
  "new_runtime =
     \<lparr>device = new_device, log = [], is_initialized = True,
      renderer_id = D3D10_FEATURE_LEVEL_10_0, d3d_compiler = None,
      rt_width = 1, rt_height = 1, color_bit_depth = 8,
      backbuffer_format = DXGI_FORMAT_R8G8B8A8_UNORM,
      backbuffer_resolved = None, backbuffer_texture = None,
      backbuffer_rtv = (None, None), backbuffer_texture_srv = (None, None),
      depth_texture_srv = None, effect_depthstencil = None, effect_rasterizer = None,
      effects = [], textures = [], techniques = [], effect_data = [],
      effect_sampler_states = Map.empty, vertices = 0, drawcalls = 0,
      has_high_network_activity = False, preserve_depth_buffers = False,
      depth_clear_index_override = 0xFFFFFFFF, filter_aspect_ratio = True,
      depth_texture_override = None\<rparr>"

text \<open>
  C7. When \<open>capture_screenshot\<close> succeeds, the four output bytes of the pixel in
  row \<open>y\<close>, column \<open>x\<close> (rows in the order of the mapped surface, top first)
  are: for a 10-bit back buffer, each 10-bit channel divided by 4 rounding
  down, and 255 for alpha, so three channels of 1023 give 255, 255, 255, 255;
  for an 8-bit back buffer stored as RGBA the three stored colour bytes in
  order and 255; for one stored as BGRA the stored bytes with the first and
  third exchanged, that is red, green, blue, and 255.
\<close>

theorem capture_screenshot_pixels:
  assumes "capture_screenshot rt mapped buffer = (True, out, rt')"
    and "unat (rt_width rt) * 4 < 2 ^ 32"
    and "y < unat (rt_height rt)" and "x < unat (rt_width rt)"
  shows "(let src = y * RowPitch mapped + 4 * x;
              dst = 4 * (y * unat (rt_width rt) + x);
              p = unat (read_uint32 (pData mapped) src);
              fmt = backbuffer_format rt
          in (color_bit_depth rt = 10 \<longrightarrow>
                unat (out dst) = p mod 1024 div 4 \<and>
                unat (out (dst + 1)) = p div 2 ^ 10 mod 1024 div 4 \<and>
                unat (out (dst + 2)) = p div 2 ^ 20 mod 1024 div 4 \<and>
                out (dst + 3) = 0xFF) \<and>
             (color_bit_depth rt = 10 \<and> p mod 1024 = 1023 \<and> p div 2 ^ 10 mod 1024 = 1023 \<and>
                p div 2 ^ 20 mod 1024 = 1023 \<longrightarrow>
                [out dst, out (dst + 1), out (dst + 2), out (dst + 3)] = [255, 255, 255, 255]) \<and>
             (color_bit_depth rt \<noteq> 10 \<and>
                (fmt = DXGI_FORMAT_R8G8B8A8_UNORM \<or> fmt = DXGI_FORMAT_R8G8B8A8_UNORM_SRGB) \<longrightarrow>
                [out dst, out (dst + 1), out (dst + 2), out (dst + 3)] =
                  [pData mapped src, pData mapped (src + 1), pData mapped (src + 2), 255]) \<and>
             (color_bit_depth rt \<noteq> 10 \<and>
                (fmt = DXGI_FORMAT_B8G8R8A8_UNORM \<or> fmt = DXGI_FORMAT_B8G8R8A8_UNORM_SRGB) \<longrightarrow>
                [out dst, out (dst + 1), out (dst + 2), out (dst + 3)] =
                  [pData mapped (src + 2), pData mapped (src + 1), pData mapped src, 255]))"
proof -
  define src where "src = y * RowPitch mapped + 4 * x"
  define dst where "dst = 4 * (y * unat (rt_width rt) + x)"
  define p where "p = unat (read_uint32 (pData mapped) src)"
  have pitch: "unat (rt_width rt * 4) = 4 * unat (rt_width rt)"
    using assms(2) by (simp add: unat_word_ariths)
  have out: "out = capture_rows rt mapped 0 0 0 buffer"
    using assms(1) by (rule capture_screenshot_True)
  have px: "out (dst + c) = converted rt (pData mapped) src ! c" if "c < 4" for c
  proof -
    have "capture_rows rt mapped 0 0 0 buffer (0 + (y - 0) * unat (rt_width rt * 4) + 4 * x + c)
        = converted rt (pData mapped) (0 + (y - 0) * RowPitch mapped + 4 * x) ! c"
      using assms(3,4) that by (intro capture_rows_pixel) (simp_all add: pitch)
    moreover have "0 + (y - 0) * unat (rt_width rt * 4) + 4 * x + c = dst + c"
      by (simp add: pitch dst_def algebra_simps)
    ultimately show ?thesis by (simp add: out src_def)
  qed
  have px0: "out dst = converted rt (pData mapped) src ! 0" using px [of 0] by simp
  note pxs = px0 px [of 1, simplified] px [of 2, simplified] px [of 3, simplified]
  have ten: "unat (out dst) = p mod 1024 div 4 \<and>
        unat (out (dst + 1)) = p div 2 ^ 10 mod 1024 div 4 \<and>
        unat (out (dst + 2)) = p div 2 ^ 20 mod 1024 div 4 \<and>
        out (dst + 3) = 0xFF" if "color_bit_depth rt = 10"
    using that convert_10bit_channels [of "read_uint32 (pData mapped) src"] px0 px [of 1] px [of 2] px [of 3]
    by (simp add: converted_def p_def)
  have full: "[out dst, out (dst + 1), out (dst + 2), out (dst + 3)] = [255, 255, 255, 255]"
    if "color_bit_depth rt = 10" "p mod 1024 = 1023" "p div 2 ^ 10 mod 1024 = 1023"
       "p div 2 ^ 20 mod 1024 = 1023"
    using ten [OF that(1)] that(2,3,4) by (simp add: byte_255)
  have rgba: "[out dst, out (dst + 1), out (dst + 2), out (dst + 3)] =
        [pData mapped src, pData mapped (src + 1), pData mapped (src + 2), 255]"
    if "color_bit_depth rt \<noteq> 10"
       "backbuffer_format rt = DXGI_FORMAT_R8G8B8A8_UNORM \<or>
        backbuffer_format rt = DXGI_FORMAT_R8G8B8A8_UNORM_SRGB"
    using that px0 px [of 1] px [of 2] px [of 3]
    by (auto simp: converted_def rgba_of_def is_bgra_def)
  have bgra: "[out dst, out (dst + 1), out (dst + 2), out (dst + 3)] =
        [pData mapped (src + 2), pData mapped (src + 1), pData mapped src, 255]"
    if "color_bit_depth rt \<noteq> 10"
       "backbuffer_format rt = DXGI_FORMAT_B8G8R8A8_UNORM \<or>
        backbuffer_format rt = DXGI_FORMAT_B8G8R8A8_UNORM_SRGB"
    using that px0 px [of 1] px [of 2] px [of 3]
    by (auto simp: converted_def rgba_of_def is_bgra_def)
  show ?thesis
    unfolding Let_def src_def [symmetric] dst_def [symmetric] p_def [symmetric]
    using ten full rgba bgra by blast
qed

theorem capture_screenshot_pixels_witness:
  "fst (capture_screenshot
          (new_runtime\<lparr>color_bit_depth := 10, backbuffer_format := DXGI_FORMAT_R10G10B10A2_UNORM\<rparr>)
          \<lparr>pData = (\<lambda>a. 0xFF), RowPitch = 4\<rparr> (\<lambda>a. 0)) = True \<and>
   map (fst (snd (capture_screenshot
          (new_runtime\<lparr>color_bit_depth := 10, backbuffer_format := DXGI_FORMAT_R10G10B10A2_UNORM\<rparr>)
          \<lparr>pData = (\<lambda>a. 0xFF), RowPitch = 4\<rparr> (\<lambda>a. 0)))) [0, 1, 2, 3] = [255, 255, 255, 255]"
proof -
  define rt where
    "rt = new_runtime\<lparr>color_bit_depth := 10, backbuffer_format := DXGI_FORMAT_R10G10B10A2_UNORM\<rparr>"
  define mapped where "mapped = \<lparr>pData = (\<lambda>a. 0xFF :: u8), RowPitch = 4\<rparr>"
  define r where "r = capture_screenshot rt mapped (\<lambda>a. 0)"
  have ok: "fst r = True"
    by (simp add: r_def rt_def capture_screenshot_def create_object_def fallible_call_def
        issue_def new_runtime_def new_device_def)
  then have eq: "capture_screenshot rt mapped (\<lambda>a. 0) = (True, fst (snd r), snd (snd r))"
    by (simp add: r_def [symmetric] prod_eq_iff)
  have p: "unat (read_uint32 (pData mapped) (0 * RowPitch mapped + 4 * 0)) = 4294967295"
    by (simp add: mapped_def read_uint32_def)
  have two: "Suc (Suc 0) = 2" by simp
  have "[fst (snd r) 0, fst (snd r) 1, fst (snd r) 2, fst (snd r) 3] = [255, 255, 255, 255]"
    using capture_screenshot_pixels [OF eq, of 0 0] p
    by (simp add: Let_def rt_def new_runtime_def two)
  with ok show ?thesis by (simp add: r_def rt_def mapped_def)
qed

section \<open>Depth buffer detection settings\<close>

text \<open>
  Modelled from the spec: \<open>ini_file\<close> (\<^verbatim>\<open>runtime_config.hpp\<close>, not among the
  sources) is the persisted key-value configuration; \<open>config.get\<close> stores the
  value of a key into the variable passed to it and leaves the variable as it
  was when the key is absent. Values are kept as 32-bit numbers, a flag being
  set when the number is not zero.
\<close>

type_synonym ini_file = "string \<times> string \<rightharpoonup> u32"

definition config_get :: "ini_file \<Rightarrow> string \<Rightarrow> string \<Rightarrow> u32 \<Rightarrow> u32" where
  "config_get config section key v = (case config (section, key) of None \<Rightarrow> v | Some x \<Rightarrow> x)"

definition config_get_bool :: "ini_file \<Rightarrow> string \<Rightarrow> string \<Rightarrow> bool \<Rightarrow> bool" where
  "config_get_bool config section key v =
     (case config (section, key) of None \<Rightarrow> v | Some x \<Rightarrow> x \<noteq> 0)"

text \<open>The callback the constructor passes to \<open>subscribe_to_load_config\<close>.\<close>

definition load_config :: "ini_file \<Rightarrow> runtime_d3d10 \<Rightarrow> runtime_d3d10" where
  "load_config config rt =
     (let rt = rt\<lparr>preserve_depth_buffers :=
                    config_get_bool config ''DX10_BUFFER_DETECTION'' ''DepthBufferRetrievalMode''
                      (preserve_depth_buffers rt)\<rparr>;
          rt = rt\<lparr>depth_clear_index_override :=
                    config_get config ''DX10_BUFFER_DETECTION'' ''DepthBufferClearingNumber''
                      (depth_clear_index_override rt)\<rparr>;
          rt = rt\<lparr>filter_aspect_ratio :=
                    config_get_bool config ''DX10_BUFFER_DETECTION'' ''UseAspectRatioHeuristics''
                      (filter_aspect_ratio rt)\<rparr>
      in if depth_clear_index_override rt = 0
         then rt\<lparr>depth_clear_index_override := 0xFFFFFFFF\<rparr>
         else rt)"

text \<open>
  The check box of one clear index in \<open>draw_depth_debug_menu\<close>: ticking it
  selects that index, clearing it stores the largest index.
\<close>

definition select_clear_index :: "u32 \<Rightarrow> bool \<Rightarrow> runtime_d3d10 \<Rightarrow> runtime_d3d10" where
  "select_clear_index clear_index v rt =
     rt\<lparr>depth_clear_index_override := (if v then clear_index else 0xFFFFFFFF)\<rparr>"

text \<open>
  What \<open>on_present\<close> asks the depth tracker: nothing before initialisation or
  under high network activity, otherwise the arguments of
  \<open>find_best_depth_texture\<close>. The \<open>assert\<close> before the call is a branch of its own.
\<close>

datatype depth_query =
    NotInitialized
  | AssertionFailed
  | NoQuery
  | FindBestDepthTexture u32 u32 "handle option" u32

definition on_present_depth_query :: "runtime_d3d10 \<Rightarrow> depth_query" where
  "on_present_depth_query rt =
     (if \<not> is_initialized rt then NotInitialized
      else if depth_clear_index_override rt = 0 then AssertionFailed
      else if has_high_network_activity rt then NoQuery
      else FindBestDepthTexture
             (if filter_aspect_ratio rt then rt_width rt else 0)
             (rt_height rt)
             (depth_texture_override rt)
             (if preserve_depth_buffers rt then depth_clear_index_override rt else 0))"

definition clear_index_key :: "string \<times> string" where
  "clear_index_key = (''DX10_BUFFER_DETECTION'', ''DepthBufferClearingNumber'')"

lemma load_config_override:
  "depth_clear_index_override (load_config config rt) =
     (let v = config_get config ''DX10_BUFFER_DETECTION'' ''DepthBufferClearingNumber''
                (depth_clear_index_override rt)
      in if v = 0 then 0xFFFFFFFF else v)"
  by (simp add: load_config_def Let_def)

lemma load_config_nonzero: "depth_clear_index_override (load_config config rt) \<noteq> 0"
  by (simp add: load_config_override Let_def)

text \<open>
  C4. Loading a configuration whose clear index is 0 stores the largest
  32-bit index instead, which is what loading that largest index, or clearing
  the check box of a clear index, stores: the index is then not selected.
  After any load the stored index is not 0, so \<open>on_present\<close> never fails its
  assertion, and the index it passes to the depth tracker is the stored,
  non-zero one when preservation is enabled and 0 only when it is disabled.
\<close>

theorem load_config_zero_clear_index:
  "depth_clear_index_override (load_config config rt) \<noteq> 0 \<and>
   (config clear_index_key = Some 0 \<longrightarrow>
      depth_clear_index_override (load_config config rt) = 0xFFFFFFFF \<and>
      load_config config rt = load_config (config(clear_index_key \<mapsto> 0xFFFFFFFF)) rt \<and>
      depth_clear_index_override (load_config config rt) =
        depth_clear_index_override (select_clear_index i False rt')) \<and>
   on_present_depth_query (load_config config rt) \<noteq> AssertionFailed \<and>
   (on_present_depth_query (load_config config rt) = FindBestDepthTexture w h t idx \<longrightarrow>
      (if preserve_depth_buffers (load_config config rt)
       then idx = depth_clear_index_override (load_config config rt) \<and> idx \<noteq> 0
       else idx = 0))"
proof -
  have a: "depth_clear_index_override (load_config config rt) \<noteq> 0"
    by (rule load_config_nonzero)
  have b: "depth_clear_index_override (load_config config rt) = 0xFFFFFFFF"
    if "config clear_index_key = Some 0"
    using that by (simp add: load_config_override config_get_def clear_index_key_def)
  have c: "load_config config rt = load_config (config(clear_index_key \<mapsto> 0xFFFFFFFF)) rt"
    if "config clear_index_key = Some 0"
    using that
    by (simp add: load_config_def config_get_def config_get_bool_def clear_index_key_def Let_def
        split: option.splits)
  have d: "depth_clear_index_override (select_clear_index i False rt') = 0xFFFFFFFF"
    by (simp add: select_clear_index_def)
  have e: "on_present_depth_query (load_config config rt) \<noteq> AssertionFailed"
    using a by (simp add: on_present_depth_query_def)
  have f: "if preserve_depth_buffers (load_config config rt)
       then idx = depth_clear_index_override (load_config config rt) \<and> idx \<noteq> 0
       else idx = 0"
    if "on_present_depth_query (load_config config rt) = FindBestDepthTexture w h t idx"
    using that a by (auto simp: on_present_depth_query_def split: if_splits)
  from a b c d e f show ?thesis by simp
qed

theorem load_config_zero_clear_index_witness:
  "depth_clear_index_override
     (load_config [clear_index_key \<mapsto> 0] (new_runtime\<lparr>preserve_depth_buffers := True\<rparr>)) = 0xFFFFFFFF \<and>
   on_present_depth_query
     (load_config [clear_index_key \<mapsto> 0] (new_runtime\<lparr>preserve_depth_buffers := True\<rparr>))
     = FindBestDepthTexture 1 1 None 0xFFFFFFFF"
proof -
  define rt where "rt = new_runtime\<lparr>preserve_depth_buffers := True\<rparr>"
  define config :: ini_file where "config = [clear_index_key \<mapsto> 0]"
  have q: "on_present_depth_query (load_config config rt) = FindBestDepthTexture 1 1 None 0xFFFFFFFF"
    by (simp add: on_present_depth_query_def load_config_def config_get_def config_get_bool_def
        clear_index_key_def config_def rt_def new_runtime_def Let_def)
  have k: "config clear_index_key = Some 0" by (simp add: config_def)
  from load_config_zero_clear_index [of config rt 0 rt 1 1 None "0xFFFFFFFF"] k
  have "depth_clear_index_override (load_config config rt) = 0xFFFFFFFF" by blast
  with q show ?thesis by (simp add: rt_def config_def)
qed

section \<open>Texture upload\<close>

text \<open>
  The two repacking loops of \<open>upload_texture\<close>. \<open>i\<close> and \<open>k\<close> are the 32-bit
  counters; \<open>n\<close> is the loop bound \<open>texture.width * texture.height * 4\<close>, a
  32-bit product and so a multiple of 4 below \<open>2 ^ 32\<close>, which \<open>i\<close> reaches
  without wrapping. \<open>upload_data[k]\<close> is a vector element; the index stays
  below the size the vector was resized to (\<open>upload_r8_length\<close> and
  \<open>upload_rg8_length\<close> below show that every element is written).
\<close>

function upload_r8 :: "memory \<Rightarrow> nat \<Rightarrow> nat \<Rightarrow> nat \<Rightarrow> u8 list \<Rightarrow> u8 list" where
  "upload_r8 pixels n i k upload_data =
     (if i < n then upload_r8 pixels n (i + 4) (k + 1) (upload_data[k := pixels i])
      else upload_data)"
  by pat_completeness auto
termination
  by (relation "measure (\<lambda>(pixels, n, i, k, upload_data). n - i)") auto

declare upload_r8.simps [simp del]

function upload_rg8 :: "memory \<Rightarrow> nat \<Rightarrow> nat \<Rightarrow> nat \<Rightarrow> u8 list \<Rightarrow> u8 list" where
  "upload_rg8 pixels n i k upload_data =
     (if i < n
      then upload_rg8 pixels n (i + 4) (k + 2)
             (upload_data[k + 0 := pixels (i + 0), k + 1 := pixels (i + 1)])
      else upload_data)"
  by pat_completeness auto
termination
  by (relation "measure (\<lambda>(pixels, n, i, k, upload_data). n - i)") auto

declare upload_rg8.simps [simp del]

text \<open>
  An \<open>unsigned int\<close> as the stream prints it, in decimal.
\<close>

function decimal :: "nat \<Rightarrow> string" where
  "decimal n =
     (if n < 10 then [char_of (48 + n)]
      else decimal (n div 10) @ [char_of (48 + n mod 10)])"
  by pat_completeness auto
termination
  by (relation "measure (\<lambda>n. n)") auto

declare decimal.simps [simp del]

text \<open>
  \<open>upload_texture\<close>. The result is \<open>None\<close> where the assertion at its head
  fails. The data handed to \<open>UpdateSubresource\<close> is the \<open>upload_pitch * height\<close>
  bytes it reads from the source pointer. The numbers of the enumerators of
  \<open>reshadefx::texture_format\<close> are declared outside this file;
  \<open>format_number\<close> is \<open>static_cast<unsigned int>\<close> on them.
\<close>

definition update_subresource ::
  "d3d10_tex_data \<Rightarrow> texture_object \<Rightarrow> u8 list \<Rightarrow> u32 \<Rightarrow> runtime_d3d10 \<Rightarrow> runtime_d3d10" where
  "update_subresource impl tex data upload_pitch rt =
     (let dev = issue (UpdateSubresource (texture impl) data upload_pitch (upload_pitch * height tex))
                  (device rt);
          dev = (if levels tex > 1 then issue (GenerateMips (at2 (srv impl) 0)) dev else dev)
      in rt\<lparr>device := dev\<rparr>)"

definition upload_texture ::
  "(texture_format \<Rightarrow> nat) \<Rightarrow> texture_object \<Rightarrow> memory \<Rightarrow> runtime_d3d10 \<Rightarrow>
   runtime_d3d10 option" where
  "upload_texture format_number tex pixels rt =
     (case tex_impl tex of
        None \<Rightarrow> None
      | Some impl \<Rightarrow>
          if impl_reference tex \<noteq> none then None
          else
            (case format tex of
               r8 \<Rightarrow>
                 (let upload_pitch = width tex;
                      upload_data = replicate (unat (upload_pitch * height tex)) 0;
                      upload_data = upload_r8 pixels (unat (width tex * height tex * 4)) 0 0 upload_data
                  in Some (update_subresource impl tex upload_data upload_pitch rt))
             | rg8 \<Rightarrow>
                 (let upload_pitch = width tex * 2;
                      upload_data = replicate (unat (upload_pitch * height tex)) 0;
                      upload_data = upload_rg8 pixels (unat (width tex * height tex * 4)) 0 0 upload_data
                  in Some (update_subresource impl tex upload_data upload_pitch rt))
             | rgba8 \<Rightarrow>
                 (let upload_pitch = width tex * 4
                  in Some (update_subresource impl tex
                             (map pixels [0..<unat (upload_pitch * height tex)]) upload_pitch rt))
             | _ \<Rightarrow>
                 Some (rt\<lparr>log := log rt @
                         [''Texture upload is not supported for format '' @
                          decimal (format_number (format tex)) @ ''!'']\<rparr>)))"

subsection \<open>What the repacking loops produce\<close>

lemma upload_r8_length: "length (upload_r8 pixels n i k xs) = length xs"
proof (induction pixels n i k xs rule: upload_r8.induct)
  case (1 pixels n i k xs)
  then show ?case by (subst upload_r8.simps) simp
qed

lemma upload_rg8_length: "length (upload_rg8 pixels n i k xs) = length xs"
proof (induction pixels n i k xs rule: upload_rg8.induct)
  case (1 pixels n i k xs)
  then show ?case by (subst upload_rg8.simps) simp
qed

lemma upload_r8_nth:
  "j < length xs \<Longrightarrow>
   upload_r8 pixels (4 * m) (4 * k) k xs ! j = (if k \<le> j \<and> j < m then pixels (4 * j) else xs ! j)"
proof (induction "m - k" arbitrary: k xs)
  case 0
  then show ?case by (subst upload_r8.simps) auto
next
  case (Suc d)
  then have lt: "k < m" by simp
  have step: "upload_r8 pixels (4 * m) (4 * k) k xs =
      upload_r8 pixels (4 * m) (4 * Suc k) (Suc k) (xs[k := pixels (4 * k)])"
    using lt by (subst upload_r8.simps) (simp add: add.commute)
  have d: "d = m - Suc k" using Suc.hyps(2) by simp
  have len: "j < length (xs[k := pixels (4 * k)])" using Suc.prems by simp
  have ih: "upload_r8 pixels (4 * m) (4 * Suc k) (Suc k) (xs[k := pixels (4 * k)]) ! j =
     (if Suc k \<le> j \<and> j < m then pixels (4 * j) else xs[k := pixels (4 * k)] ! j)"
    by (rule Suc.hyps(1) [OF d len])
  have here: "xs[k := pixels (4 * k)] ! j = (if j = k then pixels (4 * j) else xs ! j)"
    using Suc.prems by (auto simp: nth_list_update)
  show ?case unfolding step ih here using lt by auto
qed

lemma upload_rg8_nth:
  "j < length xs \<Longrightarrow>
   upload_rg8 pixels (4 * m) (4 * k) (2 * k) xs ! j =
     (if 2 * k \<le> j \<and> j < 2 * m then pixels (4 * (j div 2) + j mod 2) else xs ! j)"
proof (induction "m - k" arbitrary: k xs)
  case 0
  then show ?case by (subst upload_rg8.simps) auto
next
  case (Suc d)
  then have lt: "k < m" by simp
  define ys where "ys = xs[2 * k + 0 := pixels (4 * k + 0), 2 * k + 1 := pixels (4 * k + 1)]"
  have step: "upload_rg8 pixels (4 * m) (4 * k) (2 * k) xs =
      upload_rg8 pixels (4 * m) (4 * Suc k) (2 * Suc k) ys"
    using lt by (subst upload_rg8.simps) (simp add: ys_def add.commute)
  have d: "d = m - Suc k" using Suc.hyps(2) by simp
  have len: "j < length ys" using Suc.prems by (simp add: ys_def)
  have ih: "upload_rg8 pixels (4 * m) (4 * Suc k) (2 * Suc k) ys ! j =
     (if 2 * Suc k \<le> j \<and> j < 2 * m then pixels (4 * (j div 2) + j mod 2) else ys ! j)"
    by (rule Suc.hyps(1) [OF d len])
  have here: "ys ! j = (if j = 2 * k \<or> j = 2 * k + 1 then pixels (4 * (j div 2) + j mod 2) else xs ! j)"
    using Suc.prems by (auto simp: ys_def nth_list_update)
  show ?case unfolding step ih here using lt by auto
qed

lemma upload_r8_all:
  "upload_r8 pixels (4 * m) 0 0 (replicate m 0) = map (\<lambda>k. pixels (4 * k)) [0..<m]"
proof (rule nth_equalityI)
  show "length (upload_r8 pixels (4 * m) 0 0 (replicate m 0)) = length (map (\<lambda>k. pixels (4 * k)) [0..<m])"
    by (simp add: upload_r8_length)
next
  fix j assume "j < length (upload_r8 pixels (4 * m) 0 0 (replicate m 0))"
  then have j: "j < m" by (simp add: upload_r8_length)
  then show "upload_r8 pixels (4 * m) 0 0 (replicate m 0) ! j = map (\<lambda>k. pixels (4 * k)) [0..<m] ! j"
    using upload_r8_nth [of j "replicate m 0" pixels m 0] by simp
qed

lemma upload_rg8_all:
  "upload_rg8 pixels (4 * m) 0 0 (replicate (2 * m) 0) =
     map (\<lambda>j. pixels (4 * (j div 2) + j mod 2)) [0..<2 * m]"
proof (rule nth_equalityI)
  show "length (upload_rg8 pixels (4 * m) 0 0 (replicate (2 * m) 0)) =
      length (map (\<lambda>j. pixels (4 * (j div 2) + j mod 2)) [0..<2 * m])"
    by (simp add: upload_rg8_length)
next
  fix j assume "j < length (upload_rg8 pixels (4 * m) 0 0 (replicate (2 * m) 0))"
  then have j: "j < 2 * m" by (simp add: upload_rg8_length)
  then show "upload_rg8 pixels (4 * m) 0 0 (replicate (2 * m) 0) ! j =
      map (\<lambda>j. pixels (4 * (j div 2) + j mod 2)) [0..<2 * m] ! j"
    using upload_rg8_nth [of j "replicate (2 * m) 0" pixels m 0] by simp
qed

lemma unat_mult_small:
  "unat (a::u32) * unat (b::u32) < 2 ^ 32 \<Longrightarrow> unat (a * b) = unat a * unat b"
  by (simp add: unat_word_ariths)

text \<open>
  C8. For a texture with an implementation object that is not a reference,
  and whose \<open>width * height * 4\<close> fits 32 bits: with format \<open>r8\<close> the data
  uploaded is source byte \<open>4 * k\<close> for \<open>k = 0, 1, ...\<close> below \<open>width * height\<close>, in
  order; with format \<open>rg8\<close> output byte \<open>j\<close> is byte \<open>j mod 2\<close> of source pixel
  \<open>j div 2\<close>, the first two bytes of every pixel; with any format other than
  \<open>r8\<close>, \<open>rg8\<close> and \<open>rgba8\<close> the call logs one error and leaves the device,
  and so the texture, as it was.
\<close>

theorem upload_texture_repack:
  assumes "tex_impl tex = Some impl" and "impl_reference tex = none"
    and "unat (width tex) * unat (height tex) * 4 < 2 ^ 32"
  shows
    "(format tex = r8 \<longrightarrow>
        upload_texture format_number tex pixels rt =
          Some (update_subresource impl tex
                  (map (\<lambda>k. pixels (4 * k)) [0..<unat (width tex) * unat (height tex)])
                  (width tex) rt)) \<and>
     (format tex = rg8 \<longrightarrow>
        upload_texture format_number tex pixels rt =
          Some (update_subresource impl tex
                  (map (\<lambda>j. pixels (4 * (j div 2) + j mod 2))
                     [0..<2 * (unat (width tex) * unat (height tex))])
                  (width tex * 2) rt)) \<and>
     (format tex \<noteq> r8 \<and> format tex \<noteq> rg8 \<and> format tex \<noteq> rgba8 \<longrightarrow>
        (\<exists>rt'. upload_texture format_number tex pixels rt = Some rt' \<and> device rt' = device rt \<and>
           log rt' = log rt @ [''Texture upload is not supported for format '' @
                                decimal (format_number (format tex)) @ ''!'']))"
proof -
  define m where "m = unat (width tex) * unat (height tex)"
  have "unat (width tex) * unat (height tex) \<le> unat (width tex) * unat (height tex) * 4"
    by simp
  with assms(3) have lt: "unat (width tex) * unat (height tex) < 2 ^ 32"
    by (rule le_less_trans [rotated])
  have wh: "unat (width tex * height tex) = m"
    unfolding m_def by (rule unat_mult_small [OF lt])
  have n: "unat (width tex * height tex * 4) = 4 * m"
    using unat_mult_small [of "width tex * height tex" 4] assms(3) wh by (simp add: m_def)
  have eq: "width tex * 2 * height tex = width tex * height tex * 2" by simp
  have "unat (width tex * height tex * 2) = 2 * m"
    using unat_mult_small [of "width tex * height tex" 2] assms(3) wh by (simp add: m_def)
  then have w2h: "unat (width tex * 2 * height tex) = 2 * m"
    by (simp only: eq)
  have a: "upload_texture format_number tex pixels rt =
      Some (update_subresource impl tex (map (\<lambda>k. pixels (4 * k)) [0..<m]) (width tex) rt)"
    if "format tex = r8"
    using that assms(1,2) by (simp add: upload_texture_def Let_def wh n upload_r8_all)
  have b: "upload_texture format_number tex pixels rt =
      Some (update_subresource impl tex
              (map (\<lambda>j. pixels (4 * (j div 2) + j mod 2)) [0..<2 * m]) (width tex * 2) rt)"
    if "format tex = rg8"
    using that assms(1,2) by (simp add: upload_texture_def Let_def w2h n upload_rg8_all)
  have c: "\<exists>rt'. upload_texture format_number tex pixels rt = Some rt' \<and> device rt' = device rt \<and>
           log rt' = log rt @ [''Texture upload is not supported for format '' @
                                decimal (format_number (format tex)) @ ''!'']"
    if "format tex \<noteq> r8 \<and> format tex \<noteq> rg8 \<and> format tex \<noteq> rgba8"
    using that assms(1,2) by (cases "format tex") (simp_all add: upload_texture_def)
  from a b c show ?thesis unfolding m_def by blast
qed

theorem upload_texture_repack_witness:
  "map_option (\<lambda>rt. commands (device rt))
     (upload_texture (\<lambda>f. 1)
        \<lparr>tex_unique_name = ''T'', width = 2, height = 1, levels = 1, format = r8,
         impl_reference = none,
         tex_impl = Some \<lparr>texture = Some 7, rtv = (None, None), srv = (None, None)\<rparr>\<rparr>
        (\<lambda>a. of_nat a) new_runtime) =
   Some [UpdateSubresource (Some 7) [0, 4] 2 2] \<and>
   map_option log
     (upload_texture (\<lambda>f. 12)
        \<lparr>tex_unique_name = ''T'', width = 2, height = 1, levels = 1, format = rgb10a2,
         impl_reference = none,
         tex_impl = Some \<lparr>texture = Some 7, rtv = (None, None), srv = (None, None)\<rparr>\<rparr>
        (\<lambda>a. of_nat a) new_runtime) =
   Some [''Texture upload is not supported for format 12!'']"
proof -
  define impl where "impl = \<lparr>texture = Some (7::nat), rtv = (None, None), srv = (None, None)\<rparr>"
  define tex where
    "tex = \<lparr>tex_unique_name = ''T'', width = 2, height = 1, levels = 1, format = r8,
         impl_reference = none, tex_impl = Some impl\<rparr>"
  have "upload_texture (\<lambda>f. 1) tex (\<lambda>a. of_nat a) new_runtime =
      Some (update_subresource impl tex
              (map (\<lambda>k. of_nat (4 * k)) [0..<unat (width tex) * unat (height tex)])
              (width tex) new_runtime)"
    using upload_texture_repack [of tex impl "\<lambda>f. 1" "\<lambda>a. of_nat a" new_runtime]
    by (simp add: tex_def)
  moreover have "[0..<unat (width tex) * unat (height tex)] = [0, 1]"
    by (simp add: tex_def upt_rec)
  ultimately have first: "map_option (\<lambda>rt. commands (device rt))
      (upload_texture (\<lambda>f. 1) tex (\<lambda>a. of_nat a) new_runtime) =
      Some [UpdateSubresource (Some 7) [0, 4] 2 2]"
    by (simp add: tex_def impl_def update_subresource_def issue_def new_runtime_def new_device_def)
  have one: "decimal (Suc 0) = ''1''"
    by (subst decimal.simps) (simp add: char_of_def bit_Suc bit_0)
  have twelve: "decimal 12 = ''12''"
    by (subst decimal.simps) (simp add: one char_of_def bit_Suc bit_0)
  have "\<exists>rt'. upload_texture (\<lambda>f. 12) (tex\<lparr>format := rgb10a2\<rparr>) (\<lambda>a. of_nat a) new_runtime = Some rt' \<and>
      device rt' = device new_runtime \<and>
      log rt' = log new_runtime @ [''Texture upload is not supported for format '' @
                                decimal ((\<lambda>f. 12) (format (tex\<lparr>format := rgb10a2\<rparr>))) @ ''!'']"
    using upload_texture_repack [of "tex\<lparr>format := rgb10a2\<rparr>" impl "\<lambda>f. 12" "\<lambda>a. of_nat a"
        new_runtime]
    by (simp add: tex_def)
  then have second: "map_option log
      (upload_texture (\<lambda>f. 12) (tex\<lparr>format := rgb10a2\<rparr>) (\<lambda>a. of_nat a) new_runtime) =
      Some [''Texture upload is not supported for format 12!'']"
    by (auto simp: twelve new_runtime_def)
  from first second show ?thesis by (simp add: tex_def impl_def)
qed

section \<open>Texture creation\<close>

text \<open>The storage format \<open>init_texture\<close> chooses for a declared texture format.\<close>

fun storage_format :: "texture_format \<Rightarrow> DXGI_FORMAT" where
  "storage_format r8 = DXGI_FORMAT_R8_UNORM"
| "storage_format r16f = DXGI_FORMAT_R16_FLOAT"
| "storage_format r32f = DXGI_FORMAT_R32_FLOAT"
| "storage_format rg8 = DXGI_FORMAT_R8G8_UNORM"
| "storage_format rg16 = DXGI_FORMAT_R16G16_UNORM"
| "storage_format rg16f = DXGI_FORMAT_R16G16_FLOAT"
| "storage_format rg32f = DXGI_FORMAT_R32G32_FLOAT"
| "storage_format rgba8 = DXGI_FORMAT_R8G8B8A8_TYPELESS"
| "storage_format rgba16 = DXGI_FORMAT_R16G16B16A16_UNORM"
| "storage_format rgba16f = DXGI_FORMAT_R16G16B16A16_FLOAT"
| "storage_format rgba32f = DXGI_FORMAT_R32G32B32A32_FLOAT"
| "storage_format rgb10a2 = DXGI_FORMAT_R10G10B10A2_UNORM"
| "storage_format unknown = DXGI_FORMAT_UNKNOWN"

text \<open>
  \<open>init_texture\<close>. \<open>make_dxgi_format_srgb\<close> is declared in
  \<^verbatim>\<open>dxgi/format_utils.hpp\<close>, which is not among the sources, and is a
  parameter here: it maps a format to its sRGB variant, or to itself when
  there is none. The result is whether the texture was created, the texture
  with its implementation object, and the runtime.
\<close>

definition init_texture ::
  "(DXGI_FORMAT \<Rightarrow> DXGI_FORMAT) \<Rightarrow> texture_object \<Rightarrow> runtime_d3d10 \<Rightarrow>
   bool \<times> texture_object \<times> runtime_d3d10" where
  "init_texture make_dxgi_format_srgb tex rt =
     (let impl = \<lparr>texture = None, rtv = (None, None), srv = (None, None)\<rparr> in
      case impl_reference tex of
        back_buffer \<Rightarrow>
          (True, tex\<lparr>tex_impl := Some (impl\<lparr>srv := backbuffer_texture_srv rt\<rparr>)\<rparr>, rt)
      | depth_buffer \<Rightarrow>
          (True, tex\<lparr>tex_impl := Some (impl\<lparr>srv := (depth_texture_srv rt, depth_texture_srv rt)\<rparr>)\<rparr>, rt)
      | none \<Rightarrow>
          (let desc_format = storage_format (format tex) in
           case create_object (device rt) of
             (None, dev) \<Rightarrow>
               (False, tex\<lparr>tex_impl := Some impl\<rparr>,
                rt\<lparr>device := dev,
                   log := log rt @ [''Failed to create texture '' @ tex_unique_name tex]\<rparr>)
           | (Some t, dev) \<Rightarrow>
               (let impl = impl\<lparr>texture := Some t\<rparr> in
                case create_view (texture impl) (levels tex) dev of
                  (None, dev) \<Rightarrow>
                    (False, tex\<lparr>tex_impl := Some impl\<rparr>,
                     rt\<lparr>device := dev,
                        log := log rt @
                          [''Failed to create shader resource view for texture '' @ tex_unique_name tex]\<rparr>)
                | (Some v0, dev) \<Rightarrow>
                    (let impl = impl\<lparr>srv := set2 (srv impl) 0 (Some v0)\<rparr> in
                     if make_dxgi_format_srgb desc_format \<noteq> desc_format then
                       (case create_view (texture impl) (levels tex) dev of
                          (None, dev) \<Rightarrow>
                            (False, tex\<lparr>tex_impl := Some impl\<rparr>,
                             rt\<lparr>device := dev,
                                log := log rt @
                                  [''Failed to create shader resource view for texture '' @
                                   tex_unique_name tex]\<rparr>)
                        | (Some v1, dev) \<Rightarrow>
                            (True, tex\<lparr>tex_impl := Some (impl\<lparr>srv := set2 (srv impl) 1 (Some v1)\<rparr>)\<rparr>,
                             rt\<lparr>device := dev\<rparr>))
                     else
                       (True,
                        tex\<lparr>tex_impl := Some (impl\<lparr>srv := set2 (srv impl) 1 (at2 (srv impl) 0)\<rparr>)\<rparr>,
                        rt\<lparr>device := dev\<rparr>)))))"

text \<open>
  C5. When \<open>init_texture\<close> succeeds on a texture that is not a reference, the
  texture has a normal read view. If the sRGB variant of its storage format is
  the storage format itself, the gamma read view is that same view and the
  device has created two objects (the texture and one view); otherwise the
  gamma view is a second view on the same texture, with an identity of its
  own, and the device has created three objects.
\<close>

theorem init_texture_srgb_view:
  assumes "init_texture make_dxgi_format_srgb tex rt = (True, tex', rt')"
    and "impl_reference tex = none"
  shows "\<exists>impl v0 v1.
           tex_impl tex' = Some impl \<and> srv impl = (Some v0, Some v1) \<and>
           view_resource v0 = view_resource v1 \<and> texture impl = Some (view_resource v0) \<and>
           (if make_dxgi_format_srgb (storage_format (format tex)) = storage_format (format tex)
            then v1 = v0 \<and> next_handle (device rt') = next_handle (device rt) + 2
            else view_id v1 \<noteq> view_id v0 \<and>
                 next_handle (device rt') = next_handle (device rt) + 3)"
  using assms
  by (auto simp: init_texture_def create_view_def create_object_def set2_def at2_def Let_def
      split: if_splits prod.splits option.splits)

theorem init_texture_srgb_view_witness:
  "(let srgb = (\<lambda>f. if f = DXGI_FORMAT_R8G8B8A8_TYPELESS \<or> f = DXGI_FORMAT_R8G8B8A8_UNORM
                      then DXGI_FORMAT_R8G8B8A8_UNORM_SRGB else f);
        tex = \<lparr>tex_unique_name = ''T'', width = 4, height = 4, levels = 1, format = rgba8,
               impl_reference = none, tex_impl = None\<rparr>
    in map_option srv (tex_impl (fst (snd (init_texture srgb tex new_runtime)))) =
         Some (Some \<lparr>view_id = 2, view_resource = 1, view_mip_levels = 1\<rparr>,
               Some \<lparr>view_id = 3, view_resource = 1, view_mip_levels = 1\<rparr>) \<and>
       map_option srv (tex_impl (fst (snd (init_texture srgb (tex\<lparr>format := r8\<rparr>) new_runtime)))) =
         Some (Some \<lparr>view_id = 2, view_resource = 1, view_mip_levels = 1\<rparr>,
               Some \<lparr>view_id = 2, view_resource = 1, view_mip_levels = 1\<rparr>))"
proof -
  define srgb where "srgb = (\<lambda>f. if f = DXGI_FORMAT_R8G8B8A8_TYPELESS \<or> f = DXGI_FORMAT_R8G8B8A8_UNORM
                      then DXGI_FORMAT_R8G8B8A8_UNORM_SRGB else f)"
  define tex where "tex = \<lparr>tex_unique_name = ''T'', width = 4, height = 4, levels = 1, format = rgba8,
               impl_reference = none, tex_impl = None\<rparr>"
  define r where "r = init_texture srgb tex new_runtime"
  have r: "r = (True, fst (snd r), snd (snd r))"
    by (simp add: r_def init_texture_def create_view_def create_object_def set2_def at2_def Let_def
        tex_def srgb_def new_runtime_def new_device_def prod_eq_iff)
  have "view_id (the (snd (the (map_option srv (tex_impl (fst (snd r))))))) \<noteq>
        view_id (the (fst (the (map_option srv (tex_impl (fst (snd r)))))))"
    using init_texture_srgb_view [OF r [unfolded r_def]] 
    by (auto simp: r_def srgb_def tex_def)
  then show ?thesis
    unfolding Let_def srgb_def [symmetric] tex_def [symmetric]
    by (simp add: init_texture_def create_view_def create_object_def set2_def at2_def Let_def
        tex_def srgb_def new_runtime_def new_device_def)
qed

section \<open>Rendering a technique\<close>

definition issue_all :: "command list \<Rightarrow> d3d10_device \<Rightarrow> d3d10_device" where
  "issue_all cs dev = dev\<lparr>commands := commands dev @ cs\<rparr>"

record D3D10_QUERY_DATA_TIMESTAMP_DISJOINT =
  Frequency :: u64
  Disjoint :: bool

text \<open>
  What \<open>GetData\<close> with \<open>D3D10_ASYNC_GETDATA_DONOTFLUSH\<close> would return for the
  three queries of a technique at the time of the call: \<open>None\<close> when the result
  is not \<open>S_OK\<close>. The GPU decides it, not the runtime.
\<close>

record gpu_results =
  disjoint_result :: "D3D10_QUERY_DATA_TIMESTAMP_DISJOINT option"
  timestamp0_result :: "u64 option"
  timestamp1_result :: "u64 option"

text \<open>
  The block under \<open>// Evaluate queries\<close>. The three \<open>GetData\<close> calls are joined
  by \<open>&&\<close>, so a later query is only touched when the earlier ones succeeded.
  Calling through a null query pointer, and dividing by a zero frequency, are
  undefined: the result is \<open>None\<close>. Modelled from the spec:
  \<open>average_gpu_duration\<close> (a \<open>moving_average\<close> of \<^verbatim>\<open>runtime_objects.hpp\<close>, not
  among the sources) is the rolling average; it is kept as the list of
  samples appended to it.
\<close>

definition evaluate_queries ::
  "gpu_results \<Rightarrow> d3d10_technique_data \<Rightarrow> technique \<Rightarrow> (d3d10_technique_data \<times> technique) option" where
  "evaluate_queries res impl tech =
     (if query_in_flight impl then
        (case timestamp_disjoint impl of
           None \<Rightarrow> None
         | Some qd \<Rightarrow>
        (case disjoint_result res of
           None \<Rightarrow> Some (impl, tech)
         | Some disjoint \<Rightarrow>
        (case timestamp_query_beg impl of
           None \<Rightarrow> None
         | Some qb \<Rightarrow>
        (case timestamp0_result res of
           None \<Rightarrow> Some (impl, tech)
         | Some timestamp0 \<Rightarrow>
        (case timestamp_query_end impl of
           None \<Rightarrow> None
         | Some qe \<Rightarrow>
        (case timestamp1_result res of
           None \<Rightarrow> Some (impl, tech)
         | Some timestamp1 \<Rightarrow>
             if \<not> Disjoint disjoint then
               (if Frequency disjoint = 0 then None
                else Some (impl\<lparr>query_in_flight := False\<rparr>,
                           tech\<lparr>average_gpu_duration := average_gpu_duration tech @
                                  [(timestamp1 - timestamp0) * 1000000000 div Frequency disjoint]\<rparr>))
             else Some (impl\<lparr>query_in_flight := False\<rparr>, tech)))))))
      else Some (impl, tech))"

text \<open>The two guarded blocks that issue the timestamp pair.\<close>

definition begin_queries :: "d3d10_technique_data \<Rightarrow> command list option" where
  "begin_queries impl =
     (if \<not> query_in_flight impl then
        (case (timestamp_disjoint impl, timestamp_query_beg impl) of
           (Some qd, Some qb) \<Rightarrow> Some [QueryBegin qd, QueryEnd qb]
         | _ \<Rightarrow> None)
      else Some [])"

definition end_queries :: "d3d10_technique_data \<Rightarrow> command list option" where
  "end_queries impl =
     (if \<not> query_in_flight impl then
        (case (timestamp_query_end impl, timestamp_disjoint impl) of
           (Some qe, Some qd) \<Rightarrow> Some [QueryEnd qe, QueryEnd qd]
         | _ \<Rightarrow> None)
      else Some [])"

text \<open>
  The commands of one pass, in the order the loop body issues them, from the
  value of \<open>is_effect_stencil_cleared\<close> on entry; and the value of that flag
  after the pass.
\<close>

definition full_viewport :: "runtime_d3d10 \<Rightarrow> pass_info \<Rightarrow> bool" where
  "full_viewport rt pass_info \<longleftrightarrow>
     viewport_width pass_info = rt_width rt \<and> viewport_height pass_info = rt_height rt"

definition pass_commands ::
  "runtime_d3d10 \<Rightarrow> bool \<Rightarrow> pass_info \<Rightarrow> d3d10_pass_data \<Rightarrow> command list" where
  "pass_commands rt is_effect_stencil_cleared pass_info pass_data =
     [VSSetShader (vertex_shader pass_data),
      PSSetShader (pixel_shader pass_data),
      OMSetBlendState (blend_state pass_data),
      OMSetDepthStencilState (depth_stencil_state pass_data) (stencil_reference_value pass_info),
      CopyResource (backbuffer_texture rt) (backbuffer_resolved rt),
      VSSetShaderResources (shader_resources pass_data),
      PSSetShaderResources (shader_resources pass_data)] @
     (if full_viewport rt pass_info then
        [OMSetRenderTargets (render_targets pass_data)
           (if stencil_enable pass_info then effect_depthstencil rt else None)] @
        (if stencil_enable pass_info \<and> \<not> is_effect_stencil_cleared
         then [ClearDepthStencilView (effect_depthstencil rt)] else [])
      else [OMSetRenderTargets (render_targets pass_data) None]) @
     (if clear_render_targets pass_info
      then map ClearRenderTargetView (List.map_filter id (render_targets pass_data)) else []) @
     [RSSetViewports (viewport_width pass_info) (viewport_height pass_info),
      Draw (num_vertices pass_info),
      OMSetRenderTargets [] None,
      VSSetShaderResources (replicate (length (shader_resources pass_data)) None),
      PSSetShaderResources (replicate (length (shader_resources pass_data)) None)] @
     map (\<lambda>v. GenerateMips (Some v))
       (filter (\<lambda>v. view_mip_levels v > 1) (List.map_filter id (render_target_resources pass_data)))"

definition stencil_cleared_after :: "runtime_d3d10 \<Rightarrow> bool \<Rightarrow> pass_info \<Rightarrow> bool" where
  "stencil_cleared_after rt is_effect_stencil_cleared pass_info =
     (if full_viewport rt pass_info \<and> stencil_enable pass_info \<and> \<not> is_effect_stencil_cleared
      then True else is_effect_stencil_cleared)"

fun render_passes ::
  "bool \<Rightarrow> (pass_info \<times> d3d10_pass_data) list \<Rightarrow> runtime_d3d10 \<Rightarrow> runtime_d3d10" where
  "render_passes is_effect_stencil_cleared [] rt = rt"
| "render_passes is_effect_stencil_cleared ((pass_info, pass_data) # rest) rt =
     render_passes (stencil_cleared_after rt is_effect_stencil_cleared pass_info) rest
       (rt\<lparr>device := issue_all (pass_commands rt is_effect_stencil_cleared pass_info pass_data) (device rt),
           vertices := vertices rt + num_vertices pass_info,
           drawcalls := drawcalls rt + 1\<rparr>)"

text \<open>The state set up before the passes: vertex input, rasterizer, samplers, constants.\<close>

definition setup_commands :: "d3d10_technique_data \<Rightarrow> runtime_d3d10 \<Rightarrow> command list" where
  "setup_commands impl rt =
     [IASetPrimitiveTopology, IASetInputLayout, IASetVertexBuffers,
      RSSetState (effect_rasterizer rt),
      VSSetSamplers (sampler_states impl),
      PSSetSamplers (sampler_states impl)]"

definition setup_constants :: "technique \<Rightarrow> runtime_d3d10 \<Rightarrow> d3d10_device option" where
  "setup_constants tech rt =
     (case cb (effect_data rt ! effect_index tech) of
        None \<Rightarrow> Some (device rt)
      | Some b \<Rightarrow>
          (case fallible_call (device rt) of
             (True, dev) \<Rightarrow>
               if effect_index tech < length (effects rt)
               then Some (issue_all
                     [WriteConstantBuffer b (uniform_data_storage (effects rt ! effect_index tech)),
                      VSSetConstantBuffers b, PSSetConstantBuffers b] dev)
               else None
           | (False, dev) \<Rightarrow> Some (issue_all [VSSetConstantBuffers b, PSSetConstantBuffers b] dev)))"

text \<open>
  \<open>render_technique\<close>. \<open>None\<close> is undefined behaviour: a technique without an
  implementation object, an effect index or a pass index out of range, a null
  query, a zero frequency.
\<close>

definition render_technique ::
  "gpu_results \<Rightarrow> technique \<Rightarrow> runtime_d3d10 \<Rightarrow> (technique \<times> runtime_d3d10) option" where
  "render_technique res tech rt =
     (case tech_impl tech of
        None \<Rightarrow> None
      | Some impl \<Rightarrow>
          if \<not> effect_index tech < length (effect_data rt) then None
          else
            (case evaluate_queries res impl tech of
               None \<Rightarrow> None
             | Some (impl, tech) \<Rightarrow>
            (case begin_queries impl of
               None \<Rightarrow> None
             | Some begin \<Rightarrow>
                 (let rt = rt\<lparr>device := issue_all (begin @ setup_commands impl rt) (device rt)\<rparr> in
                  case setup_constants tech rt of
                    None \<Rightarrow> None
                  | Some dev \<Rightarrow>
                      (let rt = rt\<lparr>device := issue_all [GSSetShader] dev\<rparr> in
                       if length (passes impl) < length (tech_passes tech) then None
                       else
                         (let rt = render_passes False
                                     (zip (tech_passes tech) (passes impl)) rt in
                          case end_queries impl of
                            None \<Rightarrow> None
                          | Some finish \<Rightarrow>
                              Some (tech\<lparr>tech_impl := Some (impl\<lparr>query_in_flight := True\<rparr>)\<rparr>,
                                    rt\<lparr>device := issue_all finish (device rt)\<rparr>)))))))"

subsection \<open>The commands of a call\<close>

fun all_pass_commands ::
  "runtime_d3d10 \<Rightarrow> bool \<Rightarrow> (pass_info \<times> d3d10_pass_data) list \<Rightarrow> command list" where
  "all_pass_commands rt c [] = []"
| "all_pass_commands rt c ((pass_info, pass_data) # rest) =
     pass_commands rt c pass_info pass_data @
     all_pass_commands rt (stencil_cleared_after rt c pass_info) rest"

lemma full_viewport_frame [simp]:
  "full_viewport (rt\<lparr>device := dev, vertices := v, drawcalls := n\<rparr>) p = full_viewport rt p"
  "full_viewport (rt\<lparr>device := dev\<rparr>) p = full_viewport rt p"
  by (simp_all add: full_viewport_def)

lemma pass_commands_frame [simp]:
  "pass_commands (rt\<lparr>device := dev, vertices := v, drawcalls := n\<rparr>) c p d = pass_commands rt c p d"
  "pass_commands (rt\<lparr>device := dev\<rparr>) c p d = pass_commands rt c p d"
  by (simp_all add: pass_commands_def)

lemma stencil_cleared_after_frame [simp]:
  "stencil_cleared_after (rt\<lparr>device := dev, vertices := v, drawcalls := n\<rparr>) c p = stencil_cleared_after rt c p"
  "stencil_cleared_after (rt\<lparr>device := dev\<rparr>) c p = stencil_cleared_after rt c p"
  by (simp_all add: stencil_cleared_after_def)

lemma all_pass_commands_frame [simp]:
  "all_pass_commands (rt\<lparr>device := dev, vertices := v, drawcalls := n\<rparr>) c ps = all_pass_commands rt c ps"
  "all_pass_commands (rt\<lparr>device := dev\<rparr>) c ps = all_pass_commands rt c ps"
  by (induction ps arbitrary: c) auto

lemma render_passes_commands:
  "commands (device (render_passes c ps rt)) = commands (device rt) @ all_pass_commands rt c ps"
  by (induction ps arbitrary: c rt) (auto simp: issue_all_def)

definition is_query :: "command \<Rightarrow> bool" where
  "is_query c = (case c of QueryBegin q \<Rightarrow> True | QueryEnd q \<Rightarrow> True | _ \<Rightarrow> False)"

definition is_stencil_event :: "command \<Rightarrow> bool" where
  "is_stencil_event c =
     (case c of OMSetRenderTargets ts d \<Rightarrow> ts \<noteq> [] | ClearDepthStencilView d \<Rightarrow> True | _ \<Rightarrow> False)"

lemma filter_map_none: "(\<And>x. \<not> P (f x)) \<Longrightarrow> filter P (map f xs) = []"
  by (induction xs) auto

lemma pass_commands_no_query: "filter is_query (pass_commands rt c p d) = []"
  by (simp add: pass_commands_def is_query_def filter_map_none)

lemma all_pass_commands_no_query: "filter is_query (all_pass_commands rt c ps) = []"
  by (induction ps arbitrary: c) (auto simp: pass_commands_no_query)

lemma setup_commands_quiet:
  "filter is_query (setup_commands impl rt) = []"
  "filter is_stencil_event (setup_commands impl rt) = []"
  by (simp_all add: setup_commands_def is_query_def is_stencil_event_def)

lemma setup_constants_commands:
  assumes "setup_constants tech rt = Some dev"
  shows "\<exists>cs. commands dev = commands (device rt) @ cs \<and> filter is_query cs = [] \<and>
           filter is_stencil_event cs = []"
  using assms
  by (auto simp: setup_constants_def fallible_call_def issue_all_def is_query_def
      is_stencil_event_def split: option.splits if_splits bool.splits)

lemma render_technique_SomeD:
  assumes "render_technique res tech rt = Some (tech', rt')" and "tech_impl tech = Some impl"
  obtains impl1 tech1 start dev finish where
    "evaluate_queries res impl tech = Some (impl1, tech1)"
    "begin_queries impl1 = Some start"
    "setup_constants tech1 (rt\<lparr>device := issue_all (start @ setup_commands impl1 rt) (device rt)\<rparr>) = Some dev"
    "length (tech_passes tech1) \<le> length (passes impl1)"
    "end_queries impl1 = Some finish"
    "tech' = tech1\<lparr>tech_impl := Some (impl1\<lparr>query_in_flight := True\<rparr>)\<rparr>"
    "commands (device rt') =
       commands dev @ [GSSetShader] @
       all_pass_commands rt False (zip (tech_passes tech1) (passes impl1)) @ finish"
  using assms
  by (auto simp: render_technique_def Let_def render_passes_commands issue_all_def
      split: option.splits if_splits)

definition results_available :: "gpu_results \<Rightarrow> bool" where
  "results_available res \<longleftrightarrow>
     disjoint_result res \<noteq> None \<and> timestamp0_result res \<noteq> None \<and> timestamp1_result res \<noteq> None"

lemma evaluate_queries_SomeD:
  assumes "evaluate_queries res impl tech = Some (impl1, tech1)"
  shows "impl1 = impl\<lparr>query_in_flight := query_in_flight impl \<and> \<not> results_available res\<rparr>"
    and "tech_passes tech1 = tech_passes tech"
    and "average_gpu_duration tech1 = average_gpu_duration tech @
       (if query_in_flight impl \<and> results_available res \<and> \<not> Disjoint (the (disjoint_result res))
        then [(the (timestamp1_result res) - the (timestamp0_result res)) * 1000000000 div
              Frequency (the (disjoint_result res))]
        else [])"
  using assms
  by (auto simp: evaluate_queries_def results_available_def split: option.splits if_splits)

lemma begin_queries_SomeD:
  assumes "begin_queries impl = Some start"
  shows "if query_in_flight impl then start = []
         else \<exists>qd qb. timestamp_disjoint impl = Some qd \<and> timestamp_query_beg impl = Some qb \<and>
                start = [QueryBegin qd, QueryEnd qb]"
  using assms by (auto simp: begin_queries_def split: option.splits if_splits)

lemma end_queries_SomeD:
  assumes "end_queries impl = Some finish"
  shows "if query_in_flight impl then finish = []
         else \<exists>qe qd. timestamp_query_end impl = Some qe \<and> timestamp_disjoint impl = Some qd \<and>
                finish = [QueryEnd qe, QueryEnd qd]"
  using assms by (auto simp: end_queries_def split: option.splits if_splits)

text \<open>
  C3. \<open>query_in_flight\<close> is the state: in flight when set, idle when not. Take
  a call of \<open>render_technique\<close> that returns. If the technique was in flight
  and the poll does not give all three results, the call issues no query
  command, appends no sample, and leaves the technique in flight. Otherwise
  the technique is idle after the poll: when it was in flight the poll gave
  all three results, and one sample \<open>(timestamp1 - timestamp0) * 10^9 / Frequency\<close>
  is appended unless the result is disjoint, in which case none is; then the
  call issues \<open>Begin\<close> on the disjoint query and \<open>End\<close> on the begin query before
  every other command, \<open>End\<close> on the end query and on the disjoint query after
  every other command, and no query command in between. In every case the
  technique is in flight when the call returns.
\<close>

theorem render_technique_timing:
  assumes "render_technique res tech rt = Some (tech', rt')" and "tech_impl tech = Some impl"
  shows "\<exists>impl1 tech1 impl' new.
           evaluate_queries res impl tech = Some (impl1, tech1) \<and>
           query_in_flight impl1 = (query_in_flight impl \<and> \<not> results_available res) \<and>
           tech_impl tech' = Some impl' \<and> query_in_flight impl' \<and>
           commands (device rt') = commands (device rt) @ new \<and>
           (if query_in_flight impl \<and> \<not> results_available res
            then filter is_query new = [] \<and>
                 average_gpu_duration tech' = average_gpu_duration tech
            else (\<exists>qd qb qe mid.
                    timestamp_disjoint impl = Some qd \<and> timestamp_query_beg impl = Some qb \<and>
                    timestamp_query_end impl = Some qe \<and>
                    new = [QueryBegin qd, QueryEnd qb] @ mid @ [QueryEnd qe, QueryEnd qd] \<and>
                    filter is_query mid = []) \<and>
                 average_gpu_duration tech' = average_gpu_duration tech @
                   (if query_in_flight impl \<and> \<not> Disjoint (the (disjoint_result res))
                    then [(the (timestamp1_result res) - the (timestamp0_result res)) * 1000000000
                            div Frequency (the (disjoint_result res))]
                    else []))"
proof -
  from assms obtain impl1 tech1 start dev finish where
    ev: "evaluate_queries res impl tech = Some (impl1, tech1)" and
    st: "begin_queries impl1 = Some start" and
    sc: "setup_constants tech1 (rt\<lparr>device := issue_all (start @ setup_commands impl1 rt) (device rt)\<rparr>) = Some dev" and
    fi: "end_queries impl1 = Some finish" and
    t': "tech' = tech1\<lparr>tech_impl := Some (impl1\<lparr>query_in_flight := True\<rparr>)\<rparr>" and
    cm: "commands (device rt') =
       commands dev @ [GSSetShader] @
       all_pass_commands rt False (zip (tech_passes tech1) (passes impl1)) @ finish"
    by (rule render_technique_SomeD)
  note e = evaluate_queries_SomeD [OF ev]
  define busy where "busy \<longleftrightarrow> query_in_flight impl \<and> \<not> results_available res"
  have q1: "query_in_flight impl1 = busy" by (simp add: e(1) busy_def)
  from setup_constants_commands [OF sc] obtain cs where
    cs: "commands dev = commands (device rt) @ start @ setup_commands impl1 rt @ cs"
      "filter is_query cs = []"
    by (auto simp: issue_all_def)
  define mid where "mid = setup_commands impl1 rt @ cs @ [GSSetShader] @
       all_pass_commands rt False (zip (tech_passes tech1) (passes impl1))"
  have mid: "filter is_query mid = []"
    by (simp add: mid_def setup_commands_quiet cs(2) all_pass_commands_no_query is_query_def)
  have new: "commands (device rt') = commands (device rt) @ (start @ mid @ finish)"
    by (simp add: cm cs(1) mid_def)
  have avg: "average_gpu_duration tech' = average_gpu_duration tech1" by (simp add: t')
  have main: "if busy
            then filter is_query (start @ mid @ finish) = [] \<and>
                 average_gpu_duration tech' = average_gpu_duration tech
            else (\<exists>qd qb qe mid'.
                    timestamp_disjoint impl = Some qd \<and> timestamp_query_beg impl = Some qb \<and>
                    timestamp_query_end impl = Some qe \<and>
                    start @ mid @ finish = [QueryBegin qd, QueryEnd qb] @ mid' @ [QueryEnd qe, QueryEnd qd] \<and>
                    filter is_query mid' = []) \<and>
                 average_gpu_duration tech' = average_gpu_duration tech @
                   (if query_in_flight impl \<and> \<not> Disjoint (the (disjoint_result res))
                    then [(the (timestamp1_result res) - the (timestamp0_result res)) * 1000000000
                            div Frequency (the (disjoint_result res))]
                    else [])"
  proof (cases busy)
    case True
    with begin_queries_SomeD [OF st] end_queries_SomeD [OF fi] q1
    have "start = []" "finish = []" by simp_all
    moreover have "average_gpu_duration tech' = average_gpu_duration tech"
      using True by (simp add: avg e(3) busy_def)
    ultimately show ?thesis using True mid by simp
  next
    case False
    with begin_queries_SomeD [OF st] end_queries_SomeD [OF fi] q1
    obtain qd qb qe where
      "timestamp_disjoint impl1 = Some qd" "timestamp_query_beg impl1 = Some qb"
      "timestamp_query_end impl1 = Some qe"
      "start = [QueryBegin qd, QueryEnd qb]" "finish = [QueryEnd qe, QueryEnd qd]"
      by auto
    then have "timestamp_disjoint impl = Some qd \<and> timestamp_query_beg impl = Some qb \<and>
        timestamp_query_end impl = Some qe \<and>
        start @ mid @ finish = [QueryBegin qd, QueryEnd qb] @ mid @ [QueryEnd qe, QueryEnd qd] \<and>
        filter is_query mid = []"
      using mid by (simp add: e(1))
    moreover have "average_gpu_duration tech' = average_gpu_duration tech @
                   (if query_in_flight impl \<and> \<not> Disjoint (the (disjoint_result res))
                    then [(the (timestamp1_result res) - the (timestamp0_result res)) * 1000000000
                            div Frequency (the (disjoint_result res))]
                    else [])"
      using False by (auto simp: avg e(3) busy_def)
    ultimately show ?thesis unfolding if_not_P [OF False] by blast
  qed
  have "tech_impl tech' = Some (impl1\<lparr>query_in_flight := True\<rparr>)" by (simp add: t')
  with ev q1 new main show ?thesis
    unfolding busy_def by (intro exI [of _ impl1] exI [of _ tech1]
        exI [of _ "impl1\<lparr>query_in_flight := True\<rparr>"] exI [of _ "start @ mid @ finish"]) simp
qed

subsection \<open>The effect depth-stencil surface\<close>

text \<open>
  A pass needs the effect depth-stencil surface when its viewport has the size
  of the back buffer and stencil testing is enabled; \<open>bind_of\<close> is the
  \<open>OMSetRenderTargets\<close> call that binds the targets of a pass.
\<close>

definition needs_stencil :: "runtime_d3d10 \<Rightarrow> pass_info \<Rightarrow> bool" where
  "needs_stencil rt pass_info \<longleftrightarrow> full_viewport rt pass_info \<and> stencil_enable pass_info"

definition bind_of :: "runtime_d3d10 \<Rightarrow> pass_info \<times> d3d10_pass_data \<Rightarrow> command" where
  "bind_of rt x =
     OMSetRenderTargets (render_targets (snd x))
       (if needs_stencil rt (fst x) then effect_depthstencil rt else None)"

definition is_stencil_clear :: "command \<Rightarrow> bool" where
  "is_stencil_clear c = (case c of ClearDepthStencilView d \<Rightarrow> True | _ \<Rightarrow> False)"

lemma pass_events:
  assumes "render_targets d \<noteq> []"
  shows "filter is_stencil_event (pass_commands rt c p d) =
     bind_of rt (p, d) #
     (if needs_stencil rt p \<and> \<not> c then [ClearDepthStencilView (effect_depthstencil rt)] else [])"
  using assms
  by (simp add: pass_commands_def is_stencil_event_def bind_of_def needs_stencil_def filter_map_none)

lemma events_cleared:
  "\<forall>x\<in>set ps. render_targets (snd x) \<noteq> [] \<Longrightarrow>
   filter is_stencil_event (all_pass_commands rt True ps) = map (bind_of rt) ps"
  by (induction ps) (auto simp: pass_events stencil_cleared_after_def)

lemma events_before:
  "\<forall>x\<in>set before. \<not> needs_stencil rt (fst x) \<Longrightarrow>
   \<forall>x\<in>set before. render_targets (snd x) \<noteq> [] \<Longrightarrow>
   filter is_stencil_event (all_pass_commands rt False (before @ rest)) =
     map (bind_of rt) before @ filter is_stencil_event (all_pass_commands rt False rest)"
  by (induction before) (auto simp: pass_events stencil_cleared_after_def needs_stencil_def)

lemma events_none:
  assumes "\<forall>x\<in>set ps. \<not> needs_stencil rt (fst x)" and "\<forall>x\<in>set ps. render_targets (snd x) \<noteq> []"
  shows "filter is_stencil_event (all_pass_commands rt False ps) = map (bind_of rt) ps"
  using events_before [of ps rt "[]"] assms by simp

lemma events_first:
  assumes "\<forall>x\<in>set before. \<not> needs_stencil rt (fst x)" and "needs_stencil rt p"
    and "\<forall>x\<in>set (before @ (p, d) # after). render_targets (snd x) \<noteq> []"
  shows "filter is_stencil_event (all_pass_commands rt False (before @ (p, d) # after)) =
     map (bind_of rt) before @
     [bind_of rt (p, d), ClearDepthStencilView (effect_depthstencil rt)] @
     map (bind_of rt) after"
proof -
  have "filter is_stencil_event (all_pass_commands rt False ((p, d) # after)) =
      [bind_of rt (p, d), ClearDepthStencilView (effect_depthstencil rt)] @ map (bind_of rt) after"
    using assms(2,3)
    by (simp add: pass_events stencil_cleared_after_def needs_stencil_def events_cleared)
  with events_before [of before rt "(p, d) # after"] assms(1,3) show ?thesis by simp
qed

lemma clears_of_binds: "filter is_stencil_clear (map (bind_of rt) ps) = []"
  by (simp add: filter_map_none is_stencil_clear_def bind_of_def)

lemma clears_of_events: "filter is_stencil_clear (filter is_stencil_event cs) = filter is_stencil_clear cs"
proof -
  have "is_stencil_clear c \<Longrightarrow> is_stencil_event c" for c
    by (cases c) (simp_all add: is_stencil_clear_def is_stencil_event_def)
  then show ?thesis by (induction cs) auto
qed

text \<open>
  C10, as the code has it. Take a call of \<open>render_technique\<close> that returns, on
  passes that each have their render-target slots. Among the commands of the
  call, the bindings of render targets and the stencil clears are, in order:
  one binding per pass, with the effect depth-stencil surface exactly when the
  pass needs it (viewport of the size of the back buffer and stencil testing
  enabled, whatever the pass renders to), and a single clear of the stencil
  plane right after the binding of the first pass that needs it; no clear at
  all when no pass needs it.
\<close>

theorem render_technique_stencil:
  assumes "render_technique res tech rt = Some (tech', rt')" and "tech_impl tech = Some impl"
    and "\<forall>d\<in>set (passes impl). render_targets d \<noteq> []"
  shows "\<exists>new. commands (device rt') = commands (device rt) @ new \<and>
     (let ps = zip (tech_passes tech) (passes impl);
          ev = filter is_stencil_event new
      in length (filter is_stencil_clear new) =
           (if \<exists>x\<in>set ps. needs_stencil rt (fst x) then 1 else 0) \<and>
         ((\<forall>x\<in>set ps. \<not> needs_stencil rt (fst x)) \<longrightarrow> ev = map (bind_of rt) ps) \<and>
         (\<forall>before p d after.
            ps = before @ (p, d) # after \<and> (\<forall>x\<in>set before. \<not> needs_stencil rt (fst x)) \<and>
            needs_stencil rt p \<longrightarrow>
            ev = map (bind_of rt) before @
                 [bind_of rt (p, d), ClearDepthStencilView (effect_depthstencil rt)] @
                 map (bind_of rt) after))"
proof -
  from assms(1,2) obtain impl1 tech1 start dev finish where
    ev: "evaluate_queries res impl tech = Some (impl1, tech1)" and
    st: "begin_queries impl1 = Some start" and
    sc: "setup_constants tech1 (rt\<lparr>device := issue_all (start @ setup_commands impl1 rt) (device rt)\<rparr>) = Some dev" and
    fi: "end_queries impl1 = Some finish" and
    cm: "commands (device rt') =
       commands dev @ [GSSetShader] @
       all_pass_commands rt False (zip (tech_passes tech1) (passes impl1)) @ finish"
    by (rule render_technique_SomeD)
  note e = evaluate_queries_SomeD [OF ev]
  define ps where "ps = zip (tech_passes tech) (passes impl)"
  have ps1: "zip (tech_passes tech1) (passes impl1) = ps" by (simp add: e ps_def)
  have rts: "\<forall>x\<in>set ps. render_targets (snd x) \<noteq> []"
    using assms(3) by (auto simp: ps_def dest: set_zip_rightD)
  from setup_constants_commands [OF sc] obtain cs where
    cs: "commands dev = commands (device rt) @ start @ setup_commands impl1 rt @ cs"
      "filter is_stencil_event cs = []"
    by (auto simp: issue_all_def)
  have start: "filter is_stencil_event start = []"
    using begin_queries_SomeD [OF st] by (auto simp: is_stencil_event_def split: if_splits)
  have finish: "filter is_stencil_event finish = []"
    using end_queries_SomeD [OF fi] by (auto simp: is_stencil_event_def split: if_splits)
  define new where "new = start @ setup_commands impl1 rt @ cs @ [GSSetShader] @
      all_pass_commands rt False ps @ finish"
  have new: "commands (device rt') = commands (device rt) @ new"
    by (simp add: cm cs(1) new_def ps1)
  have evs: "filter is_stencil_event new = filter is_stencil_event (all_pass_commands rt False ps)"
    by (simp add: new_def start finish cs(2) setup_commands_quiet is_stencil_event_def)
  have none: "filter is_stencil_event new = map (bind_of rt) ps"
    if "\<forall>x\<in>set ps. \<not> needs_stencil rt (fst x)"
    using that rts by (simp add: evs events_none)
  have first: "filter is_stencil_event new =
      map (bind_of rt) before @
      [bind_of rt (p, d), ClearDepthStencilView (effect_depthstencil rt)] @ map (bind_of rt) after"
    if "ps = before @ (p, d) # after" "\<forall>x\<in>set before. \<not> needs_stencil rt (fst x)"
       "needs_stencil rt p" for before p d after
    using that rts by (simp add: evs events_first)
  have count: "length (filter is_stencil_clear new) =
      (if \<exists>x\<in>set ps. needs_stencil rt (fst x) then 1 else 0)"
  proof (cases "\<exists>x\<in>set ps. needs_stencil rt (fst x)")
    case True
    then obtain before x after where
      sp: "ps = before @ x # after" "needs_stencil rt (fst x)"
        "\<forall>y\<in>set before. \<not> needs_stencil rt (fst y)"
      using split_list_first_prop [of ps "\<lambda>x. needs_stencil rt (fst x)"] by blast
    obtain p d where x: "x = (p, d)" by (cases x)
    have e1: "filter is_stencil_event new =
        map (bind_of rt) before @
        [bind_of rt (p, d), ClearDepthStencilView (effect_depthstencil rt)] @ map (bind_of rt) after"
      using first [of before p d after] sp x by simp
    have "filter is_stencil_clear new = filter is_stencil_clear (filter is_stencil_event new)"
      by (simp only: clears_of_events)
    also have "\<dots> = [ClearDepthStencilView (effect_depthstencil rt)]"
      unfolding e1 by (simp add: clears_of_binds is_stencil_clear_def bind_of_def)
    finally show ?thesis using True by simp
  next
    case False
    have "filter is_stencil_clear new = filter is_stencil_clear (filter is_stencil_event new)"
      by (simp only: clears_of_events)
    also have "\<dots> = []"
      using none False by (simp add: clears_of_binds)
    finally show ?thesis using False by simp
  qed
  from new count none first show ?thesis
    unfolding Let_def ps_def [symmetric] by blast
qed

subsection \<open>A technique of one pass that renders to a texture\<close>

definition example_pass_info :: pass_info where
  "example_pass_info =
     \<lparr>render_target_names = [''texColor'', [], [], [], [], [], [], []],
      vs_entry_point = ''VS'', ps_entry_point = ''PS'',
      clear_render_targets = False, srgb_write_enable = False, blend_enable = False,
      stencil_enable = True, stencil_reference_value = 0, num_vertices = 3,
      viewport_width = 1, viewport_height = 1\<rparr>"

definition example_pass_data :: d3d10_pass_data where
  "example_pass_data =
     \<lparr>blend_state = Some 20, depth_stencil_state = Some 21,
      pixel_shader = Some 22, vertex_shader = Some 23,
      render_targets =
        [Some \<lparr>view_id = 24, view_resource = 10, view_mip_levels = 1\<rparr>,
         None, None, None, None, None, None, None],
      render_target_resources =
        [Some \<lparr>view_id = 25, view_resource = 10, view_mip_levels = 1\<rparr>,
         None, None, None, None, None, None, None],
      shader_resources = []\<rparr>"

definition example_technique :: technique where
  "example_technique =
     \<lparr>tech_name = ''T'', effect_index = 0, tech_passes = [example_pass_info],
      average_gpu_duration = [],
      tech_impl = Some
        \<lparr>query_in_flight = True, timestamp_disjoint = Some 30,
         timestamp_query_beg = Some 31, timestamp_query_end = Some 32,
         sampler_states = [], texture_bindings = [], passes = [example_pass_data]\<rparr>\<rparr>"

definition example_runtime :: runtime_d3d10 where
  "example_runtime = new_runtime\<lparr>effect_data := [\<lparr>cb = None\<rparr>], effect_depthstencil := Some 9\<rparr>"

definition example_results :: gpu_results where
  "example_results =
     \<lparr>disjoint_result = Some \<lparr>Frequency = 1000000000, Disjoint = False\<rparr>,
      timestamp0_result = Some 1000, timestamp1_result = Some 3000\<rparr>"

lemmas example_defs =
  example_pass_info_def example_pass_data_def example_technique_def example_runtime_def
  example_results_def new_runtime_def new_device_def

lemmas render_defs =
  render_technique_def evaluate_queries_def begin_queries_def end_queries_def
  setup_commands_def setup_constants_def pass_commands_def stencil_cleared_after_def
  full_viewport_def issue_all_def List.map_filter_def

lemma example_render:
  "render_technique example_results example_technique example_runtime =
     Some (example_technique\<lparr>average_gpu_duration := [2000]\<rparr>,
           example_runtime\<lparr>vertices := 3, drawcalls := 1, device := new_device\<lparr>commands :=
             [QueryBegin 30, QueryEnd 31,
              IASetPrimitiveTopology, IASetInputLayout, IASetVertexBuffers, RSSetState None,
              VSSetSamplers [], PSSetSamplers [], GSSetShader,
              VSSetShader (Some 23), PSSetShader (Some 22), OMSetBlendState (Some 20),
              OMSetDepthStencilState (Some 21) 0, CopyResource None None,
              VSSetShaderResources [], PSSetShaderResources [],
              OMSetRenderTargets
                [Some \<lparr>view_id = 24, view_resource = 10, view_mip_levels = 1\<rparr>,
                 None, None, None, None, None, None, None] (Some 9),
              ClearDepthStencilView (Some 9),
              RSSetViewports 1 1, Draw 3, OMSetRenderTargets [] None,
              VSSetShaderResources [], PSSetShaderResources [],
              QueryEnd 32, QueryEnd 30]\<rparr>\<rparr>)"
  by (simp add: render_defs example_defs)

theorem render_technique_timing_witness:
  "map_option (\<lambda>(t, r). (average_gpu_duration t, map_option query_in_flight (tech_impl t),
                           filter is_query (commands (device r))))
     (render_technique example_results example_technique example_runtime) =
   Some ([2000], Some True, [QueryBegin 30, QueryEnd 31, QueryEnd 32, QueryEnd 30])"
proof -
  have impl: "tech_impl example_technique = Some
        \<lparr>query_in_flight = True, timestamp_disjoint = Some 30,
         timestamp_query_beg = Some 31, timestamp_query_end = Some 32,
         sampler_states = [], texture_bindings = [], passes = [example_pass_data]\<rparr>"
    by (simp add: example_technique_def)
  from render_technique_timing [OF example_render impl]
  have "average_gpu_duration (example_technique\<lparr>average_gpu_duration := [2000]\<rparr>) =
      average_gpu_duration example_technique @ [(3000 - 1000) * 1000000000 div 1000000000]"
    by (auto simp: results_available_def example_results_def)
  then show ?thesis
    unfolding example_render by (simp add: is_query_def example_technique_def)
qed

theorem render_technique_stencil_witness:
  "map_option (\<lambda>(t, r). length (filter is_stencil_clear (commands (device r))))
     (render_technique example_results example_technique example_runtime) = Some 1"
proof -
  have impl: "tech_impl example_technique = Some
        \<lparr>query_in_flight = True, timestamp_disjoint = Some 30,
         timestamp_query_beg = Some 31, timestamp_query_end = Some 32,
         sampler_states = [], texture_bindings = [], passes = [example_pass_data]\<rparr>"
    by (simp add: example_technique_def)
  have rts: "\<forall>d\<in>set (passes \<lparr>query_in_flight = True, timestamp_disjoint = Some 30,
         timestamp_query_beg = Some 31, timestamp_query_end = Some 32,
         sampler_states = [], texture_bindings = [], passes = [example_pass_data]\<rparr>).
       render_targets d \<noteq> []"
    by (simp add: example_pass_data_def)
  have needs: "needs_stencil example_runtime example_pass_info"
    by (simp add: needs_stencil_def full_viewport_def example_defs)
  from render_technique_stencil [OF example_render impl rts] needs
  have "length (filter is_stencil_clear
          (commands (device (example_runtime\<lparr>vertices := 3, drawcalls := 1, device := new_device\<lparr>commands :=
             [QueryBegin 30, QueryEnd 31,
              IASetPrimitiveTopology, IASetInputLayout, IASetVertexBuffers, RSSetState None,
              VSSetSamplers [], PSSetSamplers [], GSSetShader,
              VSSetShader (Some 23), PSSetShader (Some 22), OMSetBlendState (Some 20),
              OMSetDepthStencilState (Some 21) 0, CopyResource None None,
              VSSetShaderResources [], PSSetShaderResources [],
              OMSetRenderTargets
                [Some \<lparr>view_id = 24, view_resource = 10, view_mip_levels = 1\<rparr>,
                 None, None, None, None, None, None, None] (Some 9),
              ClearDepthStencilView (Some 9),
              RSSetViewports 1 1, Draw 3, OMSetRenderTargets [] None,
              VSSetShaderResources [], PSSetShaderResources [],
              QueryEnd 32, QueryEnd 30]\<rparr>\<rparr>)))) = 1"
    by (auto simp: Let_def example_technique_def example_runtime_def new_runtime_def new_device_def)
  then show ?thesis unfolding example_render by simp
qed

text \<open>
  The pass of \<open>example_technique\<close> renders to the texture \<open>texColor\<close>, not to the
  main output; its viewport has the size of the back buffer and stencil
  testing is enabled. The effect depth-stencil surface is bound and its
  stencil plane cleared.
\<close>

theorem render_technique_stencil_counterexample:
  "render_target_names example_pass_info ! 0 = ''texColor'' \<and>
   tech_passes example_technique = [example_pass_info] \<and>
   effect_depthstencil example_runtime = Some 9 \<and>
   map_option (\<lambda>(t, r). filter is_stencil_event (commands (device r)))
     (render_technique example_results example_technique example_runtime) =
   Some [OMSetRenderTargets
           [Some \<lparr>view_id = 24, view_resource = 10, view_mip_levels = 1\<rparr>,
            None, None, None, None, None, None, None] (Some 9),
         ClearDepthStencilView (Some 9)]"
  unfolding example_render
  by (simp add: is_stencil_event_def example_pass_info_def example_technique_def
      example_runtime_def)

section \<open>Loading an effect\<close>

text \<open>
  A step of \<open>init_effect\<close> either goes on (\<open>Next\<close>), makes the function
  \<open>return false\<close> (\<open>Failed\<close>, with the state at that point), or has no defined
  behaviour (\<open>Undefined\<close>: an index out of range, a null pointer followed, an
  exception thrown by \<open>at\<close>).
\<close>

datatype ('a, 's) outcome = Next 'a | Failed 's | Undefined

text \<open>
  What lies outside the process: which libraries \<open>LoadLibraryW\<close> finds at the
  time of the call, and the compiler functions of the loaded library, which
  is taken to export both of them. \<open>D3DCompile\<close> gets the source, the name of
  the entry point and the profile; its flags are constants. Its diagnostics
  are a text; the blob that holds it ends with a null character. The lines
  written to the log are shortened, except the one about the missing compiler.
\<close>

record compile_result =
  succeeded :: bool
  d3d_errors :: "string option"
  d3d_compiled :: "u8 list"

record environment =
  LoadLibraryW :: "string \<Rightarrow> handle option"
  D3DCompile :: "string \<Rightarrow> string \<Rightarrow> string \<Rightarrow> compile_result"
  D3DDisassemble :: "u8 list \<Rightarrow> string option"

definition blob_of :: "string \<Rightarrow> string" where
  "blob_of text = text @ [CHR 0x00]"

subsection \<open>The compiler library\<close>

definition load_compiler :: "environment \<Rightarrow> runtime_d3d10 \<Rightarrow> runtime_d3d10" where
  "load_compiler env rt =
     (let rt = (if d3d_compiler rt = None
                then rt\<lparr>d3d_compiler := LoadLibraryW env ''d3dcompiler_47.dll''\<rparr> else rt);
          rt = (if d3d_compiler rt = None
                then rt\<lparr>d3d_compiler := LoadLibraryW env ''d3dcompiler_43.dll''\<rparr> else rt)
      in rt)"

definition compiler_missing_message :: string where
  "compiler_missing_message =
     ''Unable to load HLSL compiler ('' @ [CHR 0x22] @ ''d3dcompiler_47.dll'' @ [CHR 0x22] @
     ''). Make sure you have the DirectX end-user runtime (June 2010) installed or a newer '' @
     ''version of the library in the application directory.''"

subsection \<open>Compiling the entry points\<close>

definition shader_profile :: "D3D10_FEATURE_LEVEL \<Rightarrow> bool \<Rightarrow> string" where
  "shader_profile level is_ps =
     (if is_ps then ''ps'' else ''vs'') @
     (case level of
        D3D10_FEATURE_LEVEL_10_1 \<Rightarrow> ''_4_1''
      | D3D10_FEATURE_LEVEL_9_1 \<Rightarrow> ''_4_0_level_9_1''
      | D3D10_FEATURE_LEVEL_9_2 \<Rightarrow> ''_4_0_level_9_1''
      | D3D10_FEATURE_LEVEL_9_3 \<Rightarrow> ''_4_0_level_9_3''
      | _ \<Rightarrow> ''_4_0'')"

definition update_effect :: "nat \<Rightarrow> (effect \<Rightarrow> effect) \<Rightarrow> runtime_d3d10 \<Rightarrow> runtime_d3d10" where
  "update_effect index f rt = rt\<lparr>effects := (effects rt)[index := f (effects rt ! index)]\<rparr>"

text \<open>
  The local map \<open>entry_points\<close>: the shader object created for a name, and
  whether it is a pixel shader.
\<close>

type_synonym shader_map = "string \<rightharpoonup> handle \<times> bool"

fun compile_entry_points ::
  "environment \<Rightarrow> nat \<Rightarrow> string \<Rightarrow> entry_point list \<Rightarrow> shader_map \<times> runtime_d3d10 \<Rightarrow>
   (shader_map \<times> runtime_d3d10, shader_map \<times> runtime_d3d10) outcome" where
  "compile_entry_points env index source [] s = Next s"
| "compile_entry_points env index source (ep # rest) (shaders, rt) =
     (let r = D3DCompile env source (name ep) (shader_profile (renderer_id rt) (is_pixel_shader ep));
          rt = (case d3d_errors r of
                  None \<Rightarrow> rt
                | Some text \<Rightarrow>
                    update_effect index
                      (\<lambda>e. e\<lparr>errors := errors e @ take (length (blob_of text) - 1) (blob_of text)\<rparr>) rt)
      in if \<not> succeeded r then Failed (shaders, rt)
         else
           (let rt = (case D3DDisassemble env (d3d_compiled r) of
                        None \<Rightarrow> rt
                      | Some asm \<Rightarrow>
                          update_effect index
                            (\<lambda>e. e\<lparr>assembly := (assembly e)(name ep \<mapsto> asm)\<rparr>) rt)
            in case create_object (device rt) of
                 (None, dev) \<Rightarrow>
                   Failed (shaders,
                     rt\<lparr>device := dev,
                        log := log rt @ [''Failed to create shader for entry point '' @ name ep]\<rparr>)
               | (Some h, dev) \<Rightarrow>
                   compile_entry_points env index source rest
                     (shaders(name ep \<mapsto> (h, is_pixel_shader ep)), rt\<lparr>device := dev\<rparr>)))"

subsection \<open>The constant buffer\<close>

definition create_constant_buffer :: "nat \<Rightarrow> runtime_d3d10 \<Rightarrow> (runtime_d3d10, runtime_d3d10) outcome" where
  "create_constant_buffer index rt =
     (let rt = (if index \<ge> length (effect_data rt)
                then rt\<lparr>effect_data := effect_data rt @
                          replicate (index + 1 - length (effect_data rt)) \<lparr>cb = None\<rparr>\<rparr>
                else rt)
      in if uniform_data_storage (effects rt ! index) \<noteq> [] then
           (case create_object (device rt) of
              (None, dev) \<Rightarrow>
                Failed (rt\<lparr>device := dev,
                          log := log rt @ [''Failed to create constant buffer for effect file '' @
                                           source_file (effects rt ! index)]\<rparr>)
            | (Some h, dev) \<Rightarrow>
                Next (rt\<lparr>device := dev, effect_data := (effect_data rt)[index := \<lparr>cb = Some h\<rparr>]\<rparr>))
         else Next rt)"

subsection \<open>Samplers and the sampler state cache\<close>

record D3D10_SAMPLER_DESC =
  Filter :: u32
  AddressU :: u32
  AddressV :: u32
  AddressW :: u32
  MipLODBias :: u32
  MaxAnisotropy :: u32
  ComparisonFunc :: u32
  BorderColor :: "u32 \<times> u32 \<times> u32 \<times> u32"
  MinLOD :: u32
  MaxLOD :: u32

text \<open>
  The descriptor is zero-initialised and then populated; \<open>D3D10_COMPARISON_NEVER\<close>
  is 1.
\<close>

definition sampler_desc :: "sampler_info \<Rightarrow> D3D10_SAMPLER_DESC" where
  "sampler_desc info =
     \<lparr>Filter = filter_mode info, AddressU = address_u info, AddressV = address_v info,
      AddressW = address_w info, MipLODBias = lod_bias info, MaxAnisotropy = 1,
      ComparisonFunc = 1, BorderColor = (0, 0, 0, 0),
      MinLOD = min_lod info, MaxLOD = max_lod info\<rparr>"

text \<open>
  The bytes of the descriptor as \<open>reinterpret_cast<const uint8_t *>(&desc)\<close>
  reads them: thirteen 32-bit fields in declaration order, least significant
  byte first, 52 bytes with no padding.
\<close>

definition le32 :: "u32 \<Rightarrow> u8 list" where
  "le32 w = [ucast w, ucast (drop_bit 8 w), ucast (drop_bit 16 w), ucast (drop_bit 24 w)]"

definition desc_bytes :: "D3D10_SAMPLER_DESC \<Rightarrow> u8 list" where
  "desc_bytes desc =
     (case BorderColor desc of (b0, b1, b2, b3) \<Rightarrow>
        le32 (Filter desc) @ le32 (AddressU desc) @ le32 (AddressV desc) @ le32 (AddressW desc) @
        le32 (MipLODBias desc) @ le32 (MaxAnisotropy desc) @ le32 (ComparisonFunc desc) @
        le32 b0 @ le32 b1 @ le32 b2 @ le32 b3 @
        le32 (MinLOD desc) @ le32 (MaxLOD desc))"

text \<open>
  The hash loop, in \<open>size_t\<close> arithmetic: \<open>'a\<close> is the width of \<open>size_t\<close>, 64 bits
  in the runtime's cache and 32 bits in a 32-bit build.
\<close>

definition desc_hash :: "u8 list \<Rightarrow> 'a::len word" where
  "desc_hash bytes = foldl (\<lambda>h b. (h * 16777619) XOR ucast b) 2166136261 bytes"

definition get_sampler_state ::
  "D3D10_SAMPLER_DESC \<Rightarrow> string \<Rightarrow> runtime_d3d10 \<Rightarrow> (handle \<times> runtime_d3d10, runtime_d3d10) outcome" where
  "get_sampler_state desc nm rt =
     (let key = desc_hash (desc_bytes desc) in
      case effect_sampler_states rt key of
        Some h \<Rightarrow> Next (h, rt)
      | None \<Rightarrow>
          (case create_object (device rt) of
             (None, dev) \<Rightarrow>
               Failed (rt\<lparr>device := dev,
                         log := log rt @ [''Failed to create sampler state for sampler '' @ nm]\<rparr>)
           | (Some h, dev) \<Rightarrow>
               Next (h, rt\<lparr>device := dev,
                           effect_sampler_states := (effect_sampler_states rt)(key \<mapsto> h)\<rparr>)))"

definition init_sampler ::
  "sampler_info \<Rightarrow> d3d10_technique_data \<times> runtime_d3d10 \<Rightarrow>
   (d3d10_technique_data \<times> runtime_d3d10, d3d10_technique_data \<times> runtime_d3d10) outcome" where
  "init_sampler info s =
     (case s of (technique_init, rt) \<Rightarrow>
        if binding info \<ge> 16 then
          Failed (technique_init,
            rt\<lparr>log := log rt @ [''Cannot bind sampler '' @ unique_name info]\<rparr>)
        else if texture_binding info \<ge> 128 then
          Failed (technique_init,
            rt\<lparr>log := log rt @ [''Cannot bind texture '' @ texture_name info]\<rparr>)
        else
          (case find (\<lambda>item. tex_unique_name item = texture_name info \<and> tex_impl item \<noteq> None)
                  (textures rt) of
             None \<Rightarrow> Undefined
           | Some existing_texture \<Rightarrow>
          (case tex_impl existing_texture of
             None \<Rightarrow> Undefined
           | Some texture_impl \<Rightarrow>
               if \<not> texture_binding info < length (texture_bindings technique_init) then Undefined
               else
                 (let technique_init = technique_init\<lparr>texture_bindings :=
                        (texture_bindings technique_init)
                          [texture_binding info := at2 (srv texture_impl) (if srgb info then 1 else 0)]\<rparr>
                  in if \<not> binding info < length (sampler_states technique_init) then Undefined
                     else if sampler_states technique_init ! binding info = None then
                       (case get_sampler_state (sampler_desc info) (unique_name info) rt of
                          Undefined \<Rightarrow> Undefined
                        | Failed rt \<Rightarrow> Failed (technique_init, rt)
                        | Next (h, rt) \<Rightarrow>
                            Next (technique_init\<lparr>sampler_states :=
                                    (sampler_states technique_init)[binding info := Some h]\<rparr>, rt))
                     else Next (technique_init, rt)))))"

fun init_samplers ::
  "sampler_info list \<Rightarrow> d3d10_technique_data \<times> runtime_d3d10 \<Rightarrow>
   (d3d10_technique_data \<times> runtime_d3d10, d3d10_technique_data \<times> runtime_d3d10) outcome" where
  "init_samplers [] s = Next s"
| "init_samplers (info # rest) s =
     (case init_sampler info s of
        Next s' \<Rightarrow> init_samplers rest s'
      | Failed s' \<Rightarrow> Failed s'
      | Undefined \<Rightarrow> Undefined)"

subsection \<open>Passes\<close>

fun find_index :: "('a \<Rightarrow> bool) \<Rightarrow> 'a list \<Rightarrow> nat option" where
  "find_index P [] = None"
| "find_index P (x # xs) = (if P x then Some 0 else map_option Suc (find_index P xs))"

text \<open>\<open>render_target_names[k]\<close>, an array of eight strings.\<close>

definition render_target_name :: "pass_info \<Rightarrow> nat \<Rightarrow> string" where
  "render_target_name pinfo k =
     (if k < length (render_target_names pinfo) then render_target_names pinfo ! k else [])"

definition empty_pass_data :: d3d10_pass_data where
  "empty_pass_data =
     \<lparr>blend_state = None, depth_stencil_state = None, pixel_shader = None, vertex_shader = None,
      render_targets = replicate 8 None, render_target_resources = replicate 8 None,
      shader_resources = []\<rparr>"

text \<open>
  The loop over the named render targets: it ends at the first empty name. The
  render target view of a texture is created when a pass first uses it, kept
  in the texture's implementation object, and cleared.
\<close>

fun init_render_targets ::
  "pass_info \<Rightarrow> nat \<Rightarrow> nat list \<Rightarrow> d3d10_pass_data \<times> runtime_d3d10 \<Rightarrow>
   (d3d10_pass_data \<times> runtime_d3d10, d3d10_pass_data \<times> runtime_d3d10) outcome" where
  "init_render_targets pinfo target_index [] s = Next s"
| "init_render_targets pinfo target_index (k # ks) (pdata, rt) =
     (if render_target_name pinfo k = [] then Next (pdata, rt)
      else
        (case find_index (\<lambda>item. tex_unique_name item = render_target_name pinfo k) (textures rt) of
           None \<Rightarrow> Undefined
         | Some i \<Rightarrow>
        (case tex_impl (textures rt ! i) of
           None \<Rightarrow> Undefined
         | Some texture_impl \<Rightarrow>
        (case texture texture_impl of
           None \<Rightarrow> Undefined
         | Some t \<Rightarrow>
             (let created =
                    (if at2 (rtv texture_impl) target_index = None then
                       (case create_view (Some t) 1 (device rt) of
                          (None, dev) \<Rightarrow>
                            Failed (rt\<lparr>device := dev,
                                      log := log rt @
                                        [''Failed to create render target view for texture '' @
                                         render_target_name pinfo k]\<rparr>)
                        | (Some v, dev) \<Rightarrow>
                            Next (texture_impl\<lparr>rtv := set2 (rtv texture_impl) target_index (Some v)\<rparr>,
                                  rt\<lparr>device := issue (ClearRenderTargetView v) dev\<rparr>))
                     else Next (texture_impl, rt))
              in case created of
                   Undefined \<Rightarrow> Undefined
                 | Failed rt \<Rightarrow> Failed (pdata, rt)
                 | Next (texture_impl, rt) \<Rightarrow>
                     init_render_targets pinfo target_index ks
                       (pdata\<lparr>render_targets :=
                                 (render_targets pdata)[k := at2 (rtv texture_impl) target_index],
                              render_target_resources :=
                                 (render_target_resources pdata)[k := at2 (srv texture_impl) target_index]\<rparr>,
                        rt\<lparr>textures :=
                             (textures rt)[i := (textures rt ! i)\<lparr>tex_impl := Some texture_impl\<rparr>]\<rparr>))))))"

text \<open>
  The assertion that the rasterizer state exists, between the creation of the
  blend state and that of the depth-stencil state, is a branch of \<open>init_pass\<close>
  below.
\<close>

text \<open>
  The last block of the pass: the shader resources of the pass start as the
  texture bindings of the technique; each one that is not null is compared
  with the resource of every render target of the pass that is not null, and
  reset at the first match.
\<close>

fun shares_resource :: "handle \<Rightarrow> view option list \<Rightarrow> bool" where
  "shares_resource res1 [] = False"
| "shares_resource res1 (target # rest) =
     (case target of
        None \<Rightarrow> shares_resource res1 rest
      | Some r \<Rightarrow> if res1 = view_resource r then True else shares_resource res1 rest)"

definition unbind_aliased :: "view option list \<Rightarrow> view option list \<Rightarrow> view option list" where
  "unbind_aliased targets bindings =
     map (\<lambda>binding. case binding of
            None \<Rightarrow> None
          | Some v \<Rightarrow> if shares_resource (view_resource v) targets then None else Some v)
       bindings"

definition init_pass ::
  "shader_map \<Rightarrow> d3d10_technique_data \<Rightarrow> string \<Rightarrow> pass_info \<Rightarrow> runtime_d3d10 \<Rightarrow>
   (pass_info \<times> d3d10_pass_data \<times> runtime_d3d10, pass_info \<times> d3d10_pass_data \<times> runtime_d3d10) outcome" where
  "init_pass shaders technique_impl technique_name pinfo rt =
     (case shaders (ps_entry_point pinfo) of
        None \<Rightarrow> Undefined
      | Some (ps, ps_is_pixel) \<Rightarrow>
     (case shaders (vs_entry_point pinfo) of
        None \<Rightarrow> Undefined
      | Some (vs, vs_is_pixel) \<Rightarrow>
          (let target_index = (if srgb_write_enable pinfo then 1 else 0);
               pdata = empty_pass_data
                 \<lparr>pixel_shader := (if ps_is_pixel then Some ps else None),
                  vertex_shader := (if vs_is_pixel then None else Some vs),
                  render_targets := (replicate 8 None)[0 := at2 (backbuffer_rtv rt) target_index],
                  render_target_resources :=
                    (replicate 8 None)[0 := at2 (backbuffer_texture_srv rt) target_index]\<rparr>
           in case init_render_targets pinfo target_index [0..<8] (pdata, rt) of
                Undefined \<Rightarrow> Undefined
              | Failed (pdata, rt) \<Rightarrow> Failed (pinfo, pdata, rt)
              | Next (pdata, rt) \<Rightarrow>
                  (let pinfo = (if render_target_name pinfo 0 = []
                                then pinfo\<lparr>viewport_width := rt_width rt, viewport_height := rt_height rt\<rparr>
                                else pinfo)
                   in case create_object (device rt) of
                        (None, dev) \<Rightarrow>
                          Failed (pinfo, pdata,
                            rt\<lparr>device := dev,
                               log := log rt @ [''Failed to create blend state in technique '' @
                                                technique_name]\<rparr>)
                      | (Some bs, dev) \<Rightarrow>
                          (let pdata = pdata\<lparr>blend_state := Some bs\<rparr>;
                               rt = rt\<lparr>device := dev\<rparr>
                           in if effect_rasterizer rt = None then Undefined
                              else
                              case create_object (device rt) of
                                (None, dev) \<Rightarrow>
                                  Failed (pinfo, pdata,
                                    rt\<lparr>device := dev,
                                       log := log rt @
                                         [''Failed to create depth-stencil state in technique '' @
                                          technique_name]\<rparr>)
                              | (Some ds, dev) \<Rightarrow>
                                  (let pdata = pdata\<lparr>depth_stencil_state := Some ds\<rparr>;
                                       rt = rt\<lparr>device := dev\<rparr>;
                                       pdata = pdata\<lparr>shader_resources :=
                                         unbind_aliased (render_targets pdata)
                                           (texture_bindings technique_impl)\<rparr>
                                   in Next (pinfo, pdata, rt)))))))"

subsection \<open>Techniques\<close>

definition store_pass :: "nat \<Rightarrow> pass_info \<Rightarrow> d3d10_pass_data \<Rightarrow> technique \<Rightarrow> technique" where
  "store_pass pass_index pinfo pdata tech =
     tech\<lparr>tech_passes := (tech_passes tech)[pass_index := pinfo],
          tech_impl := map_option (\<lambda>i. i\<lparr>passes := (passes i)[pass_index := pdata]\<rparr>) (tech_impl tech)\<rparr>"

fun init_passes ::
  "shader_map \<Rightarrow> nat list \<Rightarrow> technique \<times> runtime_d3d10 \<Rightarrow>
   (technique \<times> runtime_d3d10, technique \<times> runtime_d3d10) outcome" where
  "init_passes shaders [] s = Next s"
| "init_passes shaders (pass_index # rest) (tech, rt) =
     (case tech_impl tech of
        None \<Rightarrow> Undefined
      | Some technique_impl \<Rightarrow>
          if \<not> (pass_index < length (tech_passes tech) \<and> pass_index < length (passes technique_impl))
          then Undefined
          else
            (case init_pass shaders technique_impl (tech_name tech) (tech_passes tech ! pass_index) rt of
               Undefined \<Rightarrow> Undefined
             | Failed (pinfo, pdata, rt) \<Rightarrow> Failed (store_pass pass_index pinfo pdata tech, rt)
             | Next (pinfo, pdata, rt) \<Rightarrow>
                 init_passes shaders rest (store_pass pass_index pinfo pdata tech, rt)))"

text \<open>
  The body of the loop over the techniques, for a technique of this effect
  that has no implementation object yet. The object is attached before the
  queries and the passes are created. The results of the three \<open>CreateQuery\<close>
  calls are not checked.
\<close>

definition init_technique ::
  "shader_map \<Rightarrow> d3d10_technique_data \<Rightarrow> technique \<Rightarrow> runtime_d3d10 \<Rightarrow>
   (technique \<times> runtime_d3d10, technique \<times> runtime_d3d10) outcome" where
  "init_technique shaders technique_init tech rt =
     (case create_object (device rt) of (query_beg, dev) \<Rightarrow>
      case create_object dev of (query_end, dev) \<Rightarrow>
      case create_object dev of (disjoint, dev) \<Rightarrow>
        init_passes shaders [0..<length (tech_passes tech)]
          (tech\<lparr>tech_impl := Some (technique_init
              \<lparr>timestamp_query_beg := query_beg, timestamp_query_end := query_end,
               timestamp_disjoint := disjoint,
               passes := replicate (length (tech_passes tech)) empty_pass_data\<rparr>)\<rparr>,
           rt\<lparr>device := dev\<rparr>))"

fun init_techniques ::
  "shader_map \<Rightarrow> d3d10_technique_data \<Rightarrow> nat \<Rightarrow> nat list \<Rightarrow> runtime_d3d10 \<Rightarrow>
   (runtime_d3d10, runtime_d3d10) outcome" where
  "init_techniques shaders technique_init index [] rt = Next rt"
| "init_techniques shaders technique_init index (i # rest) rt =
     (if \<not> i < length (techniques rt) then Undefined
      else if tech_impl (techniques rt ! i) \<noteq> None \<or> effect_index (techniques rt ! i) \<noteq> index
      then init_techniques shaders technique_init index rest rt
      else
        (case init_technique shaders technique_init (techniques rt ! i) rt of
           Undefined \<Rightarrow> Undefined
         | Failed (tech, rt) \<Rightarrow> Failed (rt\<lparr>techniques := (techniques rt)[i := tech]\<rparr>)
         | Next (tech, rt) \<Rightarrow>
             init_techniques shaders technique_init index rest
               (rt\<lparr>techniques := (techniques rt)[i := tech]\<rparr>)))"

subsection \<open>\<open>init_effect\<close>, \<open>unload_effect\<close> and \<open>unload_effects\<close>\<close>

text \<open>
  \<open>init_effect\<close>: \<open>Next\<close> is \<open>return true\<close>, \<open>Failed\<close> is \<open>return false\<close>, each with
  the runtime as the call leaves it.
\<close>

definition init_effect ::
  "environment \<Rightarrow> nat \<Rightarrow> runtime_d3d10 \<Rightarrow> (runtime_d3d10, runtime_d3d10) outcome" where
  "init_effect env index rt =
     (let rt = load_compiler env rt in
      if d3d_compiler rt = None then Failed (rt\<lparr>log := log rt @ [compiler_missing_message]\<rparr>)
      else if \<not> index < length (effects rt) then Undefined
      else
        (case compile_entry_points env index
                (preamble (effects rt ! index) @ hlsl (module (effects rt ! index)))
                (entry_points (module (effects rt ! index))) (Map.empty, rt) of
           Undefined \<Rightarrow> Undefined
         | Failed (shaders, rt) \<Rightarrow> Failed rt
         | Next (shaders, rt) \<Rightarrow>
        (case create_constant_buffer index rt of
           Undefined \<Rightarrow> Undefined
         | Failed rt \<Rightarrow> Failed rt
         | Next rt \<Rightarrow>
        (case init_samplers (samplers (module (effects rt ! index)))
                (\<lparr>query_in_flight = False, timestamp_disjoint = None,
                  timestamp_query_beg = None, timestamp_query_end = None,
                  sampler_states = replicate (num_sampler_bindings (module (effects rt ! index))) None,
                  texture_bindings = replicate (num_texture_bindings (module (effects rt ! index))) None,
                  passes = []\<rparr>, rt) of
           Undefined \<Rightarrow> Undefined
         | Failed (technique_init, rt) \<Rightarrow> Failed rt
         | Next (technique_init, rt) \<Rightarrow>
             init_techniques shaders technique_init index [0..<length (techniques rt)] rt))))"

text \<open>
  \<open>runtime::unload_effect\<close> and \<open>runtime::unload_effects\<close> belong to the base
  class (\<^verbatim>\<open>runtime.cpp\<close>, not among the sources). They are parameters here, on the
  members of the base class: the effects, the textures and the techniques.
\<close>

type_synonym base_state = "effect list \<times> texture_object list \<times> technique list"

definition call_base :: "(base_state \<Rightarrow> base_state) \<Rightarrow> runtime_d3d10 \<Rightarrow> runtime_d3d10" where
  "call_base f rt =
     (case f (effects rt, textures rt, techniques rt) of
        (es, txs, ts) \<Rightarrow> rt\<lparr>effects := es, textures := txs, techniques := ts\<rparr>)"

definition unload_effect ::
  "(nat \<Rightarrow> base_state \<Rightarrow> base_state) \<Rightarrow> nat \<Rightarrow> runtime_d3d10 \<Rightarrow> runtime_d3d10" where
  "unload_effect runtime_unload_effect index rt =
     (let rt = rt\<lparr>techniques :=
                  map (\<lambda>tech. if effect_index tech \<noteq> index then tech else tech\<lparr>tech_impl := None\<rparr>)
                    (techniques rt)\<rparr>;
          rt = call_base (runtime_unload_effect index) rt
      in if index < length (effect_data rt)
         then rt\<lparr>effect_data := (effect_data rt)[index := \<lparr>cb = None\<rparr>]\<rparr>
         else rt)"

definition unload_effects :: "(base_state \<Rightarrow> base_state) \<Rightarrow> runtime_d3d10 \<Rightarrow> runtime_d3d10" where
  "unload_effects runtime_unload_effects rt =
     (let rt = rt\<lparr>techniques := map (\<lambda>tech. tech\<lparr>tech_impl := None\<rparr>) (techniques rt)\<rparr>;
          rt = call_base runtime_unload_effects rt
      in rt\<lparr>effect_data := [], effect_sampler_states := Map.empty\<rparr>)"

subsection \<open>What each step leaves unchanged\<close>

text \<open>The state in which a step has ended, when it has.\<close>

fun state_of :: "('s, 's) outcome \<Rightarrow> 's option" where
  "state_of (Next s) = Some s"
| "state_of (Failed s) = Some s"
| "state_of Undefined = None"

lemma create_object_next:
  "create_object dev = (r, dev') \<Longrightarrow> next_handle dev \<le> next_handle dev'"
  by (auto simp: create_object_def split: if_splits)

lemma create_view_next:
  "create_view res l dev = (r, dev') \<Longrightarrow> next_handle dev \<le> next_handle dev'"
  by (auto simp: create_view_def create_object_def split: if_splits option.splits)

lemma load_compiler_frame:
  "effects (load_compiler env rt) = effects rt"
  "techniques (load_compiler env rt) = techniques rt"
  "textures (load_compiler env rt) = textures rt"
  "device (load_compiler env rt) = device rt"
  "log (load_compiler env rt) = log rt"
  "effect_sampler_states (load_compiler env rt) = effect_sampler_states rt"
  "renderer_id (load_compiler env rt) = renderer_id rt"
  by (simp_all add: load_compiler_def Let_def)

lemma take_blob:
  "take (length (blob_of text) - 1) (blob_of text) = text"
  "take (length (blob_of text) - Suc 0) (blob_of text) = text"
  by (simp_all add: blob_of_def)

text \<open>The diagnostics the compiler gives for an entry point.\<close>

definition compile_of :: "environment \<Rightarrow> runtime_d3d10 \<Rightarrow> nat \<Rightarrow> entry_point \<Rightarrow> compile_result" where
  "compile_of env rt index ep =
     D3DCompile env (preamble (effects rt ! index) @ hlsl (module (effects rt ! index))) (name ep)
       (shader_profile (renderer_id rt) (is_pixel_shader ep))"

definition diagnostics :: "environment \<Rightarrow> runtime_d3d10 \<Rightarrow> nat \<Rightarrow> entry_point \<Rightarrow> string" where
  "diagnostics env rt index ep =
     (case d3d_errors (compile_of env rt index ep) of None \<Rightarrow> [] | Some text \<Rightarrow> text)"

lemma update_effect_simps [simp]:
  "techniques (update_effect index f rt) = techniques rt"
  "textures (update_effect index f rt) = textures rt"
  "device (update_effect index f rt) = device rt"
  "log (update_effect index f rt) = log rt"
  "effect_data (update_effect index f rt) = effect_data rt"
  "effect_sampler_states (update_effect index f rt) = effect_sampler_states rt"
  "renderer_id (update_effect index f rt) = renderer_id rt"
  "d3d_compiler (update_effect index f rt) = d3d_compiler rt"
  "length (effects (update_effect index f rt)) = length (effects rt)"
  by (simp_all add: update_effect_def)

lemma update_effect_nth:
  "index < length (effects rt) \<Longrightarrow> effects (update_effect index f rt) ! index = f (effects rt ! index)"
  by (simp add: update_effect_def)

lemma compile_entry_points_frame:
  assumes "state_of (compile_entry_points env index source eps (sh, rt)) = Some (sh', rt')"
  shows "techniques rt' = techniques rt \<and> textures rt' = textures rt \<and>
         effect_data rt' = effect_data rt \<and>
         effect_sampler_states rt' = effect_sampler_states rt \<and>
         renderer_id rt' = renderer_id rt \<and> d3d_compiler rt' = d3d_compiler rt \<and>
         length (effects rt') = length (effects rt) \<and>
         next_handle (device rt) \<le> next_handle (device rt')"
  using assms
proof (induction eps arbitrary: sh rt)
  case Nil
  then show ?case by simp
next
  case (Cons ep eps)
  show ?case
    using Cons.prems
    by (auto simp: Let_def create_object_def split: option.splits if_splits prod.splits
        dest!: Cons.IH)
qed

definition compile_step :: "environment \<Rightarrow> string \<Rightarrow> D3D10_FEATURE_LEVEL \<Rightarrow> entry_point \<Rightarrow> compile_result" where
  "compile_step env source level ep =
     D3DCompile env source (name ep) (shader_profile level (is_pixel_shader ep))"

definition step_text :: "environment \<Rightarrow> string \<Rightarrow> D3D10_FEATURE_LEVEL \<Rightarrow> entry_point \<Rightarrow> string" where
  "step_text env source level ep =
     (case d3d_errors (compile_step env source level ep) of None \<Rightarrow> [] | Some text \<Rightarrow> text)"

lemma compile_entry_points_errors:
  assumes "index < length (effects rt)"
  shows "case compile_entry_points env index source eps (sh, rt) of
           Next (sh', rt') \<Rightarrow>
             errors (effects rt' ! index) =
               errors (effects rt ! index) @ concat (map (step_text env source (renderer_id rt)) eps) \<and>
             (\<forall>ep\<in>set eps. succeeded (compile_step env source (renderer_id rt) ep))
         | Failed (sh', rt') \<Rightarrow>
             (\<exists>n<length eps.
                errors (effects rt' ! index) =
                  errors (effects rt ! index) @
                  concat (map (step_text env source (renderer_id rt)) (take (Suc n) eps)) \<and>
                (\<forall>ep\<in>set (take n eps). succeeded (compile_step env source (renderer_id rt) ep)))
         | Undefined \<Rightarrow> False"
  using assms
proof (induction eps arbitrary: sh rt)
  case Nil
  then show ?case by simp
next
  case (Cons ep eps)
  define r where "r = compile_step env source (renderer_id rt) ep"
  define rt1 where "rt1 = (case d3d_errors r of
                  None \<Rightarrow> rt
                | Some text \<Rightarrow>
                    update_effect index
                      (\<lambda>e. e\<lparr>errors := errors e @ take (length (blob_of text) - 1) (blob_of text)\<rparr>) rt)"
  define rt2 where "rt2 = (case D3DDisassemble env (d3d_compiled r) of
                      None \<Rightarrow> rt1
                    | Some asm \<Rightarrow>
                        update_effect index
                          (\<lambda>e. e\<lparr>assembly := (assembly e)(name ep \<mapsto> asm)\<rparr>) rt1)"
  have unfold: "compile_entry_points env index source (ep # eps) (sh, rt) =
      (if \<not> succeeded r then Failed (sh, rt1)
       else case create_object (device rt2) of
              (None, dev) \<Rightarrow>
                Failed (sh,
                  rt2\<lparr>device := dev,
                      log := log rt2 @ [''Failed to create shader for entry point '' @ name ep]\<rparr>)
            | (Some h, dev) \<Rightarrow>
                compile_entry_points env index source eps
                  (sh(name ep \<mapsto> (h, is_pixel_shader ep)), rt2\<lparr>device := dev\<rparr>))"
    by (simp only: compile_entry_points.simps Let_def r_def rt1_def rt2_def compile_step_def)
  have e1: "errors (effects rt1 ! index) =
      errors (effects rt ! index) @ step_text env source (renderer_id rt) ep"
    using Cons.prems
    by (simp add: rt1_def step_text_def r_def [symmetric] update_effect_nth take_blob
        split: option.splits)
  have l1: "index < length (effects rt1)" "renderer_id rt1 = renderer_id rt"
    using Cons.prems by (simp_all add: rt1_def split: option.splits)
  have e2: "errors (effects rt2 ! index) =
      errors (effects rt ! index) @ step_text env source (renderer_id rt) ep"
    using l1 by (simp add: rt2_def e1 update_effect_nth split: option.splits)
  have l2: "index < length (effects rt2)" "renderer_id rt2 = renderer_id rt"
    using l1 by (simp_all add: rt2_def split: option.splits)
  show ?case
  proof (cases "succeeded r")
    case False
    then have "compile_entry_points env index source (ep # eps) (sh, rt) = Failed (sh, rt1)"
      unfolding unfold by simp
    moreover have "errors (effects rt1 ! index) =
        errors (effects rt ! index) @
        concat (map (step_text env source (renderer_id rt)) (take (Suc 0) (ep # eps)))"
      by (simp add: e1)
    ultimately show ?thesis by (auto intro!: exI [of _ 0])
  next
    case True
    show ?thesis
    proof (cases "create_object (device rt2)")
      case (Pair created dev)
      show ?thesis
      proof (cases created)
        case None
        then have "compile_entry_points env index source (ep # eps) (sh, rt) =
            Failed (sh, rt2\<lparr>device := dev,
                        log := log rt2 @ [''Failed to create shader for entry point '' @ name ep]\<rparr>)"
          using True Pair unfolding unfold by simp
        moreover have "errors (effects rt2 ! index) =
            errors (effects rt ! index) @
            concat (map (step_text env source (renderer_id rt)) (take (Suc 0) (ep # eps)))"
          by (simp add: e2)
        ultimately show ?thesis by (auto intro!: exI [of _ 0])
      next
        case (Some h)
        define rt3 where "rt3 = rt2\<lparr>device := dev\<rparr>"
        define sh2 where "sh2 = sh(name ep \<mapsto> (h, is_pixel_shader ep))"
        have step: "compile_entry_points env index source (ep # eps) (sh, rt) =
            compile_entry_points env index source eps (sh2, rt3)"
          using True Pair Some unfolding unfold by (simp add: rt3_def sh2_def)
        have l3: "index < length (effects rt3)" "renderer_id rt3 = renderer_id rt"
          "errors (effects rt3 ! index) =
             errors (effects rt ! index) @ step_text env source (renderer_id rt) ep"
          using l2 e2 by (simp_all add: rt3_def)
        note ih = Cons.IH [OF l3(1), of sh2, unfolded l3(2,3)]
        show ?thesis
        proof (cases "compile_entry_points env index source eps (sh2, rt3)")
          case (Next s)
          obtain sh' rt' where s: "s = (sh', rt')" by (cases s)
          from ih [unfolded Next s] True show ?thesis
            unfolding step Next s by (simp add: r_def)
        next
          case (Failed s)
          obtain sh' rt' where s: "s = (sh', rt')" by (cases s)
          from ih [unfolded Failed s] obtain n where n: "n < length eps"
            "errors (effects rt' ! index) =
               (errors (effects rt ! index) @ step_text env source (renderer_id rt) ep) @
               concat (map (step_text env source (renderer_id rt)) (take (Suc n) eps))"
            "\<forall>ep\<in>set (take n eps). succeeded (compile_step env source (renderer_id rt) ep)"
            by auto
          have "Suc n < length (ep # eps)" using n(1) by simp
          moreover have "errors (effects rt' ! index) =
              errors (effects rt ! index) @
              concat (map (step_text env source (renderer_id rt)) (take (Suc (Suc n)) (ep # eps)))"
            by (simp add: n(2))
          moreover have "\<forall>e\<in>set (take (Suc n) (ep # eps)).
              succeeded (compile_step env source (renderer_id rt) e)"
            using n(3) True by (simp add: r_def)
          ultimately show ?thesis
            unfolding step Failed s by (auto intro!: exI [of _ "Suc n"])
        next
          case Undefined
          then show ?thesis using ih by simp
        qed
      qed
    qed
  qed
qed

text \<open>
  The sampler state cache is sound when different keys hold different
  objects, all of them created by the device before.
\<close>

definition cache_ok :: "runtime_d3d10 \<Rightarrow> bool" where
  "cache_ok rt \<longleftrightarrow>
     inj_on (effect_sampler_states rt) (dom (effect_sampler_states rt)) \<and>
     (\<forall>h\<in>ran (effect_sampler_states rt). h < next_handle (device rt))"

text \<open>A step that leaves the effects and the cache alone and only creates objects.\<close>

definition quiet :: "runtime_d3d10 \<Rightarrow> runtime_d3d10 \<Rightarrow> bool" where
  "quiet rt rt' \<longleftrightarrow>
     effects rt' = effects rt \<and> effect_sampler_states rt' = effect_sampler_states rt \<and>
     d3d_compiler rt' = d3d_compiler rt \<and>
     next_handle (device rt) \<le> next_handle (device rt')"

lemma quiet_refl [simp]: "quiet rt rt"
  by (simp add: quiet_def)

lemma quiet_trans: "quiet a b \<Longrightarrow> quiet b c \<Longrightarrow> quiet a c"
  by (auto simp: quiet_def)

lemma quiet_cache_ok: "quiet rt rt' \<Longrightarrow> cache_ok rt \<Longrightarrow> cache_ok rt'"
  by (fastforce simp: quiet_def cache_ok_def)

lemma create_constant_buffer_frame:
  assumes "state_of (create_constant_buffer index rt) = Some rt'"
  shows "quiet rt rt' \<and> techniques rt' = techniques rt \<and> textures rt' = textures rt"
  using assms
  by (auto simp: create_constant_buffer_def create_object_def quiet_def Let_def
      split: if_splits prod.splits option.splits)

lemma get_sampler_state_Next:
  assumes "get_sampler_state desc nm rt = Next (h, rt')"
  shows "effect_sampler_states rt' (desc_hash (desc_bytes desc)) = Some h"
    and "effect_sampler_states rt \<subseteq>\<^sub>m effect_sampler_states rt'"
    and "cache_ok rt \<Longrightarrow> cache_ok rt'"
    and "effects rt' = effects rt \<and> techniques rt' = techniques rt \<and> textures rt' = textures rt \<and>
         d3d_compiler rt' = d3d_compiler rt \<and>
         next_handle (device rt) \<le> next_handle (device rt')"
proof -
  define key :: size_t where "key = desc_hash (desc_bytes desc)"
  show "effect_sampler_states rt' (desc_hash (desc_bytes desc)) = Some h"
    using assms
    by (auto simp: get_sampler_state_def Let_def create_object_def
        split: option.splits prod.splits if_splits)
  show "effect_sampler_states rt \<subseteq>\<^sub>m effect_sampler_states rt'"
    using assms
    by (auto simp: get_sampler_state_def Let_def create_object_def map_le_def
        split: option.splits prod.splits if_splits)
  show "effects rt' = effects rt \<and> techniques rt' = techniques rt \<and> textures rt' = textures rt \<and>
         d3d_compiler rt' = d3d_compiler rt \<and>
         next_handle (device rt) \<le> next_handle (device rt')"
    using assms
    by (auto simp: get_sampler_state_def Let_def create_object_def
        split: option.splits prod.splits if_splits)
  show "cache_ok rt'" if ok: "cache_ok rt"
  proof (cases "effect_sampler_states rt key")
    case (Some h0)
    then have "rt' = rt" using assms by (simp add: get_sampler_state_def key_def)
    with ok show ?thesis by simp
  next
    case None
    with assms have rt': "effect_sampler_states rt' = (effect_sampler_states rt)(key \<mapsto> next_handle (device rt))"
      "next_handle (device rt') = Suc (next_handle (device rt))"
      by (auto simp: get_sampler_state_def Let_def create_object_def key_def
          split: option.splits prod.splits if_splits)
    have fresh: "h < next_handle (device rt)" if "effect_sampler_states rt k = Some h" for k h
      using ok that by (auto simp: cache_ok_def ran_def)
    have differs: "effect_sampler_states rt k \<noteq> Some (next_handle (device rt))" for k
      using fresh [of k "next_handle (device rt)"] by auto
    have inj: "k = k'" if "effect_sampler_states rt k = Some h" "effect_sampler_states rt k' = Some h" for k k' h
      using ok that by (auto simp: cache_ok_def inj_on_def dom_def)
    have "inj_on (effect_sampler_states rt') (dom (effect_sampler_states rt'))"
      unfolding rt'(1) inj_on_def
      using differs inj by (auto simp: dom_def split: if_splits)
    moreover have "\<forall>h\<in>ran (effect_sampler_states rt'). h < next_handle (device rt')"
      unfolding rt' using fresh by (fastforce simp: ran_def less_Suc_eq split: if_splits)
    ultimately show ?thesis by (simp add: cache_ok_def)
  qed
qed

lemma get_sampler_state_Failed:
  assumes "get_sampler_state desc nm rt = Failed rt'"
  shows "quiet rt rt' \<and> techniques rt' = techniques rt \<and> textures rt' = textures rt"
  using assms
  by (auto simp: get_sampler_state_def Let_def create_object_def quiet_def
      split: option.splits prod.splits if_splits)

text \<open>A step that may add objects to the cache.\<close>

definition grows :: "runtime_d3d10 \<Rightarrow> runtime_d3d10 \<Rightarrow> bool" where
  "grows rt rt' \<longleftrightarrow>
     effects rt' = effects rt \<and> techniques rt' = techniques rt \<and> textures rt' = textures rt \<and>
     effect_sampler_states rt \<subseteq>\<^sub>m effect_sampler_states rt' \<and>
     (cache_ok rt \<longrightarrow> cache_ok rt') \<and>
     d3d_compiler rt' = d3d_compiler rt \<and>
     next_handle (device rt) \<le> next_handle (device rt')"

lemma grows_refl [simp]: "grows rt rt"
  by (simp add: grows_def)

lemma grows_trans: "grows a b \<Longrightarrow> grows b c \<Longrightarrow> grows a c"
  by (auto simp: grows_def intro: map_le_trans)

lemma quiet_grows:
  "quiet rt rt' \<Longrightarrow> techniques rt' = techniques rt \<Longrightarrow> textures rt' = textures rt \<Longrightarrow> grows rt rt'"
  by (auto simp: grows_def quiet_def intro: quiet_cache_ok [unfolded quiet_def])

lemma init_sampler_frame:
  assumes "state_of (init_sampler info (ti, rt)) = Some (ti', rt')"
  shows "grows rt rt'"
proof -
  have log: "grows rt (rt\<lparr>log := l\<rparr>)" for l
    by (simp add: grows_def cache_ok_def)
  show ?thesis
  proof (cases "get_sampler_state (sampler_desc info) (unique_name info) rt")
    case (Next x)
    obtain h rt1 where x: "x = (h, rt1)" by (cases x)
    from get_sampler_state_Next [OF Next [unfolded x]]
    have "grows rt rt1" by (simp add: grows_def)
    then show ?thesis
      using assms Next x log
      by (auto simp: init_sampler_def Let_def split: if_splits option.splits)
  next
    case (Failed rt1)
    from get_sampler_state_Failed [OF Failed] have "grows rt rt1"
      by (simp add: quiet_grows)
    then show ?thesis
      using assms Failed log
      by (auto simp: init_sampler_def Let_def split: if_splits option.splits)
  next
    case Undefined
    then show ?thesis
      using assms log
      by (auto simp: init_sampler_def Let_def split: if_splits option.splits)
  qed
qed

lemma init_samplers_frame:
  assumes "state_of (init_samplers infos (ti, rt)) = Some (ti', rt')"
  shows "grows rt rt'"
  using assms
proof (induction infos arbitrary: ti rt)
  case Nil
  then show ?case by simp
next
  case (Cons info infos)
  show ?case
  proof (cases "init_sampler info (ti, rt)")
    case (Next s)
    obtain ti1 rt1 where s: "s = (ti1, rt1)" by (cases s)
    have "grows rt rt1" using init_sampler_frame [of info ti rt ti1 rt1] Next s by simp
    moreover have "grows rt1 rt'" using Cons.prems Next s by (auto intro: Cons.IH)
    ultimately show ?thesis by (rule grows_trans)
  next
    case (Failed s)
    obtain ti1 rt1 where s: "s = (ti1, rt1)" by (cases s)
    have "grows rt rt1" using init_sampler_frame [of info ti rt ti1 rt1] Failed s by simp
    then show ?thesis using Cons.prems Failed s by simp
  next
    case Undefined
    then show ?thesis using Cons.prems by simp
  qed
qed

subsection \<open>Passes and techniques\<close>

lemma init_render_targets_frame:
  assumes "state_of (init_render_targets pinfo target_index ks (pd, rt)) = Some (pd', rt')"
  shows "quiet rt rt' \<and> techniques rt' = techniques rt \<and>
         shader_resources pd' = shader_resources pd"
  using assms
proof (induction ks arbitrary: pd rt)
  case Nil
  then show ?case by simp
next
  case (Cons k ks)
  show ?case
  proof (cases "render_target_name pinfo k = []")
    case True
    then show ?thesis using Cons.prems by simp
  next
    case False
    obtain i timpl t where found:
      "find_index (\<lambda>item. tex_unique_name item = render_target_name pinfo k) (textures rt) = Some i"
      "tex_impl (textures rt ! i) = Some timpl" "texture timpl = Some t"
      using Cons.prems False by (auto split: option.splits)
    define go where "go = (\<lambda>timpl' rt1. init_render_targets pinfo target_index ks
                       (pd\<lparr>render_targets :=
                                 (render_targets pd)[k := at2 (rtv timpl') target_index],
                              render_target_resources :=
                                 (render_target_resources pd)[k := at2 (srv timpl') target_index]\<rparr>,
                        rt1\<lparr>textures :=
                             (textures rt1)[i := (textures rt1 ! i)\<lparr>tex_impl := Some timpl'\<rparr>]\<rparr>))"
    have rest: "quiet rt rt' \<and> techniques rt' = techniques rt \<and>
         shader_resources pd' = shader_resources pd"
      if "state_of (go timpl' rt1) = Some (pd', rt')" "quiet rt rt1" "techniques rt1 = techniques rt"
      for timpl' rt1
      using Cons.IH [OF that(1) [unfolded go_def]] that(2,3)
      by (auto simp: quiet_def)
    show ?thesis
    proof (cases "at2 (rtv timpl) target_index = None")
      case False
      then obtain y where "at2 (rtv timpl) target_index = Some y" by auto
      then have "init_render_targets pinfo target_index (k # ks) (pd, rt) = go timpl rt"
        using \<open>render_target_name pinfo k \<noteq> []\<close> found by (simp add: go_def)
      then show ?thesis using Cons.prems rest [of timpl rt] by simp
    next
      case True
      obtain v dev where cv: "create_view (Some t) 1 (device rt) = (v, dev)"
        by (cases "create_view (Some t) 1 (device rt)")
      note nh = create_view_next [OF cv]
      show ?thesis
      proof (cases v)
        case None
        then have "init_render_targets pinfo target_index (k # ks) (pd, rt) =
            Failed (pd, rt\<lparr>device := dev, log := log rt @
                                        [''Failed to create render target view for texture '' @
                                         render_target_name pinfo k]\<rparr>)"
          using \<open>render_target_name pinfo k \<noteq> []\<close> found True cv by simp
        then show ?thesis using Cons.prems nh by (auto simp: quiet_def)
      next
        case (Some w)
        then have "init_render_targets pinfo target_index (k # ks) (pd, rt) =
            go (timpl\<lparr>rtv := set2 (rtv timpl) target_index (Some w)\<rparr>)
               (rt\<lparr>device := issue (ClearRenderTargetView w) dev\<rparr>)"
          using \<open>render_target_name pinfo k \<noteq> []\<close> found True cv by (simp add: go_def)
        then show ?thesis
          using Cons.prems nh
            rest [of "timpl\<lparr>rtv := set2 (rtv timpl) target_index (Some w)\<rparr>"
                     "rt\<lparr>device := issue (ClearRenderTargetView w) dev\<rparr>"]
          by (simp add: quiet_def issue_def)
      qed
    qed
  qed
qed

lemma init_pass_cases:
  assumes "state_of (init_pass sh technique_impl nm pinfo rt) = Some (pinfo', pd', rt')"
  obtains pd0 pd1 rt1 where
    "state_of (init_render_targets pinfo (if srgb_write_enable pinfo then 1 else 0) [0..<8] (pd0, rt))
       = Some (pd1, rt1)"
    "shader_resources pd0 = []"
    "quiet rt1 rt'" "techniques rt' = techniques rt1"
    "init_pass sh technique_impl nm pinfo rt = Next (pinfo', pd', rt') \<longrightarrow>
       shader_resources pd' = unbind_aliased (render_targets pd') (texture_bindings technique_impl)"
    "init_pass sh technique_impl nm pinfo rt = Failed (pinfo', pd', rt') \<longrightarrow>
       shader_resources pd' = shader_resources pd1"
proof -
  obtain ps psp vs vsp where sh: "sh (ps_entry_point pinfo) = Some (ps, psp)"
    "sh (vs_entry_point pinfo) = Some (vs, vsp)"
    using assms by (auto simp: init_pass_def split: option.splits)
  define ti :: nat where "ti = (if srgb_write_enable pinfo then 1 else 0)"
  define pd0 where "pd0 = empty_pass_data
                 \<lparr>pixel_shader := (if psp then Some ps else None),
                  vertex_shader := (if vsp then None else Some vs),
                  render_targets := (replicate 8 None)[0 := at2 (backbuffer_rtv rt) ti],
                  render_target_resources :=
                    (replicate 8 None)[0 := at2 (backbuffer_texture_srv rt) ti]\<rparr>"
  have pd0: "shader_resources pd0 = []" by (simp add: pd0_def empty_pass_data_def)
  show ?thesis
  proof (cases "init_render_targets pinfo ti [0..<8] (pd0, rt)")
    case Undefined
    then show ?thesis using assms sh by (simp add: init_pass_def Let_def ti_def pd0_def)
  next
    case (Failed s)
    obtain pd1 rt1 where s: "s = (pd1, rt1)" by (cases s)
    have "init_pass sh technique_impl nm pinfo rt = Failed (pinfo, pd1, rt1)"
      using Failed s sh
      by (simp add: init_pass_def Let_def ti_def [symmetric] pd0_def [symmetric])
    then show ?thesis
      using assms that [of pd0 pd1 rt1] Failed s pd0 by (simp add: ti_def)
  next
    case (Next s)
    obtain pd1 rt1 where s: "s = (pd1, rt1)" by (cases s)
    define pinfo1 where "pinfo1 = (if render_target_name pinfo 0 = []
                                then pinfo\<lparr>viewport_width := rt_width rt1, viewport_height := rt_height rt1\<rparr>
                                else pinfo)"
    have unfold: "init_pass sh technique_impl nm pinfo rt =
         (case create_object (device rt1) of
                        (None, dev) \<Rightarrow>
                          Failed (pinfo1, pd1,
                            rt1\<lparr>device := dev,
                               log := log rt1 @ [''Failed to create blend state in technique '' @ nm]\<rparr>)
                      | (Some bs, dev) \<Rightarrow>
                          (if effect_rasterizer rt1 = None then Undefined
                           else
                           case create_object dev of
                                (None, dev') \<Rightarrow>
                                  Failed (pinfo1, pd1\<lparr>blend_state := Some bs\<rparr>,
                                    rt1\<lparr>device := dev',
                                       log := log rt1 @
                                         [''Failed to create depth-stencil state in technique '' @ nm]\<rparr>)
                              | (Some ds, dev') \<Rightarrow>
                                  Next (pinfo1,
                                    pd1\<lparr>blend_state := Some bs, depth_stencil_state := Some ds,
                                        shader_resources := unbind_aliased (render_targets pd1)
                                           (texture_bindings technique_impl)\<rparr>,
                                    rt1\<lparr>device := dev'\<rparr>)))"
    proof (cases "effect_rasterizer rt1")
      case None
      then show ?thesis
        using Next s sh
        by (simp add: init_pass_def Let_def ti_def [symmetric] pd0_def [symmetric] pinfo1_def
            split: prod.splits option.splits)
    next
      case (Some rasterizer)
      then show ?thesis
        using Next s sh
        by (simp add: init_pass_def Let_def ti_def [symmetric] pd0_def [symmetric] pinfo1_def
            split: prod.splits option.splits)
    qed
    show ?thesis
      using assms that [of pd0 pd1 rt1] Next s pd0 unfolding unfold
      by (auto simp: ti_def quiet_def create_object_def split: if_splits)
  qed
qed

lemma init_pass_frame:
  assumes "state_of (init_pass sh technique_impl nm pinfo rt) = Some (pinfo', pd', rt')"
  shows "quiet rt rt' \<and> techniques rt' = techniques rt"
proof -
  from assms obtain pd0 pd1 rt1 where
    a: "state_of (init_render_targets pinfo (if srgb_write_enable pinfo then 1 else 0) [0..<8] (pd0, rt))
       = Some (pd1, rt1)" and b: "quiet rt1 rt'" "techniques rt' = techniques rt1"
    by (rule init_pass_cases)
  from init_render_targets_frame [OF a] b show ?thesis
    by (auto intro: quiet_trans)
qed

text \<open>
  The shader resources of a pass: nothing yet, or the texture bindings
  without those that share the resource of a render target of the pass.
\<close>

definition pass_done :: "view option list \<Rightarrow> d3d10_pass_data \<Rightarrow> bool" where
  "pass_done bindings pd \<longleftrightarrow> shader_resources pd = unbind_aliased (render_targets pd) bindings"

definition pass_good :: "view option list \<Rightarrow> d3d10_pass_data \<Rightarrow> bool" where
  "pass_good bindings pd \<longleftrightarrow> shader_resources pd = [] \<or> pass_done bindings pd"

lemma init_pass_good:
  assumes "state_of (init_pass sh technique_impl nm pinfo rt) = Some (pinfo', pd', rt')"
  shows "pass_good (texture_bindings technique_impl) pd'"
proof -
  from assms obtain pd0 pd1 rt1 where
    a: "state_of (init_render_targets pinfo (if srgb_write_enable pinfo then 1 else 0) [0..<8] (pd0, rt))
       = Some (pd1, rt1)" and b: "shader_resources pd0 = []"
    and c: "init_pass sh technique_impl nm pinfo rt = Next (pinfo', pd', rt') \<longrightarrow>
       shader_resources pd' = unbind_aliased (render_targets pd') (texture_bindings technique_impl)"
    "init_pass sh technique_impl nm pinfo rt = Failed (pinfo', pd', rt') \<longrightarrow>
       shader_resources pd' = shader_resources pd1"
    by (rule init_pass_cases)
  from init_render_targets_frame [OF a] b have "shader_resources pd1 = []" by simp
  then show ?thesis
    using assms c
    by (cases "init_pass sh technique_impl nm pinfo rt") (auto simp: pass_good_def pass_done_def)
qed

lemma init_pass_done:
  assumes "init_pass sh technique_impl nm pinfo rt = Next (pinfo', pd', rt')"
  shows "pass_done (texture_bindings technique_impl) pd'"
proof -
  have "state_of (init_pass sh technique_impl nm pinfo rt) = Some (pinfo', pd', rt')"
    using assms by simp
  then show ?thesis
    by (rule init_pass_cases) (use assms in \<open>simp add: pass_done_def\<close>)
qed

text \<open>
  A technique under construction: its implementation object holds the texture
  bindings of the effect and passes that are done or still empty.
\<close>

definition built :: "view option list \<Rightarrow> nat set \<Rightarrow> technique \<Rightarrow> bool" where
  "built bindings finished tech \<longleftrightarrow>
     (case tech_impl tech of
        None \<Rightarrow> False
      | Some technique_impl \<Rightarrow>
          texture_bindings technique_impl = bindings \<and>
          length (passes technique_impl) = length (tech_passes tech) \<and>
          (\<forall>pd\<in>set (passes technique_impl). pass_good bindings pd) \<and>
          (\<forall>j\<in>finished. j < length (passes technique_impl) \<and>
                          pass_done bindings (passes technique_impl ! j)))"

lemma built_store_pass:
  assumes "built bindings finished tech" and "pass_good bindings pd"
  shows "built bindings (finished - {k}) (store_pass k pinfo pd tech)"
proof -
  obtain ti where ti: "tech_impl tech = Some ti"
    using assms(1) by (auto simp: built_def split: option.splits)
  have "pass_good bindings x" if "x \<in> set ((passes ti)[k := pd])" for x
    using that assms ti set_update_subset_insert [of "passes ti" k pd]
    by (auto simp: built_def)
  then show ?thesis
    using assms ti by (auto simp: built_def store_pass_def nth_list_update)
qed

lemma built_store_pass_done:
  assumes "built bindings finished tech" and "pass_done bindings pd"
    and "k < length (tech_passes tech)"
  shows "built bindings (insert k finished) (store_pass k pinfo pd tech)"
proof -
  obtain ti where ti: "tech_impl tech = Some ti"
    using assms(1) by (auto simp: built_def split: option.splits)
  have "pass_good bindings x" if "x \<in> set ((passes ti)[k := pd])" for x
    using that assms ti set_update_subset_insert [of "passes ti" k pd]
    by (auto simp: built_def pass_good_def)
  then show ?thesis
    using assms ti by (auto simp: built_def store_pass_def nth_list_update)
qed

lemma store_pass_simps [simp]:
  "effect_index (store_pass k pinfo pd tech) = effect_index tech"
  "length (tech_passes (store_pass k pinfo pd tech)) = length (tech_passes tech)"
  by (simp_all add: store_pass_def)

lemma init_passes_built:
  assumes "state_of (init_passes sh ks (tech, rt)) = Some (tech', rt')"
    and "built bindings {} tech"
  shows "built bindings {} tech' \<and> quiet rt rt' \<and> techniques rt' = techniques rt \<and>
         effect_index tech' = effect_index tech \<and>
         length (tech_passes tech') = length (tech_passes tech)"
  using assms
proof (induction ks arbitrary: tech rt)
  case Nil
  then show ?case by simp
next
  case (Cons k ks)
  obtain ti where ti: "tech_impl tech = Some ti" "texture_bindings ti = bindings"
    using Cons.prems(2) by (auto simp: built_def split: option.splits)
  have range: "k < length (tech_passes tech) \<and> k < length (passes ti)"
    using Cons.prems(1) ti by (auto split: if_splits)
  define r where "r = init_pass sh ti (tech_name tech) (tech_passes tech ! k) rt"
  have unfold: "init_passes sh (k # ks) (tech, rt) =
      (case r of
         Undefined \<Rightarrow> Undefined
       | Failed (pinfo, pdata, rt1) \<Rightarrow> Failed (store_pass k pinfo pdata tech, rt1)
       | Next (pinfo, pdata, rt1) \<Rightarrow> init_passes sh ks (store_pass k pinfo pdata tech, rt1))"
    using ti range by (simp add: r_def)
  obtain pinfo pdata rt1 where s: "state_of r = Some (pinfo, pdata, rt1)"
    using Cons.prems(1) unfolding unfold by (cases r) (auto split: prod.splits)
  note fr = init_pass_frame [OF s [unfolded r_def]]
  have good: "pass_good bindings pdata"
    using init_pass_good [OF s [unfolded r_def]] ti by simp
  have b1: "built bindings {} (store_pass k pinfo pdata tech)"
    using built_store_pass [OF Cons.prems(2) good, of k pinfo] by simp
  show ?case
  proof (cases r)
    case Undefined
    then show ?thesis using s by simp
  next
    case (Failed x)
    then have "init_passes sh (k # ks) (tech, rt) = Failed (store_pass k pinfo pdata tech, rt1)"
      using s unfolding unfold by simp
    then show ?thesis using Cons.prems(1) b1 fr by auto
  next
    case (Next x)
    then have "init_passes sh (k # ks) (tech, rt) =
        init_passes sh ks (store_pass k pinfo pdata tech, rt1)"
      using s unfolding unfold by simp
    then have "state_of (init_passes sh ks (store_pass k pinfo pdata tech, rt1)) = Some (tech', rt')"
      using Cons.prems(1) by simp
    from Cons.IH [OF this b1] fr show ?thesis
      by (auto intro: quiet_trans)
  qed
qed

lemma built_mono: "built bindings A tech \<Longrightarrow> B \<subseteq> A \<Longrightarrow> built bindings B tech"
  by (auto simp: built_def split: option.splits)

lemma init_passes_done:
  assumes "init_passes sh ks (tech, rt) = Next (tech', rt')"
    and "built bindings finished tech"
  shows "built bindings (finished \<union> set ks) tech'"
  using assms
proof (induction ks arbitrary: tech rt finished)
  case Nil
  then show ?case by simp
next
  case (Cons k ks)
  obtain ti where ti: "tech_impl tech = Some ti" "texture_bindings ti = bindings"
    using Cons.prems(2) by (auto simp: built_def split: option.splits)
  have range: "k < length (tech_passes tech) \<and> k < length (passes ti)"
    using Cons.prems(1) ti by (auto split: if_splits)
  define r where "r = init_pass sh ti (tech_name tech) (tech_passes tech ! k) rt"
  have unfold: "init_passes sh (k # ks) (tech, rt) =
      (case r of
         Undefined \<Rightarrow> Undefined
       | Failed (pinfo, pdata, rt1) \<Rightarrow> Failed (store_pass k pinfo pdata tech, rt1)
       | Next (pinfo, pdata, rt1) \<Rightarrow> init_passes sh ks (store_pass k pinfo pdata tech, rt1))"
    using ti range by (simp add: r_def)
  obtain pinfo pdata rt1 where s: "r = Next (pinfo, pdata, rt1)"
    using Cons.prems(1) unfolding unfold by (cases r) (auto split: prod.splits)
  have "pass_done bindings pdata"
    using init_pass_done [OF s [unfolded r_def]] ti by simp
  then have b1: "built bindings (insert k finished) (store_pass k pinfo pdata tech)"
    using built_store_pass_done [OF Cons.prems(2)] range by simp
  have "init_passes sh ks (store_pass k pinfo pdata tech, rt1) = Next (tech', rt')"
    using Cons.prems(1) s unfolding unfold by simp
  from Cons.IH [OF this b1] show ?case by simp
qed

lemma init_technique_built:
  assumes "state_of (init_technique sh technique_init tech rt) = Some (tech', rt')"
  shows "built (texture_bindings technique_init) {} tech' \<and> quiet rt rt' \<and>
         techniques rt' = techniques rt \<and> effect_index tech' = effect_index tech"
    and "init_technique sh technique_init tech rt = Next (tech', rt') \<Longrightarrow>
         built (texture_bindings technique_init) {0..<length (tech_passes tech')} tech'"
proof -
  obtain q1 d1 where c1: "create_object (device rt) = (q1, d1)" by (cases "create_object (device rt)")
  obtain q2 d2 where c2: "create_object d1 = (q2, d2)" by (cases "create_object d1")
  obtain q3 d3 where c3: "create_object d2 = (q3, d3)" by (cases "create_object d2")
  define tech0 where "tech0 = tech\<lparr>tech_impl := Some (technique_init
              \<lparr>timestamp_query_beg := q1, timestamp_query_end := q2,
               timestamp_disjoint := q3,
               passes := replicate (length (tech_passes tech)) empty_pass_data\<rparr>)\<rparr>"
  have unfold: "init_technique sh technique_init tech rt =
      init_passes sh [0..<length (tech_passes tech)] (tech0, rt\<lparr>device := d3\<rparr>)"
    by (simp add: init_technique_def c1 c2 c3 tech0_def)
  have b0: "built (texture_bindings technique_init) {} tech0"
    by (simp add: built_def tech0_def pass_good_def empty_pass_data_def)
  have nh: "next_handle (device rt) \<le> next_handle d3"
    using create_object_next [OF c1] create_object_next [OF c2] create_object_next [OF c3]
    by simp
  have q: "quiet rt (rt\<lparr>device := d3\<rparr>)" using nh by (simp add: quiet_def)
  from init_passes_built [OF assms [unfolded unfold] b0] q
  show "built (texture_bindings technique_init) {} tech' \<and> quiet rt rt' \<and>
         techniques rt' = techniques rt \<and> effect_index tech' = effect_index tech"
    by (auto intro: quiet_trans simp: tech0_def)
  show "built (texture_bindings technique_init) {0..<length (tech_passes tech')} tech'"
    if "init_technique sh technique_init tech rt = Next (tech', rt')"
  proof -
    from init_passes_done [OF that [unfolded unfold] b0]
    have b: "built (texture_bindings technique_init) {0..<length (tech_passes tech)} tech'"
      by simp
    have "length (tech_passes tech') = length (tech_passes tech)"
      using init_passes_built [OF assms [unfolded unfold] b0] by (simp add: tech0_def)
    with b show ?thesis by simp
  qed
qed

lemma built_impl: "built bindings finished tech \<Longrightarrow> tech_impl tech \<noteq> None"
  by (auto simp: built_def split: option.splits)

lemma init_techniques_step:
  assumes "i < length (techniques rt)" "tech_impl (techniques rt ! i) = None"
    "effect_index (techniques rt ! i) = index"
  shows "init_techniques sh technique_init index (i # rest) rt =
     (case init_technique sh technique_init (techniques rt ! i) rt of
           Undefined \<Rightarrow> Undefined
         | Failed (tech, rt1) \<Rightarrow> Failed (rt1\<lparr>techniques := (techniques rt1)[i := tech]\<rparr>)
         | Next (tech, rt1) \<Rightarrow>
             init_techniques sh technique_init index rest
               (rt1\<lparr>techniques := (techniques rt1)[i := tech]\<rparr>))"
  using assms by simp

lemma init_techniques_skip:
  assumes "i < length (techniques rt)"
    "tech_impl (techniques rt ! i) \<noteq> None \<or> effect_index (techniques rt ! i) \<noteq> index"
  shows "init_techniques sh technique_init index (i # rest) rt =
         init_techniques sh technique_init index rest rt"
  using assms by auto

lemma init_techniques_range:
  "state_of (init_techniques sh technique_init index (i # rest) rt) = Some rt' \<Longrightarrow>
   i < length (techniques rt)"
  by (auto split: if_splits)

lemma init_techniques_state:
  assumes "state_of (init_techniques sh technique_init index todo rt) = Some rt'"
  shows "length (techniques rt') = length (techniques rt) \<and> quiet rt rt' \<and>
         (\<forall>i<length (techniques rt).
            techniques rt' ! i = techniques rt ! i \<or>
            (tech_impl (techniques rt ! i) = None \<and> effect_index (techniques rt ! i) = index \<and>
             built (texture_bindings technique_init) {} (techniques rt' ! i)))"
  using assms
proof (induction todo arbitrary: rt)
  case Nil
  then show ?case by simp
next
  case (Cons i rest)
  note range = init_techniques_range [OF Cons.prems]
  show ?case
  proof (cases "tech_impl (techniques rt ! i) \<noteq> None \<or> effect_index (techniques rt ! i) \<noteq> index")
    case True
    from Cons.prems show ?thesis
      unfolding init_techniques_skip [OF range True] by (rule Cons.IH)
  next
    case False
    then have cond: "tech_impl (techniques rt ! i) = None" "effect_index (techniques rt ! i) = index"
      by simp_all
    note unfold = init_techniques_step [OF range cond]
    define r where "r = init_technique sh technique_init (techniques rt ! i) rt"
    obtain tech rt1 where s: "state_of r = Some (tech, rt1)"
      using Cons.prems unfolding unfold r_def [symmetric]
      by (cases r) (auto split: prod.splits)
    note b = init_technique_built(1) [OF s [unfolded r_def]]
    define rt2 where "rt2 = rt1\<lparr>techniques := (techniques rt1)[i := tech]\<rparr>"
    have q2: "quiet rt rt2" "length (techniques rt2) = length (techniques rt)"
      "techniques rt2 ! i = tech"
      "\<And>j. j \<noteq> i \<Longrightarrow> techniques rt2 ! j = techniques rt ! j"
      using b range by (simp_all add: rt2_def quiet_def)
    have here: "length (techniques rt2) = length (techniques rt) \<and> quiet rt rt2 \<and>
         (\<forall>j<length (techniques rt).
            techniques rt2 ! j = techniques rt ! j \<or>
            (tech_impl (techniques rt ! j) = None \<and> effect_index (techniques rt ! j) = index \<and>
             built (texture_bindings technique_init) {} (techniques rt2 ! j)))"
    proof (intro conjI allI impI)
      fix j assume "j < length (techniques rt)"
      show "techniques rt2 ! j = techniques rt ! j \<or>
            (tech_impl (techniques rt ! j) = None \<and> effect_index (techniques rt ! j) = index \<and>
             built (texture_bindings technique_init) {} (techniques rt2 ! j))"
        using q2(3) q2(4) [of j] cond b by (cases "j = i") auto
    qed (use q2 in simp_all)
    show ?thesis
    proof (cases r)
      case Undefined
      then show ?thesis using s by simp
    next
      case (Failed x)
      then have "init_techniques sh technique_init index (i # rest) rt = Failed rt2"
        using s unfolding unfold r_def [symmetric] rt2_def by simp
      then have "rt' = rt2" using Cons.prems by simp
      then show ?thesis using here by simp
    next
      case (Next x)
      then have "init_techniques sh technique_init index (i # rest) rt =
          init_techniques sh technique_init index rest rt2"
        using s unfolding unfold r_def [symmetric] rt2_def by simp
      then have "state_of (init_techniques sh technique_init index rest rt2) = Some rt'"
        using Cons.prems by simp
      note ih = Cons.IH [OF this]
      show ?thesis
      proof (intro conjI allI impI)
        show "length (techniques rt') = length (techniques rt)" using ih q2 by simp
        show "quiet rt rt'" using ih q2 by (auto intro: quiet_trans)
        fix j assume j: "j < length (techniques rt)"
        then have j2: "j < length (techniques rt2)" using q2 by simp
        from ih j2 have alt: "techniques rt' ! j = techniques rt2 ! j \<or>
            (tech_impl (techniques rt2 ! j) = None \<and> effect_index (techniques rt2 ! j) = index \<and>
             built (texture_bindings technique_init) {} (techniques rt' ! j))"
          by blast
        show "techniques rt' ! j = techniques rt ! j \<or>
            (tech_impl (techniques rt ! j) = None \<and> effect_index (techniques rt ! j) = index \<and>
             built (texture_bindings technique_init) {} (techniques rt' ! j))"
        proof (cases "j = i")
          case True
          have "tech_impl (techniques rt2 ! j) \<noteq> None"
            using b True q2(3) by (auto dest: built_impl)
          with alt have "techniques rt' ! j = tech" using True q2(3) by auto
          then show ?thesis using b cond True by simp
        next
          case False
          then show ?thesis using alt q2(4) [of j] by auto
        qed
      qed
    qed
  qed
qed

lemma init_techniques_Next:
  assumes "init_techniques sh technique_init index todo rt = Next rt'"
    and "i \<in> set todo"
    and "tech_impl (techniques rt ! i) = None" "effect_index (techniques rt ! i) = index"
  shows "built (texture_bindings technique_init)
           {0..<length (tech_passes (techniques rt' ! i))} (techniques rt' ! i)"
  using assms
proof (induction todo arbitrary: rt)
  case Nil
  then show ?case by simp
next
  case (Cons k rest)
  have st: "state_of (init_techniques sh technique_init index (k # rest) rt) = Some rt'"
    using Cons.prems(1) by simp
  note range = init_techniques_range [OF st]
  show ?case
  proof (cases "tech_impl (techniques rt ! k) \<noteq> None \<or> effect_index (techniques rt ! k) \<noteq> index")
    case True
    then have "k \<noteq> i" using Cons.prems(3,4) by auto
    then have "i \<in> set rest" using Cons.prems(2) by simp
    from Cons.IH [OF Cons.prems(1) [unfolded init_techniques_skip [OF range True]] this
        Cons.prems(3,4)]
    show ?thesis .
  next
    case False
    then have cond: "tech_impl (techniques rt ! k) = None" "effect_index (techniques rt ! k) = index"
      by simp_all
    note unfold = init_techniques_step [OF range cond]
    define r where "r = init_technique sh technique_init (techniques rt ! k) rt"
    obtain tech rt1 where s: "r = Next (tech, rt1)"
      using Cons.prems(1) unfolding unfold r_def [symmetric]
      by (cases r) (auto split: prod.splits)
    then have s': "state_of r = Some (tech, rt1)" by simp
    note b = init_technique_built(1) [OF s' [unfolded r_def]]
    note d = init_technique_built(2) [OF s' [unfolded r_def] s [unfolded r_def]]
    define rt2 where "rt2 = rt1\<lparr>techniques := (techniques rt1)[k := tech]\<rparr>"
    have q2: "length (techniques rt2) = length (techniques rt)"
      "techniques rt2 ! k = tech"
      "\<And>j. j \<noteq> k \<Longrightarrow> techniques rt2 ! j = techniques rt ! j"
      using b range by (simp_all add: rt2_def)
    have next2: "init_techniques sh technique_init index rest rt2 = Next rt'"
      using Cons.prems(1) s unfolding unfold r_def [symmetric] rt2_def by simp
    show ?thesis
    proof (cases "i = k")
      case True
      have "state_of (init_techniques sh technique_init index rest rt2) = Some rt'"
        using next2 by simp
      from init_techniques_state [OF this] range q2(1)
      have "techniques rt' ! k = techniques rt2 ! k \<or> tech_impl (techniques rt2 ! k) = None"
        by auto
      moreover have "tech_impl (techniques rt2 ! k) \<noteq> None"
        using b q2(2) by (auto dest: built_impl)
      ultimately have "techniques rt' ! k = tech" using q2(2) by auto
      then show ?thesis using d True by simp
    next
      case False
      then have "i \<in> set rest" using Cons.prems(2) by simp
      from Cons.IH [OF next2 this] Cons.prems(3,4) q2(3) [OF False]
      show ?thesis by simp
    qed
  qed
qed

subsection \<open>The whole of \<open>init_effect\<close>\<close>

text \<open>What follows the compilation of the entry points.\<close>

definition init_resources ::
  "shader_map \<Rightarrow> nat \<Rightarrow> runtime_d3d10 \<Rightarrow> (runtime_d3d10, runtime_d3d10) outcome" where
  "init_resources shaders index rt =
        (case create_constant_buffer index rt of
           Undefined \<Rightarrow> Undefined
         | Failed rt \<Rightarrow> Failed rt
         | Next rt \<Rightarrow>
        (case init_samplers (samplers (module (effects rt ! index)))
                (\<lparr>query_in_flight = False, timestamp_disjoint = None,
                  timestamp_query_beg = None, timestamp_query_end = None,
                  sampler_states = replicate (num_sampler_bindings (module (effects rt ! index))) None,
                  texture_bindings = replicate (num_texture_bindings (module (effects rt ! index))) None,
                  passes = []\<rparr>, rt) of
           Undefined \<Rightarrow> Undefined
         | Failed (technique_init, rt) \<Rightarrow> Failed rt
         | Next (technique_init, rt) \<Rightarrow>
             init_techniques shaders technique_init index [0..<length (techniques rt)] rt))"

lemma init_effect_unfold:
  assumes "d3d_compiler (load_compiler env rt) \<noteq> None" and "index < length (effects rt)"
  shows "init_effect env index rt =
     (case compile_entry_points env index
                (preamble (effects rt ! index) @ hlsl (module (effects rt ! index)))
                (entry_points (module (effects rt ! index))) (Map.empty, load_compiler env rt) of
           Undefined \<Rightarrow> Undefined
         | Failed (shaders, rt1) \<Rightarrow> Failed rt1
         | Next (shaders, rt1) \<Rightarrow> init_resources shaders index rt1)"
proof -
  have n: "(d3d_compiler (load_compiler env rt) = None) = False" using assms(1) by simp
  show ?thesis
    unfolding init_effect_def init_resources_def Let_def n
    using assms(2) by (simp add: load_compiler_frame)
qed

lemma init_effect_missing:
  assumes "d3d_compiler (load_compiler env rt) = None"
  shows "init_effect env index rt =
         Failed (load_compiler env rt\<lparr>log := log rt @ [compiler_missing_message]\<rparr>)"
  using assms by (simp add: init_effect_def Let_def load_compiler_frame)

lemma load_compiler_loaded: "d3d_compiler rt \<noteq> None \<Longrightarrow> load_compiler env rt = rt"
  by (auto simp: load_compiler_def)

lemma load_compiler_result:
  "d3d_compiler rt = None \<Longrightarrow>
   load_compiler env rt =
     rt\<lparr>d3d_compiler := (case LoadLibraryW env ''d3dcompiler_47.dll'' of
                           Some h \<Rightarrow> Some h
                         | None \<Rightarrow> LoadLibraryW env ''d3dcompiler_43.dll'')\<rparr>"
  by (auto simp: load_compiler_def split: option.splits)

text \<open>What the steps after the compilation leave unchanged.\<close>

lemma init_resources_frame:
  assumes "state_of (init_resources sh index rt) = Some rt'"
  shows "effects rt' = effects rt \<and> d3d_compiler rt' = d3d_compiler rt \<and>
         length (techniques rt') = length (techniques rt) \<and>
         effect_sampler_states rt \<subseteq>\<^sub>m effect_sampler_states rt' \<and>
         (cache_ok rt \<longrightarrow> cache_ok rt') \<and>
         next_handle (device rt) \<le> next_handle (device rt')"
proof (cases "create_constant_buffer index rt")
  case Undefined
  then show ?thesis using assms by (simp add: init_resources_def)
next
  case (Failed rt1)
  then have "rt' = rt1" using assms by (simp add: init_resources_def)
  with create_constant_buffer_frame [of index rt rt1] Failed show ?thesis
    by (auto simp: quiet_def intro: quiet_cache_ok [unfolded quiet_def])
next
  case (Next rt1)
  from create_constant_buffer_frame [of index rt rt1] Next
  have g1: "grows rt rt1" by (simp add: quiet_grows)
  define ti0 where "ti0 = \<lparr>query_in_flight = False, timestamp_disjoint = None,
                  timestamp_query_beg = None, timestamp_query_end = None,
                  sampler_states = replicate (num_sampler_bindings (module (effects rt1 ! index))) None,
                  texture_bindings = replicate (num_texture_bindings (module (effects rt1 ! index))) None,
                  passes = []\<rparr>"
  define r where "r = init_samplers (samplers (module (effects rt1 ! index))) (ti0, rt1)"
  have unfold: "init_resources sh index rt =
      (case r of Undefined \<Rightarrow> Undefined
         | Failed (technique_init, rt2) \<Rightarrow> Failed rt2
         | Next (technique_init, rt2) \<Rightarrow>
             init_techniques sh technique_init index [0..<length (techniques rt2)] rt2)"
    using Next by (simp add: init_resources_def r_def ti0_def)
  show ?thesis
  proof (cases r)
    case Undefined
    then show ?thesis using assms unfolding unfold by simp
  next
    case (Failed s)
    obtain ti rt2 where s: "s = (ti, rt2)" by (cases s)
    have "grows rt1 rt2"
      using init_samplers_frame [of "samplers (module (effects rt1 ! index))" ti0 rt1 ti rt2]
        Failed s by (simp add: r_def)
    with g1 have "grows rt rt2" by (rule grows_trans)
    moreover have "rt' = rt2" using assms Failed s unfolding unfold by simp
    ultimately show ?thesis by (simp add: grows_def)
  next
    case Next2: (Next s)
    obtain ti rt2 where s: "s = (ti, rt2)" by (cases s)
    have "grows rt1 rt2"
      using init_samplers_frame [of "samplers (module (effects rt1 ! index))" ti0 rt1 ti rt2]
        Next2 s by (simp add: r_def)
    with g1 have g2: "grows rt rt2" by (rule grows_trans)
    have "state_of (init_techniques sh ti index [0..<length (techniques rt2)] rt2) = Some rt'"
      using assms Next2 s unfolding unfold by simp
    from init_techniques_state [OF this]
    have q: "quiet rt2 rt'" "length (techniques rt') = length (techniques rt2)" by simp_all
    from q(1) have "cache_ok rt2 \<longrightarrow> cache_ok rt'" by (auto intro: quiet_cache_ok)
    with g2 q show ?thesis by (auto simp: grows_def quiet_def)
  qed
qed

lemma init_effect_frame:
  assumes "state_of (init_effect env index rt) = Some rt'"
  shows "d3d_compiler rt' = d3d_compiler (load_compiler env rt) \<and>
         length (effects rt') = length (effects rt) \<and>
         length (techniques rt') = length (techniques rt) \<and>
         effect_sampler_states rt \<subseteq>\<^sub>m effect_sampler_states rt' \<and>
         (cache_ok rt \<longrightarrow> cache_ok rt') \<and>
         next_handle (device rt) \<le> next_handle (device rt')"
proof (cases "d3d_compiler (load_compiler env rt) = None")
  case True
  have "cache_ok (load_compiler env rt\<lparr>log := l\<rparr>) = cache_ok rt" for l
    by (simp add: cache_ok_def load_compiler_frame)
  then show ?thesis
    using assms unfolding init_effect_missing [OF True]
    by (auto simp: load_compiler_frame True)
next
  case False
  have range: "index < length (effects rt)"
    using assms False by (auto simp: init_effect_def Let_def load_compiler_frame split: if_splits)
  note unfold = init_effect_unfold [OF False range]
  define rt0 where "rt0 = load_compiler env rt"
  have ok0: "cache_ok rt0 = cache_ok rt"
    by (simp add: cache_ok_def rt0_def load_compiler_frame)
  define c where "c = compile_entry_points env index
                (preamble (effects rt ! index) @ hlsl (module (effects rt ! index)))
                (entry_points (module (effects rt ! index))) (Map.empty, rt0)"
  show ?thesis
  proof (cases c)
    case Undefined
    then show ?thesis using assms unfolding unfold rt0_def [symmetric] c_def [symmetric] by simp
  next
    case (Failed s)
    obtain sh rt1 where s: "s = (sh, rt1)" by (cases s)
    have "state_of c = Some (sh, rt1)" using Failed s by simp
    note fr = compile_entry_points_frame [OF this [unfolded c_def]]
    have "rt' = rt1"
      using assms Failed s unfolding unfold rt0_def [symmetric] c_def [symmetric] by simp
    moreover have "cache_ok rt0 \<longrightarrow> cache_ok rt1"
      using fr by (fastforce simp: cache_ok_def)
    ultimately show ?thesis
      using fr ok0 by (simp add: rt0_def load_compiler_frame)
  next
    case (Next s)
    obtain sh rt1 where s: "s = (sh, rt1)" by (cases s)
    have "state_of c = Some (sh, rt1)" using Next s by simp
    note fr = compile_entry_points_frame [OF this [unfolded c_def]]
    have c1: "cache_ok rt0 \<longrightarrow> cache_ok rt1"
      using fr by (fastforce simp: cache_ok_def)
    have "state_of (init_resources sh index rt1) = Some rt'"
      using assms Next s unfolding unfold rt0_def [symmetric] c_def [symmetric] by simp
    from init_resources_frame [OF this] fr c1 ok0 show ?thesis
      by (simp add: rt0_def load_compiler_frame)
  qed
qed

subsection \<open>Loading the compiler library\<close>

text \<open>
  An effect with nothing to compile, and two environments: one where neither
  library can be loaded, and one where the newer library has been installed.
\<close>

definition empty_effect :: effect where
  "empty_effect =
     \<lparr>source_file = ''empty.fx'', preamble = [],
      module = \<lparr>hlsl = [], entry_points = [], samplers = [],
                num_sampler_bindings = 0, num_texture_bindings = 0\<rparr>,
      errors = [], assembly = Map.empty, uniform_data_storage = []\<rparr>"

definition no_compiler :: environment where
  "no_compiler =
     \<lparr>LoadLibraryW = (\<lambda>file. None),
      D3DCompile = (\<lambda>source entry profile. \<lparr>succeeded = True, d3d_errors = None, d3d_compiled = []\<rparr>),
      D3DDisassemble = (\<lambda>code. None)\<rparr>"

definition compiler_installed :: environment where
  "compiler_installed =
     no_compiler\<lparr>LoadLibraryW := (\<lambda>file. if file = ''d3dcompiler_47.dll'' then Some 47 else None)\<rparr>"

definition old_compiler_only :: environment where
  "old_compiler_only =
     no_compiler\<lparr>LoadLibraryW := (\<lambda>file. if file = ''d3dcompiler_43.dll'' then Some 43 else None)\<rparr>"

definition first_load :: runtime_d3d10 where
  "first_load = new_runtime\<lparr>effects := [empty_effect]\<rparr>"

lemma load_compiler_missing:
  "d3d_compiler (load_compiler env rt) = None \<longleftrightarrow>
   d3d_compiler rt = None \<and> LoadLibraryW env ''d3dcompiler_47.dll'' = None \<and>
   LoadLibraryW env ''d3dcompiler_43.dll'' = None"
  by (auto simp: load_compiler_def Let_def split: if_splits)

lemma init_effect_loaded:
  assumes "d3d_compiler (load_compiler env rt) \<noteq> None"
  shows "init_effect env index rt = init_effect env index (load_compiler env rt)"
proof -
  have "load_compiler env (load_compiler env rt) = load_compiler env rt"
    using assms by (rule load_compiler_loaded)
  then show ?thesis by (simp add: init_effect_def)
qed

text \<open>
  C9 (amended). The library is loaded by a call of \<open>init_effect\<close> that finds
  none loaded: the call takes \<^verbatim>\<open>d3dcompiler_47.dll\<close> if that can be loaded and
  \<^verbatim>\<open>d3dcompiler_43.dll\<close> otherwise, and a call that finds a library loaded loads
  nothing. When neither can be loaded the call returns false, its only effect
  is the error line in the log, which is what the user sees, and no library
  is loaded afterwards: the next call tries to load again. A call that
  returns leaves the runtime without a library exactly when it found none
  loaded and could load neither. When a library is or can be loaded, the call
  does what a call on a runtime with that library already loaded does, and
  the library of the runtime afterwards is that one.
\<close>

theorem init_effect_compiler:
  "(d3d_compiler rt \<noteq> None \<longrightarrow> load_compiler env rt = rt) \<and>
   (d3d_compiler rt = None \<longrightarrow>
      d3d_compiler (load_compiler env rt) =
        (case LoadLibraryW env ''d3dcompiler_47.dll'' of
           Some h \<Rightarrow> Some h
         | None \<Rightarrow> LoadLibraryW env ''d3dcompiler_43.dll'')) \<and>
   (d3d_compiler (load_compiler env rt) = None \<longrightarrow>
      init_effect env index rt = Failed (rt\<lparr>log := log rt @ [compiler_missing_message]\<rparr>) \<and>
      d3d_compiler rt = None) \<and>
   (state_of (init_effect env index rt) = Some rt' \<longrightarrow>
      d3d_compiler rt' = d3d_compiler (load_compiler env rt)) \<and>
   (state_of (init_effect env index rt) = Some rt' \<longrightarrow>
      (d3d_compiler rt' = None \<longleftrightarrow>
       d3d_compiler rt = None \<and> LoadLibraryW env ''d3dcompiler_47.dll'' = None \<and>
       LoadLibraryW env ''d3dcompiler_43.dll'' = None)) \<and>
   (d3d_compiler (load_compiler env rt) \<noteq> None \<longrightarrow>
      init_effect env index rt = init_effect env index (load_compiler env rt))"
proof (intro conjI impI)
  assume "d3d_compiler rt \<noteq> None"
  then show "load_compiler env rt = rt" by (rule load_compiler_loaded)
next
  assume "d3d_compiler rt = None"
  then show "d3d_compiler (load_compiler env rt) =
        (case LoadLibraryW env ''d3dcompiler_47.dll'' of
           Some h \<Rightarrow> Some h
         | None \<Rightarrow> LoadLibraryW env ''d3dcompiler_43.dll'')"
    by (simp add: load_compiler_result)
next
  assume none: "d3d_compiler (load_compiler env rt) = None"
  then show before: "d3d_compiler rt = None"
    by (cases "d3d_compiler rt") (simp_all add: load_compiler_loaded)
  then have "load_compiler env rt = rt\<lparr>d3d_compiler := None\<rparr>"
    using none by (simp add: load_compiler_result split: option.splits)
  also have "\<dots> = rt" using before by simp
  finally show "init_effect env index rt = Failed (rt\<lparr>log := log rt @ [compiler_missing_message]\<rparr>)"
    using init_effect_missing [OF none] by simp
next
  assume "state_of (init_effect env index rt) = Some rt'"
  from init_effect_frame [OF this]
  show "d3d_compiler rt' = d3d_compiler (load_compiler env rt)" by simp
next
  assume "state_of (init_effect env index rt) = Some rt'"
  from init_effect_frame [OF this]
  have "d3d_compiler rt' = d3d_compiler (load_compiler env rt)" by simp
  then show "d3d_compiler rt' = None \<longleftrightarrow>
       d3d_compiler rt = None \<and> LoadLibraryW env ''d3dcompiler_47.dll'' = None \<and>
       LoadLibraryW env ''d3dcompiler_43.dll'' = None"
    by (simp add: load_compiler_missing)
next
  assume "d3d_compiler (load_compiler env rt) \<noteq> None"
  then show "init_effect env index rt = init_effect env index (load_compiler env rt)"
    by (rule init_effect_loaded)
qed

lemmas compiler_defs =
  empty_effect_def no_compiler_def compiler_installed_def old_compiler_only_def first_load_def
  new_runtime_def new_device_def

theorem init_effect_compiler_witness:
  "load_compiler no_compiler (first_load\<lparr>d3d_compiler := Some 47\<rparr>) =
     first_load\<lparr>d3d_compiler := Some 47\<rparr> \<and>
   d3d_compiler (load_compiler compiler_installed first_load) = Some 47 \<and>
   d3d_compiler (load_compiler old_compiler_only first_load) = Some 43 \<and>
   init_effect no_compiler 0 first_load = Failed (first_load\<lparr>log := [compiler_missing_message]\<rparr>) \<and>
   d3d_compiler (first_load\<lparr>log := [compiler_missing_message]\<rparr>) = None \<and>
   init_effect compiler_installed 0 (first_load\<lparr>log := [compiler_missing_message]\<rparr>) =
     init_effect compiler_installed 0
       (first_load\<lparr>log := [compiler_missing_message], d3d_compiler := Some 47\<rparr>)"
proof -
  have none: "d3d_compiler (load_compiler no_compiler first_load) = None"
    by (simp add: load_compiler_def compiler_defs)
  have empty: "d3d_compiler first_load = None" "log first_load = []"
    by (simp_all add: compiler_defs)
  have a: "load_compiler no_compiler (first_load\<lparr>d3d_compiler := Some 47\<rparr>) =
     first_load\<lparr>d3d_compiler := Some 47\<rparr>"
    using init_effect_compiler [of "first_load\<lparr>d3d_compiler := Some 47\<rparr>" no_compiler 0
        first_load, THEN conjunct1]
    by simp
  have b: "d3d_compiler (load_compiler compiler_installed first_load) = Some 47"
    using init_effect_compiler [of first_load compiler_installed 0 first_load,
        THEN conjunct2, THEN conjunct1] empty(1)
    by (simp add: compiler_installed_def no_compiler_def)
  have c: "d3d_compiler (load_compiler old_compiler_only first_load) = Some 43"
    using init_effect_compiler [of first_load old_compiler_only 0 first_load,
        THEN conjunct2, THEN conjunct1] empty(1)
    by (simp add: old_compiler_only_def no_compiler_def)
  define failed where "failed = first_load\<lparr>log := log first_load @ [compiler_missing_message]\<rparr>"
  note missing = init_effect_compiler [of first_load no_compiler 0 failed]
  have d: "init_effect no_compiler 0 first_load = Failed failed"
    using missing [THEN conjunct2, THEN conjunct2, THEN conjunct1] none
    unfolding failed_def by blast
  then have st: "state_of (init_effect no_compiler 0 first_load) = Some failed" by simp
  have "d3d_compiler failed = d3d_compiler (load_compiler no_compiler first_load)"
    using missing [THEN conjunct2, THEN conjunct2, THEN conjunct2, THEN conjunct1] st by blast
  then have e: "d3d_compiler failed = None" using none by simp
  have "d3d_compiler failed = None \<longleftrightarrow>
      d3d_compiler first_load = None \<and> LoadLibraryW no_compiler ''d3dcompiler_47.dll'' = None \<and>
      LoadLibraryW no_compiler ''d3dcompiler_43.dll'' = None"
    using missing [THEN conjunct2, THEN conjunct2, THEN conjunct2, THEN conjunct2,
        THEN conjunct1] st by blast
  have loaded: "load_compiler compiler_installed failed = failed\<lparr>d3d_compiler := Some 47\<rparr>"
    by (simp add: load_compiler_def failed_def compiler_defs)
  then have "d3d_compiler (load_compiler compiler_installed failed) \<noteq> None" by simp
  then have f: "init_effect compiler_installed 0 failed =
      init_effect compiler_installed 0 (failed\<lparr>d3d_compiler := Some 47\<rparr>)"
    using init_effect_compiler [of failed compiler_installed 0 failed,
        THEN conjunct2, THEN conjunct2, THEN conjunct2, THEN conjunct2, THEN conjunct2]
    unfolding loaded by blast
  have failed: "failed = first_load\<lparr>log := [compiler_missing_message]\<rparr>"
    by (simp add: failed_def empty)
  show ?thesis
    using a b c d e f unfolding failed by (intro conjI)
qed

text \<open>
  The first call finds no library and returns false; the newer library is
  installed; the second call, on the runtime the first one has left, loads it
  and returns true.
\<close>

theorem init_effect_compiler_counterexample:
  "init_effect no_compiler 0 first_load = Failed (first_load\<lparr>log := [compiler_missing_message]\<rparr>) \<and>
   init_effect compiler_installed 0 (first_load\<lparr>log := [compiler_missing_message]\<rparr>) =
     Next (first_load\<lparr>log := [compiler_missing_message], d3d_compiler := Some 47,
                     effect_data := [\<lparr>cb = None\<rparr>]\<rparr>)"
  by (simp add: init_effect_def load_compiler_def create_constant_buffer_def Let_def compiler_defs)

subsection \<open>An effect with two passes\<close>

text \<open>
  A texture \<open>T\<close> that the effect samples; the first pass of the technique
  renders to \<open>T\<close>, the second to the back buffer. The vertex shader compiles
  with a warning.
\<close>

definition T_view :: view where
  "T_view = \<lparr>view_id = 101, view_resource = 100, view_mip_levels = 1\<rparr>"

definition T_texture :: texture_object where
  "T_texture =
     \<lparr>tex_unique_name = ''T'', width = 1, height = 1, levels = 1, format = rgba8,
      impl_reference = none,
      tex_impl = Some \<lparr>texture = Some 100, rtv = (None, None), srv = (Some T_view, Some T_view)\<rparr>\<rparr>"

definition T_sampler :: sampler_info where
  "T_sampler =
     \<lparr>unique_name = ''sT'', texture_name = ''T'', binding = 0, texture_binding = 0, srgb = False,
      filter_mode = 0x15, address_u = 3, address_v = 3, address_w = 3,
      min_lod = 0, max_lod = 0x447A0000, lod_bias = 0\<rparr>"

definition to_texture :: pass_info where
  "to_texture =
     \<lparr>render_target_names = [''T'', [], [], [], [], [], [], []],
      vs_entry_point = ''VS'', ps_entry_point = ''PS'',
      clear_render_targets = False, srgb_write_enable = False, blend_enable = False,
      stencil_enable = False, stencil_reference_value = 0, num_vertices = 3,
      viewport_width = 1, viewport_height = 1\<rparr>"

definition to_back_buffer :: pass_info where
  "to_back_buffer = to_texture\<lparr>render_target_names := [[], [], [], [], [], [], [], []]\<rparr>"

definition two_pass_effect :: effect where
  "two_pass_effect =
     \<lparr>source_file = ''two.fx'', preamble = ''#define X 1'',
      module = \<lparr>hlsl = ''float4 VS() {} float4 PS() {}'',
                entry_points = [\<lparr>name = ''VS'', is_pixel_shader = False\<rparr>,
                                \<lparr>name = ''PS'', is_pixel_shader = True\<rparr>],
                samplers = [T_sampler],
                num_sampler_bindings = 1, num_texture_bindings = 1\<rparr>,
      errors = [], assembly = Map.empty, uniform_data_storage = []\<rparr>"

definition two_pass_technique :: technique where
  "two_pass_technique =
     \<lparr>tech_name = ''two'', effect_index = 0, tech_passes = [to_texture, to_back_buffer],
      average_gpu_duration = [], tech_impl = None\<rparr>"

definition two_pass_runtime :: runtime_d3d10 where
  "two_pass_runtime =
     new_runtime\<lparr>device := new_device\<lparr>next_handle := 102\<rparr>,
                 backbuffer_rtv :=
                   (Some \<lparr>view_id = 51, view_resource = 50, view_mip_levels = 1\<rparr>,
                    Some \<lparr>view_id = 52, view_resource = 50, view_mip_levels = 1\<rparr>),
                 effect_rasterizer := Some 60,
                 effects := [two_pass_effect], textures := [T_texture],
                 techniques := [two_pass_technique]\<rparr>"


definition warning_compiler :: environment where
  "warning_compiler =
     \<lparr>LoadLibraryW = (\<lambda>file. if file = ''d3dcompiler_47.dll'' then Some 47 else None),
      D3DCompile = (\<lambda>source entry profile.
        \<lparr>succeeded = True,
         d3d_errors = (if entry = ''VS'' then Some ''warning X3206: implicit truncation'' else None),
         d3d_compiled = [1]\<rparr>),
      D3DDisassemble = (\<lambda>code. None)\<rparr>"

definition failing_compiler :: environment where
  "failing_compiler =
     warning_compiler\<lparr>D3DCompile := (\<lambda>source entry profile.
        if entry = ''PS''
        then \<lparr>succeeded = False, d3d_errors = Some ''error X3000: syntax error'', d3d_compiled = []\<rparr>
        else D3DCompile warning_compiler source entry profile)\<rparr>"

lemmas two_pass_defs =
  T_view_def T_texture_def T_sampler_def to_texture_def to_back_buffer_def two_pass_effect_def
  two_pass_technique_def two_pass_runtime_def warning_compiler_def failing_compiler_def
  new_runtime_def new_device_def

lemmas init_effect_defs =
  init_effect_def load_compiler_def update_effect_def create_constant_buffer_def
  init_sampler_def get_sampler_state_def init_technique_def init_pass_def
  render_target_name_def empty_pass_data_def unbind_aliased_def store_pass_def
  create_object_def create_view_def issue_def at2_def set2_def blob_of_def Let_def

lemma upt_8: "[0..<8] = [0, 1, 2, 3, 4, 5, 6, 7]"
  by (simp add: upt_rec)

lemma replicate_8: "replicate 8 x = [x, x, x, x, x, x, x, x]"
  by (simp add: eval_nat_numeral)


lemma warning_load:
  "case init_effect warning_compiler 0 two_pass_runtime of
     Next rt' \<Rightarrow>
       errors (effects rt' ! 0) = ''warning X3206: implicit truncation'' \<and>
       map_option (\<lambda>i. map shader_resources (passes i)) (tech_impl (techniques rt' ! 0)) =
         Some [[None], [Some T_view]]
   | _ \<Rightarrow> False"
  by (simp add: init_effect_defs two_pass_defs upt_8 replicate_8)



subsection \<open>Diagnostics of the compiler\<close>

lemma step_text_diagnostics:
  "step_text env (preamble (effects rt ! index) @ hlsl (module (effects rt ! index)))
     (renderer_id rt) = diagnostics env rt index"
  "compile_step env (preamble (effects rt ! index) @ hlsl (module (effects rt ! index)))
     (renderer_id rt) = compile_of env rt index"
  by (simp_all add: fun_eq_iff step_text_def diagnostics_def compile_step_def compile_of_def)

lemma init_effect_compile:
  assumes "index < length (effects rt)" and "d3d_compiler (load_compiler env rt) \<noteq> None"
  obtains (compiled) sh rt1 where
      "init_effect env index rt = init_resources sh index rt1"
      "errors (effects rt1 ! index) =
         errors (effects rt ! index) @
         concat (map (diagnostics env rt index) (entry_points (module (effects rt ! index))))"
      "\<forall>ep\<in>set (entry_points (module (effects rt ! index))). succeeded (compile_of env rt index ep)"
      "techniques rt1 = techniques rt"
    | (failed) rt1 n where
      "init_effect env index rt = Failed rt1"
      "n < length (entry_points (module (effects rt ! index)))"
      "errors (effects rt1 ! index) =
         errors (effects rt ! index) @
         concat (map (diagnostics env rt index)
           (take (Suc n) (entry_points (module (effects rt ! index)))))"
      "\<forall>ep\<in>set (take n (entry_points (module (effects rt ! index)))).
         succeeded (compile_of env rt index ep)"
      "techniques rt1 = techniques rt"
proof -
  define rt0 where "rt0 = load_compiler env rt"
  define src where "src = preamble (effects rt ! index) @ hlsl (module (effects rt ! index))"
  define eps where "eps = entry_points (module (effects rt ! index))"
  define c where "c = compile_entry_points env index src eps (Map.empty, rt0)"
  have unfold: "init_effect env index rt =
     (case c of
           Undefined \<Rightarrow> Undefined
         | Failed (shaders, rt1) \<Rightarrow> Failed rt1
         | Next (shaders, rt1) \<Rightarrow> init_resources shaders index rt1)"
    unfolding c_def src_def eps_def rt0_def by (rule init_effect_unfold [OF assms(2,1)])
  have r0: "index < length (effects rt0)" "effects rt0 = effects rt" "renderer_id rt0 = renderer_id rt"
    "techniques rt0 = techniques rt"
    using assms(1) by (simp_all add: rt0_def load_compiler_frame)
  have tx: "step_text env src (renderer_id rt0) = diagnostics env rt index"
    "compile_step env src (renderer_id rt0) = compile_of env rt index"
    unfolding src_def r0 by (rule step_text_diagnostics)+
  note e = compile_entry_points_errors [OF r0(1), of env src eps Map.empty,
      folded c_def, unfolded tx r0(2)]
  show ?thesis
  proof (cases c)
    case Undefined
    then show ?thesis using e by simp
  next
    case (Next s)
    obtain sh rt1 where s: "s = (sh, rt1)" by (cases s)
    have "state_of c = Some (sh, rt1)" using Next s by simp
    from compile_entry_points_frame [OF this [unfolded c_def]]
    have "techniques rt1 = techniques rt" using r0 by simp
    then show ?thesis
      using compiled [of sh rt1] e unfold unfolding Next s eps_def by simp
  next
    case (Failed s)
    obtain sh rt1 where s: "s = (sh, rt1)" by (cases s)
    have "state_of c = Some (sh, rt1)" using Failed s by simp
    from compile_entry_points_frame [OF this [unfolded c_def]]
    have t: "techniques rt1 = techniques rt" using r0 by simp
    from e obtain n where "n < length eps"
      "errors (effects rt1 ! index) =
         errors (effects rt ! index) @ concat (map (diagnostics env rt index) (take (Suc n) eps))"
      "\<forall>ep\<in>set (take n eps). succeeded (compile_of env rt index ep)"
      unfolding Failed s by auto
    then show ?thesis
      using failed [of rt1 n] t unfold unfolding Failed s eps_def by simp
  qed
qed



subsection \<open>Shader resources and render targets of a pass\<close>

lemma shares_resource_iff:
  "shares_resource res targets \<longleftrightarrow> (\<exists>r. Some r \<in> set targets \<and> view_resource r = res)"
  by (induction targets) (auto split: option.splits)

lemma unbind_aliased_length: "length (unbind_aliased targets bindings) = length bindings"
  by (simp add: unbind_aliased_def)

lemma unbind_aliased_nth:
  "j < length bindings \<Longrightarrow>
   unbind_aliased targets bindings ! j =
     (case bindings ! j of
        None \<Rightarrow> None
      | Some v \<Rightarrow>
          if (\<exists>r. Some r \<in> set targets \<and> view_resource r = view_resource v) then None
          else Some v)"
  by (simp add: unbind_aliased_def shares_resource_iff split: option.splits)

lemma unbind_aliased_no_alias:
  assumes "Some v \<in> set (unbind_aliased targets bindings)" and "Some r \<in> set targets"
  shows "view_resource v \<noteq> view_resource r"
proof -
  from assms(1) obtain b where "b \<in> set bindings"
    "Some v = (case b of None \<Rightarrow> None
          | Some w \<Rightarrow> if shares_resource (view_resource w) targets then None else Some w)"
    by (auto simp: unbind_aliased_def)
  then have "\<not> shares_resource (view_resource v) targets"
    by (auto split: option.splits if_splits)
  with assms(2) show ?thesis by (auto simp: shares_resource_iff)
qed

lemma pass_good_no_alias:
  assumes "pass_good bindings pd" and "Some v \<in> set (shader_resources pd)"
    and "Some r \<in> set (render_targets pd)"
  shows "view_resource v \<noteq> view_resource r"
  using assms unbind_aliased_no_alias [of v "render_targets pd" bindings r]
  by (auto simp: pass_good_def pass_done_def)

lemma init_resources_techniques:
  assumes "state_of (init_resources sh index rt) = Some rt'"
    and "i < length (techniques rt)"
    and "tech_impl (techniques rt ! i) = None" and "effect_index (techniques rt ! i) = index"
  shows "techniques rt' ! i = techniques rt ! i \<or> (\<exists>b. built b {} (techniques rt' ! i))"
    and "init_resources sh index rt = Next rt' \<Longrightarrow>
         \<exists>b. built b {0..<length (tech_passes (techniques rt' ! i))} (techniques rt' ! i)"
proof -
  have both: "(techniques rt' ! i = techniques rt ! i \<or> (\<exists>b. built b {} (techniques rt' ! i))) \<and>
    (init_resources sh index rt = Next rt' \<longrightarrow>
         (\<exists>b. built b {0..<length (tech_passes (techniques rt' ! i))} (techniques rt' ! i)))"
  proof (cases "create_constant_buffer index rt")
    case Undefined
    then show ?thesis using assms(1) by (simp add: init_resources_def)
  next
    case (Failed rt1)
    then have "rt' = rt1" "init_resources sh index rt = Failed rt1"
      using assms(1) by (simp_all add: init_resources_def)
    with create_constant_buffer_frame [of index rt rt1] Failed show ?thesis by simp
  next
    case (Next rt1)
    from create_constant_buffer_frame [of index rt rt1] Next
    have t1: "techniques rt1 = techniques rt" by simp
    define ti0 where "ti0 = \<lparr>query_in_flight = False, timestamp_disjoint = None,
                  timestamp_query_beg = None, timestamp_query_end = None,
                  sampler_states = replicate (num_sampler_bindings (module (effects rt1 ! index))) None,
                  texture_bindings = replicate (num_texture_bindings (module (effects rt1 ! index))) None,
                  passes = []\<rparr>"
    define r where "r = init_samplers (samplers (module (effects rt1 ! index))) (ti0, rt1)"
    have unfold: "init_resources sh index rt =
      (case r of Undefined \<Rightarrow> Undefined
         | Failed (technique_init, rt2) \<Rightarrow> Failed rt2
         | Next (technique_init, rt2) \<Rightarrow>
             init_techniques sh technique_init index [0..<length (techniques rt2)] rt2)"
      using Next by (simp add: init_resources_def r_def ti0_def)
    show ?thesis
    proof (cases r)
      case Undefined
      then show ?thesis using assms(1) unfolding unfold by simp
    next
      case (Failed s)
      obtain ti rt2 where s: "s = (ti, rt2)" by (cases s)
      have "grows rt1 rt2"
        using init_samplers_frame [of "samplers (module (effects rt1 ! index))" ti0 rt1 ti rt2]
          Failed s by (simp add: r_def)
      moreover have "rt' = rt2" "init_resources sh index rt = Failed rt2"
        using assms(1) Failed s unfolding unfold by simp_all
      ultimately show ?thesis using t1 by (simp add: grows_def)
    next
      case Next2: (Next s)
      obtain ti rt2 where s: "s = (ti, rt2)" by (cases s)
      have "grows rt1 rt2"
        using init_samplers_frame [of "samplers (module (effects rt1 ! index))" ti0 rt1 ti rt2]
          Next2 s by (simp add: r_def)
      then have t2: "techniques rt2 = techniques rt" using t1 by (simp add: grows_def)
      have run: "init_resources sh index rt =
          init_techniques sh ti index [0..<length (techniques rt2)] rt2"
        using Next2 s unfolding unfold by simp
      have st: "state_of (init_techniques sh ti index [0..<length (techniques rt2)] rt2) = Some rt'"
        using assms(1) unfolding run .
      from init_techniques_state [OF st] assms(2) t2
      have a: "techniques rt' ! i = techniques rt ! i \<or>
               built (texture_bindings ti) {} (techniques rt' ! i)"
        by auto
      have b: "built (texture_bindings ti) {0..<length (tech_passes (techniques rt' ! i))}
                 (techniques rt' ! i)"
        if "init_resources sh index rt = Next rt'"
        using init_techniques_Next [of sh ti index "[0..<length (techniques rt2)]" rt2 rt' i]
          that assms(2,3,4) t2 unfolding run by simp
      from a b show ?thesis by blast
    qed
  qed
  from both show "techniques rt' ! i = techniques rt ! i \<or> (\<exists>b. built b {} (techniques rt' ! i))"
    by blast
  from both show "\<exists>b. built b {0..<length (tech_passes (techniques rt' ! i))} (techniques rt' ! i)"
    if "init_resources sh index rt = Next rt'"
    using that by blast
qed

lemma init_effect_techniques:
  assumes "state_of (init_effect env index rt) = Some rt'"
    and "i < length (techniques rt)"
    and "tech_impl (techniques rt ! i) = None" and "effect_index (techniques rt ! i) = index"
  shows "techniques rt' ! i = techniques rt ! i \<or> (\<exists>b. built b {} (techniques rt' ! i))"
    and "init_effect env index rt = Next rt' \<Longrightarrow>
         \<exists>b. built b {0..<length (tech_passes (techniques rt' ! i))} (techniques rt' ! i)"
proof -
  have both: "(techniques rt' ! i = techniques rt ! i \<or> (\<exists>b. built b {} (techniques rt' ! i))) \<and>
    (init_effect env index rt = Next rt' \<longrightarrow>
         (\<exists>b. built b {0..<length (tech_passes (techniques rt' ! i))} (techniques rt' ! i)))"
  proof (cases "d3d_compiler (load_compiler env rt) = None")
    case True
    then show ?thesis
      using assms(1) unfolding init_effect_missing [OF True]
      by (auto simp: load_compiler_frame)
  next
    case False
    have range: "index < length (effects rt)"
      using assms(1) False
      by (auto simp: init_effect_def Let_def load_compiler_frame split: if_splits)
    from range False show ?thesis
    proof (cases rule: init_effect_compile)
      case (compiled sh rt1)
      have st: "state_of (init_resources sh index rt1) = Some rt'"
        using assms(1) compiled(1) by simp
      from init_resources_techniques [OF st] assms(2,3,4) compiled(1,4)
      show ?thesis by simp
    next
      case (failed rt1 n)
      then show ?thesis using assms(1) by simp
    qed
  qed
  from both show "techniques rt' ! i = techniques rt ! i \<or> (\<exists>b. built b {} (techniques rt' ! i))"
    by blast
  from both show "\<exists>b. built b {0..<length (tech_passes (techniques rt' ! i))} (techniques rt' ! i)"
    if "init_effect env index rt = Next rt'"
    using that by blast
qed

lemma bindings_load:
  "case init_effect warning_compiler 0 two_pass_runtime of
     Next rt' \<Rightarrow>
       map_option texture_bindings (tech_impl (techniques rt' ! 0)) = Some [Some T_view]
   | _ \<Rightarrow> False"
  by (simp add: init_effect_defs two_pass_defs upt_8 replicate_8)

text \<open>
  C1. Take a technique of the effect that has no implementation object when
  \<open>init_effect\<close> is called. When \<open>init_effect\<close> returns true, the technique has
  an implementation object with one pass for each pass of the technique, and
  the shader resources of every pass are the texture bindings of the
  technique, entry by entry, except that a binding whose view has the
  resource of some render target of that pass is null. Whatever \<open>init_effect\<close>
  returns, in every pass it has built no shader resource has the resource of
  a render target of the same pass.
\<close>

theorem init_effect_unbinds_aliased:
  assumes "state_of (init_effect env index rt) = Some rt'"
    and "i < length (techniques rt)"
    and "tech_impl (techniques rt ! i) = None" and "effect_index (techniques rt ! i) = index"
  shows "(init_effect env index rt = Next rt' \<longrightarrow>
            (\<exists>technique_impl.
               tech_impl (techniques rt' ! i) = Some technique_impl \<and>
               length (passes technique_impl) = length (tech_passes (techniques rt' ! i)) \<and>
               (\<forall>pd\<in>set (passes technique_impl).
                  length (shader_resources pd) = length (texture_bindings technique_impl) \<and>
                  (\<forall>j<length (texture_bindings technique_impl).
                     shader_resources pd ! j =
                       (case texture_bindings technique_impl ! j of
                          None \<Rightarrow> None
                        | Some v \<Rightarrow>
                            if (\<exists>r. Some r \<in> set (render_targets pd) \<and>
                                     view_resource r = view_resource v)
                            then None else Some v))))) \<and>
         (\<forall>technique_impl pd v r.
            tech_impl (techniques rt' ! i) = Some technique_impl \<longrightarrow>
            pd \<in> set (passes technique_impl) \<longrightarrow>
            Some v \<in> set (shader_resources pd) \<longrightarrow>
            Some r \<in> set (render_targets pd) \<longrightarrow>
            view_resource v \<noteq> view_resource r)"
proof (intro conjI impI allI)
  assume "init_effect env index rt = Next rt'"
  from init_effect_techniques(2) [OF assms this]
  obtain b where b: "built b {0..<length (tech_passes (techniques rt' ! i))} (techniques rt' ! i)"
    by blast
  then obtain ti where ti: "tech_impl (techniques rt' ! i) = Some ti"
    "texture_bindings ti = b" "length (passes ti) = length (tech_passes (techniques rt' ! i))"
    "\<forall>j<length (passes ti). pass_done b (passes ti ! j)"
    by (auto simp: built_def split: option.splits)
  have "shader_resources pd = unbind_aliased (render_targets pd) (texture_bindings ti)"
    if "pd \<in> set (passes ti)" for pd
    using that ti(2,4) by (auto simp: in_set_conv_nth pass_done_def)
  then show "\<exists>technique_impl.
               tech_impl (techniques rt' ! i) = Some technique_impl \<and>
               length (passes technique_impl) = length (tech_passes (techniques rt' ! i)) \<and>
               (\<forall>pd\<in>set (passes technique_impl).
                  length (shader_resources pd) = length (texture_bindings technique_impl) \<and>
                  (\<forall>j<length (texture_bindings technique_impl).
                     shader_resources pd ! j =
                       (case texture_bindings technique_impl ! j of
                          None \<Rightarrow> None
                        | Some v \<Rightarrow>
                            if (\<exists>r. Some r \<in> set (render_targets pd) \<and>
                                     view_resource r = view_resource v)
                            then None else Some v)))"
    using ti(1,3) by (auto simp: unbind_aliased_length unbind_aliased_nth intro!: exI [of _ ti])
next
  fix technique_impl pd v r
  assume a: "tech_impl (techniques rt' ! i) = Some technique_impl"
    "pd \<in> set (passes technique_impl)"
    "Some v \<in> set (shader_resources pd)" "Some r \<in> set (render_targets pd)"
  from init_effect_techniques(1) [OF assms] a(1) assms(3)
  obtain b where "built b {} (techniques rt' ! i)" by auto
  then have "pass_good b pd" using a(1,2) by (auto simp: built_def)
  then show "view_resource v \<noteq> view_resource r"
    using a(3,4) by (rule pass_good_no_alias)
qed

theorem init_effect_unbinds_aliased_witness:
  "case init_effect warning_compiler 0 two_pass_runtime of
     Next rt' \<Rightarrow>
       (case tech_impl (techniques rt' ! 0) of
          Some technique_impl \<Rightarrow>
            texture_bindings technique_impl = [Some T_view] \<and>
            map shader_resources (passes technique_impl) = [[None], [Some T_view]] \<and>
            (\<forall>pd\<in>set (passes technique_impl).
               \<forall>v r. Some v \<in> set (shader_resources pd) \<longrightarrow>
                      Some r \<in> set (render_targets pd) \<longrightarrow>
                      view_resource v \<noteq> view_resource r)
        | None \<Rightarrow> False)
   | _ \<Rightarrow> False"
proof -
  obtain rt1 where ok: "init_effect warning_compiler 0 two_pass_runtime = Next rt1"
    using warning_load by (cases "init_effect warning_compiler 0 two_pass_runtime") simp_all
  have st: "state_of (init_effect warning_compiler 0 two_pass_runtime) = Some rt1"
    using ok by simp
  have tech: "0 < length (techniques two_pass_runtime)"
    "tech_impl (techniques two_pass_runtime ! 0) = None"
    "effect_index (techniques two_pass_runtime ! 0) = 0"
    by (simp_all add: two_pass_defs)
  note main = init_effect_unbinds_aliased [OF st tech]
  from main ok obtain ti where ti: "tech_impl (techniques rt1 ! 0) = Some ti" by blast
  have res: "map shader_resources (passes ti) = [[None], [Some T_view]]"
    using warning_load ti unfolding ok by simp
  have bind: "texture_bindings ti = [Some T_view]"
    using bindings_load ti unfolding ok by simp
  from main ti have "\<forall>pd\<in>set (passes ti).
               \<forall>v r. Some v \<in> set (shader_resources pd) \<longrightarrow>
                      Some r \<in> set (render_targets pd) \<longrightarrow>
                      view_resource v \<noteq> view_resource r"
    by blast
  with ti res bind show ?thesis unfolding ok by simp
qed

subsection \<open>The sampler state cache\<close>

text \<open>
  Two samplers whose descriptors differ in the level-of-detail fields and have
  the same hash, in 64-bit and in 32-bit arithmetic.
\<close>

definition collision_a :: sampler_info where
  "collision_a =
     \<lparr>unique_name = ''sA'', texture_name = ''T'', binding = 0, texture_binding = 0,
      srgb = False, filter_mode = 0x15, address_u = 1, address_v = 1, address_w = 1,
      min_lod = 0x3d271804, max_lod = 0x429bf9fc, lod_bias = 0x3f4d1bb2\<rparr>"

definition collision_b :: sampler_info where
  "collision_b =
     \<lparr>unique_name = ''sB'', texture_name = ''T'', binding = 1, texture_binding = 0,
      srgb = False, filter_mode = 0x15, address_u = 1, address_v = 1, address_w = 1,
      min_lod = 0xc276110b, max_lod = 0x40e3bcc5, lod_bias = 0x426d7f8d\<rparr>"

definition collision_effect :: effect where
  "collision_effect =
     \<lparr>source_file = ''collision.fx'', preamble = [],
      module = \<lparr>hlsl = [], entry_points = [], samplers = [collision_a, collision_b],
                num_sampler_bindings = 2, num_texture_bindings = 1\<rparr>,
      errors = [], assembly = Map.empty, uniform_data_storage = []\<rparr>"

definition collision_runtime :: runtime_d3d10 where
  "collision_runtime =
     new_runtime\<lparr>device := new_device\<lparr>next_handle := 102\<rparr>,
                 effects := [collision_effect], textures := [T_texture],
                 techniques := [\<lparr>tech_name = ''c'', effect_index = 0, tech_passes = [],
                                 average_gpu_duration = [], tech_impl = None\<rparr>]\<rparr>"

lemma bytes_a:
  "desc_bytes (sampler_desc collision_a) =
     [0x15, 0, 0, 0, 1, 0, 0, 0, 1, 0, 0, 0, 1, 0, 0, 0, 0xb2, 0x1b, 0x4d, 0x3f,
      1, 0, 0, 0, 1, 0, 0, 0, 0, 0, 0, 0, 0, 0, 0, 0, 0, 0, 0, 0, 0, 0, 0, 0,
      0x04, 0x18, 0x27, 0x3d, 0xfc, 0xf9, 0x9b, 0x42]"
  by (simp add: desc_bytes_def sampler_desc_def collision_a_def le32_def drop_bit_eq_div)

lemma bytes_b:
  "desc_bytes (sampler_desc collision_b) =
     [0x15, 0, 0, 0, 1, 0, 0, 0, 1, 0, 0, 0, 1, 0, 0, 0, 0x8d, 0x7f, 0x6d, 0x42,
      1, 0, 0, 0, 1, 0, 0, 0, 0, 0, 0, 0, 0, 0, 0, 0, 0, 0, 0, 0, 0, 0, 0, 0,
      0x0b, 0x11, 0x76, 0xc2, 0xc5, 0xbc, 0xe3, 0x40]"
  by (simp add: desc_bytes_def sampler_desc_def collision_b_def le32_def drop_bit_eq_div)

lemma bytes_T:
  "desc_bytes (sampler_desc T_sampler) =
     [0x15, 0, 0, 0, 3, 0, 0, 0, 3, 0, 0, 0, 3, 0, 0, 0, 0, 0, 0, 0,
      1, 0, 0, 0, 1, 0, 0, 0, 0, 0, 0, 0, 0, 0, 0, 0, 0, 0, 0, 0, 0, 0, 0, 0,
      0, 0, 0, 0, 0, 0, 0x7a, 0x44]"
  by (simp add: desc_bytes_def sampler_desc_def T_sampler_def le32_def drop_bit_eq_div)

lemma hash_a: "(desc_hash (desc_bytes (sampler_desc collision_a)) :: size_t) = 0xd70ed8b6c47516c2"
  unfolding bytes_a by (simp add: desc_hash_def)

lemma hash_b: "(desc_hash (desc_bytes (sampler_desc collision_b)) :: size_t) = 0xd70ed8b6c47516c2"
  unfolding bytes_b by (simp add: desc_hash_def)

lemma hash_a32: "(desc_hash (desc_bytes (sampler_desc collision_a)) :: 32 word) = 0xc47516c2"
  unfolding bytes_a by (simp add: desc_hash_def)

lemma hash_b32: "(desc_hash (desc_bytes (sampler_desc collision_b)) :: 32 word) = 0xc47516c2"
  unfolding bytes_b by (simp add: desc_hash_def)

lemma hash_T:
  "(desc_hash (desc_bytes (sampler_desc T_sampler)) :: size_t) \<noteq> 0xd70ed8b6c47516c2"
  unfolding bytes_T by (simp add: desc_hash_def)

lemma unload_effect_cache:
  "effect_sampler_states (unload_effect base index rt) = effect_sampler_states rt"
  "device (unload_effect base index rt) = device rt"
  by (simp_all add: unload_effect_def call_base_def Let_def split: prod.splits)

lemma unload_effects_cache:
  "effect_sampler_states (unload_effects base rt) = Map.empty"
  by (simp add: unload_effects_def call_base_def Let_def split: prod.splits)

text \<open>
  C2 (amended). Take two sampler descriptors that pass through the cache, the
  second at a time when the cache still holds what it held after the first
  (no \<open>unload_effects\<close> in between). They get the same sampler state object
  exactly when their hashes are equal: so descriptors with equal bytes get
  the same object, and descriptors with different hashes get different
  objects. The cache stays sound. \<open>init_effect\<close> only adds to the cache,
  whatever it returns, \<open>unload_effect\<close> leaves it as it is, and
  \<open>unload_effects\<close> empties it.
\<close>

theorem sampler_cache_by_hash:
  "(get_sampler_state desc1 name1 rt1 = Next (h1, rt1') \<longrightarrow>
    effect_sampler_states rt1' \<subseteq>\<^sub>m effect_sampler_states rt2 \<longrightarrow>
    cache_ok rt2 \<longrightarrow>
    get_sampler_state desc2 name2 rt2 = Next (h2, rt2') \<longrightarrow>
      (h1 = h2 \<longleftrightarrow> (desc_hash (desc_bytes desc1) :: size_t) = desc_hash (desc_bytes desc2)) \<and>
      (desc_bytes desc1 = desc_bytes desc2 \<longrightarrow> h1 = h2) \<and>
      effect_sampler_states rt2 \<subseteq>\<^sub>m effect_sampler_states rt2' \<and>
      cache_ok rt2') \<and>
   (state_of (init_effect env index rt) = Some rt' \<longrightarrow>
      effect_sampler_states rt \<subseteq>\<^sub>m effect_sampler_states rt' \<and>
      (cache_ok rt \<longrightarrow> cache_ok rt')) \<and>
   effect_sampler_states (unload_effect base_unload_effect index rt) = effect_sampler_states rt \<and>
   (cache_ok rt \<longrightarrow> cache_ok (unload_effect base_unload_effect index rt)) \<and>
   effect_sampler_states (unload_effects base_unload_effects rt) = Map.empty \<and>
   cache_ok (unload_effects base_unload_effects rt)"
proof -
  have pair: "(h1 = h2 \<longleftrightarrow> (desc_hash (desc_bytes desc1) :: size_t) = desc_hash (desc_bytes desc2)) \<and>
      (desc_bytes desc1 = desc_bytes desc2 \<longrightarrow> h1 = h2) \<and>
      effect_sampler_states rt2 \<subseteq>\<^sub>m effect_sampler_states rt2' \<and>
      cache_ok rt2'"
    if first: "get_sampler_state desc1 name1 rt1 = Next (h1, rt1')"
      and kept: "effect_sampler_states rt1' \<subseteq>\<^sub>m effect_sampler_states rt2"
      and ok: "cache_ok rt2"
      and second: "get_sampler_state desc2 name2 rt2 = Next (h2, rt2')"
  proof -
    define k1 :: size_t where "k1 = desc_hash (desc_bytes desc1)"
    define k2 :: size_t where "k2 = desc_hash (desc_bytes desc2)"
    note s = get_sampler_state_Next [OF second]
    have "effect_sampler_states rt1' k1 = Some h1"
      using get_sampler_state_Next(1) [OF first] by (simp add: k1_def)
    then have "effect_sampler_states rt2 k1 = Some h1"
      using kept by (auto simp: map_le_def dom_def)
    then have e1: "effect_sampler_states rt2' k1 = Some h1"
      using s(2) by (auto simp: map_le_def dom_def)
    have e2: "effect_sampler_states rt2' k2 = Some h2"
      using s(1) by (simp add: k2_def)
    have ok': "cache_ok rt2'" using s(3) ok by simp
    have "k1 = k2" if "h1 = h2"
      using ok' e1 e2 that by (auto simp: cache_ok_def inj_on_def dom_def)
    moreover have "h1 = h2" if "k1 = k2"
      using e1 e2 that by simp
    ultimately have iff: "h1 = h2 \<longleftrightarrow> k1 = k2" by blast
    moreover have "desc_bytes desc1 = desc_bytes desc2 \<longrightarrow> k1 = k2"
      by (simp add: k1_def k2_def)
    ultimately show ?thesis using s(2) ok' unfolding k1_def k2_def by blast
  qed
  have load: "effect_sampler_states rt \<subseteq>\<^sub>m effect_sampler_states rt' \<and>
      (cache_ok rt \<longrightarrow> cache_ok rt')"
    if "state_of (init_effect env index rt) = Some rt'"
    using init_effect_frame [OF that] by simp
  have one: "cache_ok rt \<longrightarrow> cache_ok (unload_effect base_unload_effect index rt)"
    by (simp add: cache_ok_def unload_effect_cache)
  have all: "cache_ok (unload_effects base_unload_effects rt)"
    by (simp add: cache_ok_def unload_effects_cache)
  from pair load one all show ?thesis
    by (simp add: unload_effect_cache unload_effects_cache)
qed

lemma collision_fields:
  "unique_name collision_a = ''sA''" "texture_name collision_a = ''T''"
  "binding collision_a = 0" "texture_binding collision_a = 0" "srgb collision_a = False"
  "unique_name collision_b = ''sB''" "texture_name collision_b = ''T''"
  "binding collision_b = 1" "texture_binding collision_b = 0" "srgb collision_b = False"
  by (simp_all add: collision_a_def collision_b_def)

lemmas collision_defs =
  collision_effect_def collision_runtime_def T_texture_def T_view_def compiler_installed_def
  no_compiler_def new_runtime_def new_device_def

lemma replicate_2: "replicate 2 x = [x, x]"
  by (simp add: numeral_2_eq_2)

lemma collision_load:
  "case init_effect compiler_installed 0 collision_runtime of
     Next rt' \<Rightarrow>
       map_option sampler_states (tech_impl (techniques rt' ! 0)) = Some [Some 102, Some 102] \<and>
       effect_sampler_states rt' = [0xd70ed8b6c47516c2 \<mapsto> 102]
   | _ \<Rightarrow> False"
  by (simp add: init_effect_defs collision_defs collision_fields hash_a hash_b replicate_2)

theorem sampler_cache_by_hash_witness:
  "(case get_sampler_state (sampler_desc T_sampler) ''sT'' two_pass_runtime of
      Next (h1, rt1) \<Rightarrow>
        (case get_sampler_state (sampler_desc collision_a) ''sA'' rt1 of
           Next (h2, rt2) \<Rightarrow>
             h1 \<noteq> h2 \<and> cache_ok rt2 \<and>
             (case get_sampler_state (sampler_desc T_sampler) ''sT'' rt2 of
                Next (h3, rt3) \<Rightarrow> h1 = h3 \<and> cache_ok rt3
              | _ \<Rightarrow> False)
         | _ \<Rightarrow> False)
    | _ \<Rightarrow> False) \<and>
   (case init_effect compiler_installed 0 collision_runtime of
      Next rt' \<Rightarrow> effect_sampler_states collision_runtime \<subseteq>\<^sub>m effect_sampler_states rt' \<and>
                  cache_ok rt'
    | _ \<Rightarrow> False) \<and>
   cache_ok (unload_effect (\<lambda>i s. s) 0 collision_runtime)"
proof -
  define kT :: size_t where "kT = desc_hash (desc_bytes (sampler_desc T_sampler))"
  define kA :: size_t where "kA = 0xd70ed8b6c47516c2"
  have differ: "kT \<noteq> kA" "kA \<noteq> kT"
    using hash_T by (auto simp: kT_def kA_def)
  define rtA where "rtA = two_pass_runtime
    \<lparr>device := new_device\<lparr>next_handle := 103, num_calls := 1\<rparr>,
     effect_sampler_states := [kT \<mapsto> 102]\<rparr>"
  define rtB where "rtB = two_pass_runtime
    \<lparr>device := new_device\<lparr>next_handle := 104, num_calls := 2\<rparr>,
     effect_sampler_states := [kT \<mapsto> 102, kA \<mapsto> 103]\<rparr>"
  have first: "get_sampler_state (sampler_desc T_sampler) ''sT'' two_pass_runtime = Next (102, rtA)"
    by (simp add: get_sampler_state_def create_object_def Let_def rtA_def kT_def
        two_pass_runtime_def new_runtime_def new_device_def)
  have second: "get_sampler_state (sampler_desc collision_a) ''sA'' rtA = Next (103, rtB)"
    using differ
    by (simp add: get_sampler_state_def create_object_def Let_def rtA_def rtB_def hash_a
        kA_def [symmetric] two_pass_runtime_def new_runtime_def new_device_def)
  have third: "get_sampler_state (sampler_desc T_sampler) ''sT'' rtB = Next (102, rtB)"
    using differ
    by (simp add: get_sampler_state_def Let_def rtB_def kT_def [symmetric]
        two_pass_runtime_def new_runtime_def new_device_def)
  have okA: "cache_ok rtA"
    by (simp add: cache_ok_def rtA_def two_pass_runtime_def new_runtime_def new_device_def)
  have keys: "(desc_hash (desc_bytes (sampler_desc T_sampler)) :: size_t) \<noteq>
      desc_hash (desc_bytes (sampler_desc collision_a))"
    using hash_T by (simp add: hash_a)
  have ab: "102 \<noteq> (103 :: nat) \<and> cache_ok rtB"
    using sampler_cache_by_hash [of "sampler_desc T_sampler" "''sT''" two_pass_runtime 102 rtA rtA
        "sampler_desc collision_a" "''sA''" 103 rtB]
      first second okA keys
    by simp
  have ac: "cache_ok rtB"
    using sampler_cache_by_hash [of "sampler_desc T_sampler" "''sT''" two_pass_runtime 102 rtA rtB
        "sampler_desc T_sampler" "''sT''" 102 rtB]
      first third ab get_sampler_state_Next(2) [OF second]
    by simp
  obtain rtC where load: "init_effect compiler_installed 0 collision_runtime = Next rtC"
    using collision_load by (cases "init_effect compiler_installed 0 collision_runtime") simp_all
  have ok0: "cache_ok collision_runtime"
    by (simp add: cache_ok_def collision_runtime_def new_runtime_def)
  have grown: "effect_sampler_states collision_runtime \<subseteq>\<^sub>m effect_sampler_states rtC \<and>
      cache_ok rtC"
    using sampler_cache_by_hash [of _ _ _ _ _ _ _ _ _ _ compiler_installed 0 collision_runtime rtC]
      load ok0
    by simp
  have unl: "cache_ok (unload_effect (\<lambda>i s. s) 0 collision_runtime)"
    using sampler_cache_by_hash [of _ _ _ _ _ _ _ _ _ _ _ 0 collision_runtime _ "\<lambda>i s. s"] ok0
    by simp
  show ?thesis
    using ab ac grown unl by (simp add: first second third load)
qed

text \<open>
  The effect has two samplers whose descriptors differ in three fields; both
  bindings of the technique get the sampler state object created for the
  first, and the cache holds one object.
\<close>

theorem sampler_cache_by_hash_counterexample:
  "desc_bytes (sampler_desc collision_a) \<noteq> desc_bytes (sampler_desc collision_b) \<and>
   (case init_effect compiler_installed 0 collision_runtime of
      Next rt' \<Rightarrow>
        map_option sampler_states (tech_impl (techniques rt' ! 0)) = Some [Some 102, Some 102] \<and>
        effect_sampler_states rt' = [0xd70ed8b6c47516c2 \<mapsto> 102]
    | _ \<Rightarrow> False)"
  using collision_load by (simp add: bytes_a bytes_b)

end
